(* ===== verification/Prelude.thy ===== *)
theory Prelude
  imports Main "HOL-Library.Word" "HOL-Library.Signed_Division"
begin

text \<open>
  Shared vocabulary of the gtransform development.  The C sources run on a
  32-bit ARM target: \<open>int\<close> is 32 bits wide, signed values are two's
  complement, a conversion to a narrower signed type keeps the low bits, and
  \<open>>>\<close> on a negative value shifts arithmetically.  The C integer types are
  therefore words of their width: \<open>int16_t\<close> is \<open>int16\<close>, \<open>int32_t\<close> (and
  \<open>int\<close>) is \<open>int32\<close>, \<open>int64_t\<close> is \<open>int64\<close>, and the unsigned
  \<open>uint8_t\<close> and \<open>uint16_t\<close> are \<open>uint8\<close> and \<open>uint16\<close>, read with \<open>uint\<close>.  A value is read as a
  mathematical integer with \<open>sint\<close>; a C conversion of an integer into a
  signed type of width \<open>w\<close> is \<open>word_of_int\<close>; \<open>scast\<close> is the C cast
  between signed types; \<open>signed_drop_bit n\<close> is \<open>>> n\<close> on a signed value;
  C's truncating \<open>/\<close> and \<open>%\<close> on \<open>int\<close> are \<open>sdiv\<close> and \<open>smod\<close>.

  The lemmas below read these conversions back as integer arithmetic; they are
  collected in \<open>c_int_simps\<close>, which the component proofs use.
\<close>

type_synonym int16 = "16 word"
type_synonym int32 = "32 word"
type_synonym int64 = "64 word"
type_synonym uint8 = "8 word"
type_synonym uint16 = "16 word"

named_theorems c_int_simps "reading C integer conversions as integer arithmetic"
named_theorems fixed_simps "raw values of the fixed-point constants and operations"

unbundle bit_operations_syntax

text \<open>\<open>n\<close>-fold application, argument first: the form of \<open>f ^^ n\<close> that
  evaluation by rewriting computes step by step.\<close>

primrec iterate :: "nat \<Rightarrow> ('a \<Rightarrow> 'a) \<Rightarrow> 'a \<Rightarrow> 'a" where
  "iterate 0 f x = x"
| "iterate (Suc n) f x = iterate n f (f x)"

subsection \<open>Ranges of signed words\<close>

lemma sint_range16 [c_int_simps]:
  "- 32768 \<le> sint (x::int16)" "sint (x::int16) < 32768"
  using sint_greater_eq[of x] sint_less[of x] by simp_all

lemma sint_range32 [c_int_simps]:
  "- 2147483648 \<le> sint (x::int32)" "sint (x::int32) < 2147483648"
  using sint_greater_eq[of x] sint_less[of x] by simp_all

lemma sint_eq_iff [simp]: "sint a = sint b \<longleftrightarrow> a = b"
  by (rule word_eq_iff_signed [symmetric])

lemma sint_eq_0_iff [simp]: "sint a = 0 \<longleftrightarrow> a = 0"
  using sint_eq_iff[of a 0] by simp

lemma sint_word_of_int_in_range:
  assumes "- (2 ^ (LENGTH('a) - 1)) \<le> x" and "x < 2 ^ (LENGTH('a) - 1)"
  shows "sint (word_of_int x :: 'a::len word) = x"
  using assms by (simp add: sint_sbintrunc' signed_take_bit_int_eq_self)

lemma sint_word_of_int16 [c_int_simps]:
  "- 32768 \<le> x \<Longrightarrow> x < 32768 \<Longrightarrow> sint (word_of_int x :: int16) = x"
  by (rule sint_word_of_int_in_range) simp_all

lemma sint_word_of_int32 [c_int_simps]:
  "- 2147483648 \<le> x \<Longrightarrow> x < 2147483648 \<Longrightarrow> sint (word_of_int x :: int32) = x"
  by (rule sint_word_of_int_in_range) simp_all

lemma word_of_int_sint_id:
  "(word_of_int (sint w) :: 'a::len word) = w"
  by simp

subsection \<open>Widening casts\<close>

lemma sint_scast_widen:
  assumes "LENGTH('a) \<le> LENGTH('b)"
  shows "sint (scast (x::'a::len word) :: 'b::len word) = sint x"
proof -
  have "(2::int) ^ (LENGTH('a) - Suc 0) \<le> 2 ^ (LENGTH('b) - Suc 0)"
    using assms by (simp add: power_increasing)
  then have "- (2 ^ (LENGTH('b) - Suc 0)) \<le> sint x" "sint x < 2 ^ (LENGTH('b) - Suc 0)"
    using sint_greater_eq[of x] sint_less[of x] by linarith+
  then show ?thesis
    by (simp add: signed_scast_eq signed_take_bit_int_eq_self)
qed

lemma sint_scast_16_32 [c_int_simps]: "sint (scast (x::int16) :: int32) = sint x"
  by (rule sint_scast_widen) simp

lemma sint_scast_16_64 [c_int_simps]: "sint (scast (x::int16) :: int64) = sint x"
  by (rule sint_scast_widen) simp

lemma sint_scast_32_64 [c_int_simps]: "sint (scast (x::int32) :: int64) = sint x"
  by (rule sint_scast_widen) simp

lemma scast_scast_16_32_64: "(scast (scast (x::int16) :: int32) :: int64) = scast x"
proof -
  have "(scast (scast x :: int32) :: int64) = word_of_int (sint (scast x :: int32))"
    by (rule scast_eq)
  also have "\<dots> = scast x"
    by (subst sint_scast_16_32) (rule scast_eq [symmetric])
  finally show ?thesis .
qed

subsection \<open>Products, shifts and narrowing\<close>

text \<open>A product of two \<open>int32_t\<close> values computed in \<open>int64_t\<close> never overflows.\<close>

lemma sint_prod64 [c_int_simps]:
  "sint ((scast (a::int32) :: int64) * scast (b::int32)) = sint a * sint b"
proof -
  have ba: "\<bar>sint a\<bar> \<le> 2 ^ 31" and bb: "\<bar>sint b\<bar> \<le> 2 ^ 31"
    using sint_range32[of a] sint_range32[of b] by auto
  have "\<bar>sint a * sint b\<bar> \<le> 2 ^ 31 * 2 ^ 31"
    unfolding abs_mult by (rule mult_mono) (use ba bb in auto)
  then have "- (2 ^ 63) \<le> sint a * sint b" "sint a * sint b < 2 ^ 63"
    by auto
  then show ?thesis
    by (simp add: sint_word_ariths sint_scast_32_64 signed_take_bit_int_eq_self)
qed

lemma sint_prod32 [c_int_simps]:
  "sint ((scast (a::int16) :: int32) * (b::int32)) = signed_take_bit 31 (sint a * sint b)"
  by (simp add: sint_word_ariths sint_scast_16_32)

lemma sint_signed_drop_bit_div [c_int_simps]:
  "sint (signed_drop_bit n (w::'a::len word)) = sint w div 2 ^ n"
  by (simp add: sint_signed_drop_bit_eq drop_bit_eq_div)

lemma scast_signed_drop_bit:
  "(scast (signed_drop_bit n (w::'a::len word)) :: 'b::len word) = word_of_int (sint w div 2 ^ n)"
  by (simp add: scast_eq sint_signed_drop_bit_div)

text \<open>
  Narrowing \<open>(x >> 16)\<close> to 16 bits keeps bits 16 to 31 of \<open>x\<close> only, so a
  wrap-around of \<open>x\<close> modulo \<open>2^32\<close> does not change it.
\<close>

lemma narrow_shift_wrap:
  "(word_of_int (signed_take_bit 31 x div 65536) :: int16) = word_of_int (x div 65536)"
proof -
  have "take_bit 16 (drop_bit 16 (signed_take_bit 31 x)) = take_bit 16 (drop_bit 16 x)"
    by (simp add: take_bit_drop_bit take_bit_signed_take_bit)
  then show ?thesis
    by (simp add: word_of_int_eq_iff drop_bit_eq_div)
qed

subsection \<open>Bit fields\<close>

text \<open>
  A C bit-field pair \<open>{unsigned low:n; signed high:...}\<close> over one raw value:
  packing the fields is an \<open>OR\<close> of disjoint bits, reading the low field is a
  mask, and on a signed raw value the mask is the non-negative remainder.
\<close>

lemma bitfield_pack: "push_bit n (i::int) OR take_bit n f = push_bit n i + take_bit n f"
  by (subst disjunctive_add) (auto simp: bit_simps)

lemma uint_and_mask_take_bit: "uint ((x::'a::len word) AND mask n) = take_bit n (uint x)"
  by (simp flip: take_bit_eq_mask add: unsigned_take_bit_eq)

lemma take_bit_uint_sint:
  "n \<le> LENGTH('a) \<Longrightarrow> take_bit n (uint (x::'a::len word)) = take_bit n (sint x)"
  by (simp add: uint_sint min_def)

lemma uint_and_mask_sint [c_int_simps]:
  "n \<le> LENGTH('a) \<Longrightarrow> uint ((x::'a::len word) AND mask n) = sint x mod 2 ^ n"
  by (simp add: uint_and_mask_take_bit take_bit_uint_sint flip: take_bit_eq_mod)

lemma bitfield_view_pack:
  assumes "n \<le> LENGTH('a)"
  shows "word_of_int (push_bit n (sint (signed_drop_bit n x)) OR take_bit n (uint (x AND mask n)))
           = (x::'a::len word)"
proof -
  have "push_bit n (sint (signed_drop_bit n x)) + take_bit n (uint (x AND mask n)) = sint x"
    using assms by (simp add: uint_and_mask_sint sint_signed_drop_bit_div push_bit_eq_mult
        take_bit_eq_mod div_mult_mod_eq)
  then show ?thesis
    by (simp only: bitfield_pack of_int_sint scast_id)
qed

subsection \<open>Floor division\<close>

lemma floor_div_bounds:
  "(0::int) < d \<Longrightarrow> d * (x div d) \<le> x \<and> x < d * (x div d + 1)"
proof -
  assume d: "0 < d"
  have "d * (x div d) + x mod d = x" "0 \<le> x mod d" "x mod d < d"
    using d by (simp_all add: mult_div_mod_eq)
  then show ?thesis
    unfolding distrib_left mult_1_right by linarith
qed

subsection \<open>Wrapping arithmetic\<close>

lemma word_of_int_sint_add [c_int_simps]:
  "(word_of_int (sint a + sint b) :: 'a::len word) = a + b"
  by (simp add: wi_hom_syms)

lemma word_of_int_sint_diff [c_int_simps]:
  "(word_of_int (sint a - sint b) :: 'a::len word) = a - b"
  by (simp add: wi_hom_syms)

lemma word_of_int_sint_add3 [c_int_simps]:
  "(word_of_int (sint a + sint b + sint c) :: 'a::len word) = a + b + c"
  by (simp add: wi_hom_syms)

subsection \<open>Bounded products\<close>

lemma abs_prod_le:
  "\<bar>x\<bar> \<le> (m::int) \<Longrightarrow> \<bar>y\<bar> \<le> n \<Longrightarrow> \<bar>x * y\<bar> \<le> m * n"
  by (simp add: abs_mult mult_mono')

subsection \<open>Divisibility of products\<close>

text \<open>\<open>d * c * k\<close> vanishes modulo \<open>d * m\<close> exactly when \<open>m\<close> divides \<open>k\<close>,
  given a Bezout certificate that \<open>c\<close> is invertible modulo \<open>m\<close>.\<close>

lemma mult_mod_eq_0_iff_dvd:
  assumes "u * c + v * int m = 1" "0 < (d::int)"
  shows "(d * c * int k) mod (d * int m) = 0 \<longleftrightarrow> m dvd k"
proof -
  have "(d * c * int k) mod (d * int m) = 0 \<longleftrightarrow> d * int m dvd d * (c * int k)"
    by (simp add: dvd_eq_mod_eq_0 mult.assoc)
  also have "\<dots> \<longleftrightarrow> int m dvd c * int k"
    using assms(2) by simp
  also have "\<dots> \<longleftrightarrow> int m dvd int k"
  proof
    assume "int m dvd c * int k"
    then have "int m dvd u * (c * int k) + (v * int k) * int m" by simp
    also have "u * (c * int k) + (v * int k) * int m = (u * c + v * int m) * int k"
      by (simp add: algebra_simps)
    finally show "int m dvd int k" using assms(1) by simp
  qed simp
  finally show ?thesis by simp
qed

subsection \<open>Iteration\<close>

lemma iterate_funpow: "iterate n f x = (f ^^ n) x"
  by (induction n arbitrary: x) (simp_all add: funpow_Suc_right del: funpow.simps)

lemma iterate_Suc_last: "iterate (Suc n) f x = f (iterate n f x)"
  by (simp only: iterate_funpow funpow.simps comp_apply)

end
