(* ===== verification/Math_Fixed.thy ===== *)
theory Math_Fixed
  imports Prelude
begin

text \<open>
  The fixed-point scalars of \<^verbatim>\<open>src/math_fixed.h\<close>.  Each C type is a union of
  a raw two's-complement value and a bit-field view (an unsigned fraction in the
  low bits, a signed integer part above it).  The raw value is the single source
  of truth, so a scalar is modelled as its raw word; the two views are
  functions of it, and the designated initialisers \<open>{.integer = i, .fraction = f}\<close>
  are \<open>Fixed_S16_3_of_parts\<close> and \<open>Fixed_S32_16_of_parts\<close>.  Every operation
  follows the C expression: operands are promoted to \<open>int\<close> (32 bits),
  combined, and converted back into the raw field.
\<close>

unbundle bit_operations_syntax

subsection \<open>\<open>Fixed_S16_3\<close>: 1 sign bit, 12 integer bits, 3 fraction bits\<close>

type_synonym Fixed_S16_3 = int16

definition FIXED_S16_3_PRECISION :: nat where
  "FIXED_S16_3_PRECISION = 3"

text \<open>The bit-field view: \<open>uint16_t fraction:3; int16_t integer:13;\<close>.\<close>

definition Fixed_S16_3_integer :: "Fixed_S16_3 \<Rightarrow> int" where
  "Fixed_S16_3_integer x = sint (signed_drop_bit 3 x)"

definition Fixed_S16_3_fraction :: "Fixed_S16_3 \<Rightarrow> int" where
  "Fixed_S16_3_fraction x = uint (x AND mask 3)"

definition Fixed_S16_3_of_parts :: "int \<Rightarrow> int \<Rightarrow> Fixed_S16_3" where
  "Fixed_S16_3_of_parts i f = word_of_int (push_bit 3 i OR take_bit 3 f)"

definition FIXED_S16_3_ZERO :: Fixed_S16_3 where
  "FIXED_S16_3_ZERO = Fixed_S16_3_of_parts 0 0"

definition FIXED_S16_3_ONE :: Fixed_S16_3 where
  "FIXED_S16_3_ONE = Fixed_S16_3_of_parts 1 0"

text \<open>\<open>Fixed_S16_3(raw)\<close> initialises the raw field from an \<open>int\<close>, narrowing it.\<close>

definition Fixed_S16_3 :: "int \<Rightarrow> Fixed_S16_3" where
  "Fixed_S16_3 raw = word_of_int raw"

definition Fixed_S16_3_add :: "Fixed_S16_3 \<Rightarrow> Fixed_S16_3 \<Rightarrow> Fixed_S16_3" where
  "Fixed_S16_3_add a b = Fixed_S16_3 (sint a + sint b)"

definition Fixed_S16_3_sub :: "Fixed_S16_3 \<Rightarrow> Fixed_S16_3 \<Rightarrow> Fixed_S16_3" where
  "Fixed_S16_3_sub a b = Fixed_S16_3 (sint a - sint b)"

definition Fixed_S16_3_add3 :: "Fixed_S16_3 \<Rightarrow> Fixed_S16_3 \<Rightarrow> Fixed_S16_3 \<Rightarrow> Fixed_S16_3" where
  "Fixed_S16_3_add3 a b c = Fixed_S16_3 (sint a + sint b + sint c)"

definition Fixed_S16_3_equal :: "Fixed_S16_3 \<Rightarrow> Fixed_S16_3 \<Rightarrow> bool" where
  "Fixed_S16_3_equal a b = (sint a = sint b)"

subsection \<open>\<open>Fixed_S32_16\<close>: 1 sign bit, 15 integer bits, 16 fraction bits\<close>

type_synonym Fixed_S32_16 = int32

definition FIXED_S32_16_PRECISION :: nat where
  "FIXED_S32_16_PRECISION = 16"

definition Fixed_S32_16_integer :: "Fixed_S32_16 \<Rightarrow> int" where
  "Fixed_S32_16_integer x = sint (signed_drop_bit 16 x)"

definition Fixed_S32_16_fraction :: "Fixed_S32_16 \<Rightarrow> int" where
  "Fixed_S32_16_fraction x = uint (x AND mask 16)"

definition Fixed_S32_16_of_parts :: "int \<Rightarrow> int \<Rightarrow> Fixed_S32_16" where
  "Fixed_S32_16_of_parts i f = word_of_int (push_bit 16 i OR take_bit 16 f)"

definition FIXED_S32_16_ONE :: Fixed_S32_16 where
  "FIXED_S32_16_ONE = Fixed_S32_16_of_parts 1 0"

text \<open>
  \<open>(int32_t)((((int64_t) a.raw_value * (int64_t) b.raw_value)) >> 16)\<close>: both
  operands widened to 64 bits, multiplied, shifted arithmetically, narrowed.
\<close>

definition Fixed_S32_16_mul :: "Fixed_S32_16 \<Rightarrow> Fixed_S32_16 \<Rightarrow> Fixed_S32_16" where
  "Fixed_S32_16_mul a b =
     scast (signed_drop_bit FIXED_S32_16_PRECISION ((scast a :: int64) * scast b))"

definition Fixed_S32_16 :: "int \<Rightarrow> Fixed_S32_16" where
  "Fixed_S32_16 raw = word_of_int raw"

definition Fixed_S32_16_add :: "Fixed_S32_16 \<Rightarrow> Fixed_S32_16 \<Rightarrow> Fixed_S32_16" where
  "Fixed_S32_16_add a b = Fixed_S32_16 (sint a + sint b)"

definition Fixed_S32_16_add3 :: "Fixed_S32_16 \<Rightarrow> Fixed_S32_16 \<Rightarrow> Fixed_S32_16 \<Rightarrow> Fixed_S32_16" where
  "Fixed_S32_16_add3 a b c = Fixed_S32_16 (sint a + sint b + sint c)"

subsection \<open>Mixed operation\<close>

text \<open>
  \<open>Fixed_S16_3(a.raw_value * b.raw_value >> 16)\<close>: the \<open>int16_t\<close> operand is
  promoted to \<open>int\<close>, so the product is formed in 32 bits, shifted, and
  narrowed to 16 bits.  \<open>Fixed_S16_3_S32_16_mul_wide\<close> is the reference of the
  design notes, with the product formed in 64 bits.
\<close>

definition Fixed_S16_3_S32_16_mul :: "Fixed_S16_3 \<Rightarrow> Fixed_S32_16 \<Rightarrow> Fixed_S16_3" where
  "Fixed_S16_3_S32_16_mul a b =
     scast (signed_drop_bit FIXED_S32_16_PRECISION ((scast a :: int32) * b))"

definition Fixed_S16_3_S32_16_mul_wide :: "Fixed_S16_3 \<Rightarrow> Fixed_S32_16 \<Rightarrow> Fixed_S16_3" where
  "Fixed_S16_3_S32_16_mul_wide a b =
     scast (signed_drop_bit FIXED_S32_16_PRECISION ((scast a :: int64) * scast b))"

subsection \<open>Raw values of the constants and operations\<close>

lemma FIXED_S16_3_ONE_raw [fixed_simps]: "FIXED_S16_3_ONE = 8"
  by (simp add: FIXED_S16_3_ONE_def Fixed_S16_3_of_parts_def)

lemma FIXED_S16_3_ZERO_raw [fixed_simps]: "FIXED_S16_3_ZERO = 0"
  by (simp add: FIXED_S16_3_ZERO_def Fixed_S16_3_of_parts_def)

lemma FIXED_S32_16_ONE_raw [fixed_simps]: "FIXED_S32_16_ONE = 65536"
  by (simp add: FIXED_S32_16_ONE_def Fixed_S32_16_of_parts_def)

lemma Fixed_S16_3_add_word [fixed_simps]: "Fixed_S16_3_add a b = a + b"
  by (simp add: Fixed_S16_3_add_def Fixed_S16_3_def c_int_simps)

lemma Fixed_S16_3_sub_word [fixed_simps]: "Fixed_S16_3_sub a b = a - b"
  by (simp add: Fixed_S16_3_sub_def Fixed_S16_3_def c_int_simps)

lemma Fixed_S16_3_add3_word [fixed_simps]: "Fixed_S16_3_add3 a b c = a + b + c"
  by (simp add: Fixed_S16_3_add3_def Fixed_S16_3_def c_int_simps)

lemma Fixed_S16_3_equal_iff [fixed_simps]: "Fixed_S16_3_equal a b \<longleftrightarrow> a = b"
  by (auto simp: Fixed_S16_3_equal_def intro: signed_word_eqI)

lemma Fixed_S32_16_add_word [fixed_simps]: "Fixed_S32_16_add a b = a + b"
  by (simp add: Fixed_S32_16_add_def Fixed_S32_16_def c_int_simps)

lemma Fixed_S32_16_add3_word [fixed_simps]: "Fixed_S32_16_add3 a b c = a + b + c"
  by (simp add: Fixed_S32_16_add3_def Fixed_S32_16_def c_int_simps)

text \<open>The 64-bit product never overflows, so the multiplication is the floor of
  the exact scaled product, wrapped to 32 bits.\<close>

lemma Fixed_S32_16_mul_word [fixed_simps]:
  "Fixed_S32_16_mul a b = word_of_int ((sint a * sint b) div 65536)"
  by (simp add: Fixed_S32_16_mul_def FIXED_S32_16_PRECISION_def scast_signed_drop_bit sint_prod64)

lemma Fixed_S16_3_S32_16_mul_word [fixed_simps]:
  "Fixed_S16_3_S32_16_mul a b = word_of_int ((sint a * sint b) div 65536)"
  by (simp add: Fixed_S16_3_S32_16_mul_def FIXED_S32_16_PRECISION_def scast_signed_drop_bit
      sint_prod32 narrow_shift_wrap)

lemma Fixed_S16_3_S32_16_mul_wide_word:
  "Fixed_S16_3_S32_16_mul_wide a b = word_of_int ((sint a * sint b) div 65536)"
  by (simp add: Fixed_S16_3_S32_16_mul_wide_def FIXED_S32_16_PRECISION_def scast_signed_drop_bit
      sint_prod64 sint_scast_16_32 flip: scast_scast_16_32_64)

subsection \<open>Multiplication by one and zero\<close>

lemma Fixed_S32_16_mul_one_right [simp]: "Fixed_S32_16_mul a FIXED_S32_16_ONE = a"
  by (simp add: fixed_simps)

lemma Fixed_S32_16_mul_one_left [simp]: "Fixed_S32_16_mul FIXED_S32_16_ONE a = a"
  by (simp add: fixed_simps)

lemma Fixed_S32_16_mul_zero_right [simp]: "Fixed_S32_16_mul a 0 = 0"
  by (simp add: fixed_simps)

lemma Fixed_S32_16_mul_zero_left [simp]: "Fixed_S32_16_mul 0 a = 0"
  by (simp add: fixed_simps)

lemma Fixed_S16_3_S32_16_mul_one [simp]: "Fixed_S16_3_S32_16_mul a FIXED_S32_16_ONE = a"
  by (simp add: fixed_simps)

lemma Fixed_S16_3_S32_16_mul_zero [simp]: "Fixed_S16_3_S32_16_mul a 0 = 0"
  by (simp add: fixed_simps)

subsection \<open>Correctness of the scalar operations\<close>

text \<open>Claim C3.  \<open>Fixed_S32_16_mul\<close> rounds towards minus infinity: when the
  exact scaled product \<open>a * b / 2^16\<close> fits in 32 bits, the raw result is its
  floor, so the result is at most the exact product and less than one unit of
  \<open>2^-16\<close> below it.\<close>

theorem Fixed_S32_16_mul_floor:
  assumes "- 2147483648 \<le> (sint a * sint b) div 65536"
    and "(sint a * sint b) div 65536 < 2147483648"
  shows "sint (Fixed_S32_16_mul a b) = (sint a * sint b) div 65536 \<and>
         65536 * sint (Fixed_S32_16_mul a b) \<le> sint a * sint b \<and>
         sint a * sint b < 65536 * (sint (Fixed_S32_16_mul a b) + 1)"
proof -
  have r: "sint (Fixed_S32_16_mul a b) = (sint a * sint b) div 65536"
    using assms by (simp add: fixed_simps c_int_simps)
  then show ?thesis
    using floor_div_bounds[of 65536 "sint a * sint b"] by simp
qed

text \<open>Claim C4.  The mixed multiplication forms the product of the promoted
  operands in 32-bit \<open>int\<close>, where it may wrap; narrowed to 16 bits, its result is
  still that of the 64-bit product the design notes ask for.\<close>

theorem Fixed_S16_3_S32_16_mul_eq_wide:
  "Fixed_S16_3_S32_16_mul a b = Fixed_S16_3_S32_16_mul_wide a b"
  by (simp add: Fixed_S16_3_S32_16_mul_word Fixed_S16_3_S32_16_mul_wide_word)

text \<open>Claim C22.  The bit-field view of a \<open>Fixed_S16_3\<close>: the raw value is eight
  times the integer part plus a fraction in \<open>[0, 8)\<close>, the fraction being a
  non-negative addition to the integer part also for negative values.\<close>

theorem Fixed_S16_3_view_decompose:
  "sint x = 8 * Fixed_S16_3_integer x + Fixed_S16_3_fraction x \<and>
   0 \<le> Fixed_S16_3_fraction x \<and> Fixed_S16_3_fraction x < 8"
  by (simp add: Fixed_S16_3_integer_def Fixed_S16_3_fraction_def c_int_simps)

text \<open>Writing back the two bit fields read from a \<open>Fixed_S16_3\<close>
  rebuilds its raw value.\<close>

theorem Fixed_S16_3_of_parts_view:
  "Fixed_S16_3_of_parts (Fixed_S16_3_integer x) (Fixed_S16_3_fraction x) = x"
  unfolding Fixed_S16_3_of_parts_def Fixed_S16_3_integer_def Fixed_S16_3_fraction_def
  by (rule bitfield_view_pack) simp

text \<open>Reading the bit fields of a \<open>Fixed_S16_3\<close> built from an
  integer part in \<open>[-4096, 4096)\<close> and a fraction in \<open>[0, 8)\<close> gives them back.\<close>

lemma Fixed_S16_3_view_of_parts:
  assumes "- 4096 \<le> i" "i < 4096" "0 \<le> f" "f < 8"
  shows "Fixed_S16_3_integer (Fixed_S16_3_of_parts i f) = i \<and>
         Fixed_S16_3_fraction (Fixed_S16_3_of_parts i f) = f"
proof -
  have e: "push_bit 3 i OR take_bit 3 f = 8 * i + f"
    unfolding bitfield_pack using assms by (simp add: push_bit_eq_mult take_bit_eq_mod)
  have raw: "sint (Fixed_S16_3_of_parts i f) = 8 * i + f"
    unfolding Fixed_S16_3_of_parts_def e by (rule sint_word_of_int16) (use assms in simp_all)
  show ?thesis
    using assms by (simp add: Fixed_S16_3_integer_def Fixed_S16_3_fraction_def c_int_simps raw)
qed

text \<open>Writing back the two bit fields read from a \<open>Fixed_S32_16\<close> rebuilds its
  raw value.\<close>

lemma Fixed_S32_16_of_parts_view:
  "Fixed_S32_16_of_parts (Fixed_S32_16_integer x) (Fixed_S32_16_fraction x) = x"
  unfolding Fixed_S32_16_of_parts_def Fixed_S32_16_integer_def Fixed_S32_16_fraction_def
  by (rule bitfield_view_pack) simp

text \<open>\<open>Fixed_S16_3_sub\<close> undoes \<open>Fixed_S16_3_add\<close>, also when the sum
  wraps around.\<close>

lemma Fixed_S16_3_add_sub_roundtrip:
  "Fixed_S16_3_sub (Fixed_S16_3_add a b) b = a"
  by (simp add: fixed_simps)

text \<open>\<open>Fixed_S16_3_add\<close> is exact when the sum of the values is
  representable.\<close>

theorem Fixed_S16_3_add_exact:
  assumes "- 32768 \<le> sint a + sint b" "sint a + sint b < 32768"
  shows "sint (Fixed_S16_3_add a b) = sint a + sint b"
  unfolding Fixed_S16_3_add_def Fixed_S16_3_def by (rule sint_word_of_int16) (use assms in simp_all)

subsection \<open>Witnesses\<close>

theorem Fixed_S32_16_mul_floor_witness:
  "- 2147483648 \<le> (sint (98304::int32) * sint (131071::int32)) div 65536 \<and>
   (sint (98304::int32) * sint (131071::int32)) div 65536 < 2147483648 \<and>
   sint (Fixed_S32_16_mul 98304 131071) = 196606 \<and>
   65536 * sint (Fixed_S32_16_mul 98304 131071) \<le> sint (98304::int32) * sint (131071::int32)"
  using Fixed_S32_16_mul_floor [of 98304 131071] by simp

theorem Fixed_S16_3_view_of_parts_witness:
  "- 4096 \<le> (-2::int) \<and> (-2::int) < 4096 \<and> 0 \<le> (7::int) \<and> (7::int) < 8 \<and>
   Fixed_S16_3_integer (Fixed_S16_3_of_parts (-2) 7) = -2 \<and>
   Fixed_S16_3_fraction (Fixed_S16_3_of_parts (-2) 7) = 7"
  using Fixed_S16_3_view_of_parts [of "-2" 7] by simp

theorem Fixed_S16_3_add_exact_witness:
  "- 32768 \<le> sint (800::int16) + sint (-24::int16) \<and> sint (800::int16) + sint (-24::int16) < 32768 \<and>
   sint (Fixed_S16_3_add 800 (-24)) = 776"
  using Fixed_S16_3_add_exact [of 800 "-24"] by simp

end
