(* ===== verification/GTypes.thy ===== *)
theory GTypes
  imports Math_Fixed
begin

text \<open>
  The coordinate types of \<^verbatim>\<open>src/src/gtypes.h\<close> and \<^verbatim>\<open>src/src/gtypes.c\<close>:
  precise points and vectors (pairs of \<open>Fixed_S16_3\<close>), the integer vector
  \<open>GVector\<close>, and the conversion macros between the integer and the precise
  forms.  \<open>GPoint\<close> is the Pebble SDK's point, two \<open>int16_t\<close> coordinates; the
  SDK is not part of the repository, so \<open>GPoint\<close> and its constructor macro are
  modelled from the SDK interface the sources use.  A struct is a record; a
  constructor macro that takes \<open>int\<close> arguments converts them into the
  \<open>int16_t\<close> fields, which is \<open>word_of_int\<close>.
\<close>

subsection \<open>Integer points and vectors\<close>

record GPoint =
  gp_x :: int16
  gp_y :: int16

definition GPoint :: "int \<Rightarrow> int \<Rightarrow> GPoint" where
  "GPoint x y = \<lparr>gp_x = word_of_int x, gp_y = word_of_int y\<rparr>"

record GVector =
  gv_dx :: int16
  gv_dy :: int16

definition GVector :: "int \<Rightarrow> int \<Rightarrow> GVector" where
  "GVector dx dy = \<lparr>gv_dx = word_of_int dx, gv_dy = word_of_int dy\<rparr>"

subsection \<open>Precise points and vectors\<close>

record GPointPrecise =
  gpp_x :: Fixed_S16_3
  gpp_y :: Fixed_S16_3

record GVectorPrecise =
  gvp_dx :: Fixed_S16_3
  gvp_dy :: Fixed_S16_3

definition GPOINT_PRECISE_MAX :: int where
  "GPOINT_PRECISE_MAX = 0x2000"

definition GPOINT_PRECISE_PRECISION :: nat where
  "GPOINT_PRECISE_PRECISION = FIXED_S16_3_PRECISION"

definition GVECTOR_PRECISE_MAX :: int where
  "GVECTOR_PRECISE_MAX = GPOINT_PRECISE_MAX"

definition GVECTOR_PRECISE_PRECISION :: nat where
  "GVECTOR_PRECISE_PRECISION = GPOINT_PRECISE_PRECISION"

text \<open>\<open>GPointPrecise(x, y)\<close> initialises the raw values of the two coordinates.\<close>

definition GPointPrecise :: "int \<Rightarrow> int \<Rightarrow> GPointPrecise" where
  "GPointPrecise x y = \<lparr>gpp_x = word_of_int x, gpp_y = word_of_int y\<rparr>"

definition GVectorPrecise :: "int \<Rightarrow> int \<Rightarrow> GVectorPrecise" where
  "GVectorPrecise dx dy = \<lparr>gvp_dx = word_of_int dx, gvp_dy = word_of_int dy\<rparr>"

text \<open>
  \<open>(point.x % GPOINT_PRECISE_MAX) << GPOINT_PRECISE_PRECISION\<close>: the \<open>int16_t\<close>
  coordinate is promoted to \<open>int\<close>, C's \<open>%\<close> truncates towards zero, and the
  shifted value is narrowed into the raw field by the constructor macro.
\<close>

definition GPointPreciseFromGPoint :: "GPoint \<Rightarrow> GPointPrecise" where
  "GPointPreciseFromGPoint point =
     GPointPrecise (push_bit GPOINT_PRECISE_PRECISION (sint (gp_x point) smod GPOINT_PRECISE_MAX))
                   (push_bit GPOINT_PRECISE_PRECISION (sint (gp_y point) smod GPOINT_PRECISE_MAX))"

text \<open>\<open>pointP.x.raw_value >> GPOINT_PRECISE_PRECISION\<close>: an arithmetic shift of the
  promoted raw value.\<close>

definition GPointFromGPointPrecise :: "GPointPrecise \<Rightarrow> GPoint" where
  "GPointFromGPointPrecise pointP =
     GPoint (drop_bit GPOINT_PRECISE_PRECISION (sint (gpp_x pointP)))
            (drop_bit GPOINT_PRECISE_PRECISION (sint (gpp_y pointP)))"

definition GVectorPreciseFromGVector :: "GVector \<Rightarrow> GVectorPrecise" where
  "GVectorPreciseFromGVector vector =
     GVectorPrecise (push_bit GVECTOR_PRECISE_PRECISION (sint (gv_dx vector) smod GVECTOR_PRECISE_MAX))
                    (push_bit GVECTOR_PRECISE_PRECISION (sint (gv_dy vector) smod GVECTOR_PRECISE_MAX))"

definition GVectorFromGVectorPrecise :: "GVectorPrecise \<Rightarrow> GVector" where
  "GVectorFromGVectorPrecise vectorP =
     GVector (drop_bit GVECTOR_PRECISE_PRECISION (sint (gvp_dx vectorP)))
             (drop_bit GVECTOR_PRECISE_PRECISION (sint (gvp_dy vectorP)))"

subsection \<open>Equality of precise values\<close>

definition gpointprecise_equal :: "GPointPrecise \<Rightarrow> GPointPrecise \<Rightarrow> bool" where
  "gpointprecise_equal pointP_a pointP_b =
     (sint (gpp_x pointP_a) = sint (gpp_x pointP_b) \<and> sint (gpp_y pointP_a) = sint (gpp_y pointP_b))"

definition gvectorprecise_equal :: "GVectorPrecise \<Rightarrow> GVectorPrecise \<Rightarrow> bool" where
  "gvectorprecise_equal vectorP_a vectorP_b =
     (sint (gvp_dx vectorP_a) = sint (gvp_dx vectorP_b) \<and> sint (gvp_dy vectorP_a) = sint (gvp_dy vectorP_b))"

subsection \<open>One coordinate through the conversions\<close>

text \<open>
  Both conversion macros treat each coordinate alike.  Narrowing to \<open>int16_t\<close>
  keeps the shifted value modulo \<open>2^16\<close>, so the \<open>% 0x2000\<close> before the
  shift changes nothing, and the coordinate wraps into \<open>[-4096, 4096)\<close>.
\<close>

lemma word_of_int_push3_smod:
  "(word_of_int (push_bit 3 (x smod 8192)) :: int16) = word_of_int (8 * x)"
proof -
  have e: "push_bit 3 (x smod 8192) = 8 * x + (- (x sdiv 8192)) * 65536"
    using sdiv_mult_smod_eq[of x 8192] by (simp add: push_bit_eq_mult algebra_simps)
  have m: "(8 * x + (- (x sdiv 8192)) * 65536) mod 65536 = (8 * x) mod 65536"
    by (rule mod_mult_self1)
  show ?thesis
    unfolding word_of_int_eq_iff take_bit_eq_mod e using m by simp
qed

lemma sint_coord_wrap:
  "sint (word_of_int (8 * x) :: int16) = 8 * ((x + 4096) mod 8192 - 4096)"
proof -
  have "sint (word_of_int (8 * x) :: int16) = (8 * x + 32768) mod 65536 - 32768"
    using int_word_sint[of "8 * x", where 'a=16] by simp
  also have "(8 * x + 32768) mod 65536 = 8 * ((x + 4096) mod 8192)"
    using mod_mult_mult1[of 8 "x + 4096" 8192] by (simp add: algebra_simps)
  finally show ?thesis by simp
qed

lemma coord_to_precise [simp]:
  "sint (word_of_int (push_bit 3 (sint x smod 8192)) :: int16) = 8 * ((sint x + 4096) mod 8192 - 4096)"
  by (simp only: word_of_int_push3_smod sint_coord_wrap)

lemma coord_from_precise [simp]:
  "(word_of_int (drop_bit 3 (8 * sint x)) :: int16) = x"
  by (simp add: drop_bit_eq_div)

text \<open>The arithmetic shift back keeps the floor of a coordinate, which always
  fits the \<open>int16_t\<close> of the integer point.\<close>

lemma sint_coord_from_precise:
  "sint (word_of_int (drop_bit 3 (sint (x::int16))) :: int16) = sint x div 8"
proof -
  have "(- 32768) div 8 \<le> sint x div 8" "sint x div 8 \<le> 32767 div 8"
    using sint_range16[of x] by (intro zdiv_mono1; simp)+
  then show ?thesis
    by (simp add: drop_bit_eq_div sint_word_of_int16)
qed

lemmas conversion_defs = GPOINT_PRECISE_PRECISION_def GVECTOR_PRECISE_PRECISION_def
  FIXED_S16_3_PRECISION_def GPOINT_PRECISE_MAX_def GVECTOR_PRECISE_MAX_def

subsection \<open>Properties of the conversions\<close>

text \<open>Claim C18.  Converting an integer point to a precise point wraps each
  coordinate into the representable window \<open>[-4096, 4096)\<close> modulo 8192 and
  scales it by 8; the \<open>% GPOINT_PRECISE_MAX\<close> of the macro has no effect of its
  own, the narrowing to 16 bits does the wrapping.\<close>

theorem GPointPreciseFromGPoint_wrap:
  "sint (gpp_x (GPointPreciseFromGPoint p)) = 8 * ((sint (gp_x p) + 4096) mod 8192 - 4096) \<and>
   sint (gpp_y (GPointPreciseFromGPoint p)) = 8 * ((sint (gp_y p) + 4096) mod 8192 - 4096)"
  by (simp add: GPointPreciseFromGPoint_def GPointPrecise_def conversion_defs del: of_int_mult)

text \<open>Claim C17.  For an integer point whose coordinates lie in \<open>[-4096, 4096)\<close>,
  converting to a precise point and back gives the point again.\<close>

theorem GPoint_precise_roundtrip:
  assumes "- 4096 \<le> sint (gp_x p)" "sint (gp_x p) < 4096"
    and "- 4096 \<le> sint (gp_y p)" "sint (gp_y p) < 4096"
  shows "GPointFromGPointPrecise (GPointPreciseFromGPoint p) = p"
  using assms
  by (simp add: GPointFromGPointPrecise_def GPointPreciseFromGPoint_def GPointPrecise_def GPoint_def
      conversion_defs)

text \<open>For an integer vector whose components lie in \<open>[-4096, 4096)\<close>,
  converting to a precise vector and back gives the vector again.\<close>

theorem GVector_precise_roundtrip:
  assumes "- 4096 \<le> sint (gv_dx v)" "sint (gv_dx v) < 4096"
    and "- 4096 \<le> sint (gv_dy v)" "sint (gv_dy v) < 4096"
  shows "GVectorFromGVectorPrecise (GVectorPreciseFromGVector v) = v"
  using assms
  by (simp add: GVectorFromGVectorPrecise_def GVectorPreciseFromGVector_def GVectorPrecise_def
      GVector_def conversion_defs)

text \<open>\<open>gpointprecise_equal\<close> and \<open>gvectorprecise_equal\<close> hold exactly when the
  two precise values are equal.\<close>

lemma gpointprecise_equal_iff:
  "gpointprecise_equal a b \<longleftrightarrow> a = b"
  by (cases a, cases b) (auto simp: gpointprecise_equal_def intro: signed_word_eqI)

lemma gvectorprecise_equal_iff:
  "gvectorprecise_equal a b \<longleftrightarrow> a = b"
  by (cases a, cases b) (auto simp: gvectorprecise_equal_def intro: signed_word_eqI)

text \<open>Claim C23.  Converting a precise point back to an integer point keeps the
  integer bit field of each coordinate, so it rounds towards minus infinity
  (\<open>-1.125\<close> becomes \<open>-2\<close>): the integer coordinate is the floor of the precise
  one.\<close>

theorem GPointFromGPointPrecise_floor:
  "sint (gp_x (GPointFromGPointPrecise q)) = Fixed_S16_3_integer (gpp_x q) \<and>
   sint (gp_y (GPointFromGPointPrecise q)) = Fixed_S16_3_integer (gpp_y q) \<and>
   8 * sint (gp_x (GPointFromGPointPrecise q)) \<le> sint (gpp_x q) \<and>
   sint (gpp_x q) < 8 * sint (gp_x (GPointFromGPointPrecise q)) + 8"
  using floor_div_bounds[of 8 "sint (gpp_x q)"]
  by (simp add: GPointFromGPointPrecise_def GPoint_def conversion_defs Fixed_S16_3_integer_def
      sint_coord_from_precise sint_signed_drop_bit_div)

subsection \<open>Witnesses\<close>

theorem GPoint_precise_roundtrip_witness:
  "- 4096 \<le> sint (gp_x (GPoint (-4096) 4095)) \<and> sint (gp_x (GPoint (-4096) 4095)) < 4096 \<and>
   - 4096 \<le> sint (gp_y (GPoint (-4096) 4095)) \<and> sint (gp_y (GPoint (-4096) 4095)) < 4096 \<and>
   GPointFromGPointPrecise (GPointPreciseFromGPoint (GPoint (-4096) 4095)) = GPoint (-4096) 4095"
  using GPoint_precise_roundtrip [of "GPoint (-4096) 4095"] by (simp add: GPoint_def)

theorem GVector_precise_roundtrip_witness:
  "- 4096 \<le> sint (gv_dx (GVector 0 30)) \<and> sint (gv_dx (GVector 0 30)) < 4096 \<and>
   - 4096 \<le> sint (gv_dy (GVector 0 30)) \<and> sint (gv_dy (GVector 0 30)) < 4096 \<and>
   GVectorFromGVectorPrecise (GVectorPreciseFromGVector (GVector 0 30)) = GVector 0 30"
  using GVector_precise_roundtrip [of "GVector 0 30"] by (simp add: GVector_def)

end
