(* ===== verification/C_Float.thy ===== *)
theory C_Float
  imports Complex_Main "HOL-Library.Log_Nat" Prelude
begin

text \<open>
  C floating-point arithmetic as the demo uses it.  A \<open>float\<close> (IEEE 754
  binary32) or \<open>double\<close> (binary64) variable holds a rational number with a
  24-bit or 53-bit significand; an arithmetic operation computes the exact
  result and rounds it to the nearest representable value, ties to the even
  significand.  \<open>round_prec p\<close> is that rounding for a \<open>p\<close>-bit significand,
  executable on \<open>rat\<close>; it ignores the exponent range (no overflow, no
  subnormals), which is exact for the magnitudes the demo handles.
  \<open>is_float p\<close> is the set of representable values, and
  \<open>round_prec_correct\<close> proves the rounding meets the contract of IEEE 754:
  no representable value is nearer.  A conversion of a floating value to an
  integer type truncates towards zero (\<open>c_trunc\<close>).
\<close>

subsection \<open>Rounding to a significand of \<open>p\<close> bits\<close>

text \<open>\<open>\<lfloor>log2 q\<rfloor>\<close> of a positive rational, from the bit lengths of its numerator
  and denominator.\<close>

definition flog2 :: "rat \<Rightarrow> int" where
  "flog2 q =
     (let (n, d) = quotient_of q; k = bitlen n - bitlen d
      in if power_int 2 k \<le> q then k else k - 1)"

text \<open>Rounding to the nearest integer, ties to even.\<close>

definition round_half_even :: "rat \<Rightarrow> int" where
  "round_half_even x =
     (let f = \<lfloor>x\<rfloor>; r = x - of_int f
      in if r < 1/2 then f else if 1/2 < r then f + 1 else if even f then f else f + 1)"

definition round_prec :: "nat \<Rightarrow> rat \<Rightarrow> rat" where
  "round_prec p q =
     (if q = 0 then 0
      else let u = power_int 2 (flog2 \<bar>q\<bar> + 1 - int p)
           in of_int (round_half_even (q / u)) * u)"

definition is_float :: "nat \<Rightarrow> rat \<Rightarrow> bool" where
  "is_float p y \<longleftrightarrow> (\<exists>m e. y = of_int m * power_int 2 e \<and> \<bar>m\<bar> < 2 ^ p)"

text \<open>The conversions of C: to \<open>float\<close>, to \<open>double\<close>, and from either to an
  integer type (towards zero).\<close>

definition float_of :: "rat \<Rightarrow> rat" where
  "float_of q = round_prec 24 q"

definition double_of :: "rat \<Rightarrow> rat" where
  "double_of q = round_prec 53 q"

definition c_trunc :: "rat \<Rightarrow> int" where
  "c_trunc q = (if 0 \<le> q then \<lfloor>q\<rfloor> else - \<lfloor>- q\<rfloor>)"

subsection \<open>The exponent\<close>

lemma power_int_2_pos [simp]: "0 < power_int (2::rat) k"
  by simp

lemma flog2_bounds:
  assumes "0 < q"
  shows "power_int 2 (flog2 q) \<le> q \<and> q < power_int 2 (flog2 q + 1)"
proof -
  obtain n d where qd: "quotient_of q = (n, d)" by (cases "quotient_of q")
  have d: "0 < d" using qd by (rule quotient_of_denom_pos)
  have q: "q = of_int n / of_int d" using qd by (rule quotient_of_div)
  have n: "0 < n" using assms d q by (simp add: zero_less_divide_iff)
  define a where "a = nat (bitlen n)"
  define b where "b = nat (bitlen d)"
  have bn: "2 ^ (a - 1) \<le> n" "n < 2 ^ a" and bd: "2 ^ (b - 1) \<le> d" "d < 2 ^ b"
    using bitlen_bounds [OF n] bitlen_bounds [OF d]
    by (simp_all add: a_def b_def nat_diff_distrib' bitlen_nonneg)
  have a1: "1 \<le> a" using bn(2) n by (cases a) simp_all
  have b1: "1 \<le> b" using bd(2) d by (cases b) simp_all
  have k: "bitlen n - bitlen d = int a - int b"
    by (simp add: a_def b_def bitlen_nonneg)
  have pk: "power_int (2::rat) (int a - int b + i) = 2 ^ a * power_int 2 i / 2 ^ b" for i
    by (simp add: power_int_add power_int_diff)
  have ea: "(2::int) ^ a = 2 * 2 ^ (a - 1)" and eb: "(2::int) ^ b = 2 * 2 ^ (b - 1)"
    using a1 b1 by (simp_all flip: power_Suc)
  have "n * 2 ^ b \<le> n * (2 * d)"
    using bd(1) n eb by simp
  also have "\<dots> < 2 ^ a * (2 * d)"
    using bn(2) d by simp
  finally have "(of_int (n * 2 ^ b) :: rat) < of_int (2 ^ a * (2 * d))"
    by (simp only: of_int_less_iff)
  then have up: "of_int n * 2 ^ b < (2 * 2 ^ a) * (of_int d :: rat)"
    by (simp add: mult_ac)
  have "2 ^ a * d < 2 ^ a * 2 ^ b"
    using bd(2) by simp
  also have "\<dots> \<le> (2 * n) * 2 ^ b"
    using bn(1) ea by simp
  finally have "(of_int (2 ^ a * d) :: rat) < of_int ((2 * n) * 2 ^ b)"
    by (simp only: of_int_less_iff)
  then have lo: "2 ^ a * of_int d < (2 * of_int n) * (2 ^ b :: rat)"
    by simp
  have hi: "q < power_int 2 (int a - int b + 1)"
    using up d unfolding q pk by (simp add: field_simps)
  have low: "power_int 2 (int a - int b - 1) \<le> q"
    using lo d unfolding q by (simp add: power_int_diff power_int_add field_simps)
  show ?thesis
    using hi low unfolding flog2_def qd by (simp add: Let_def k)
qed

subsection \<open>Rounding to an integer\<close>

lemma round_half_even_cases:
  "round_half_even x = \<lfloor>x\<rfloor> \<or> round_half_even x = \<lfloor>x\<rfloor> + 1"
  by (simp add: round_half_even_def Let_def)

lemma round_half_even_dist:
  "\<bar>of_int (round_half_even x) - x\<bar> \<le> x - of_int \<lfloor>x\<rfloor> \<and>
   \<bar>of_int (round_half_even x) - x\<bar> \<le> of_int \<lfloor>x\<rfloor> + 1 - x"
  using of_int_floor_le [of x] floor_less_iff [of x "\<lfloor>x\<rfloor> + 1"]
  by (auto simp: round_half_even_def Let_def)

lemma round_half_even_nearest:
  "\<bar>of_int (round_half_even x) - x\<bar> \<le> \<bar>of_int z - x\<bar>"
proof (cases "z \<le> \<lfloor>x\<rfloor>")
  case True
  then have "of_int z \<le> (of_int \<lfloor>x\<rfloor> :: rat)" by simp
  then show ?thesis using round_half_even_dist [of x] of_int_floor_le [of x] by linarith
next
  case False
  then have "of_int \<lfloor>x\<rfloor> + 1 \<le> (of_int z :: rat)" by linarith
  then show ?thesis using round_half_even_dist [of x] of_int_floor_le [of x] by linarith
qed

lemma round_half_even_abs_le:
  assumes "\<bar>x\<bar> \<le> of_int M"
  shows "\<bar>round_half_even x\<bar> \<le> M"
proof -
  have f: "\<lfloor>x\<rfloor> \<le> M" "- M \<le> \<lfloor>x\<rfloor>"
    using assms by (simp_all add: floor_le_iff le_floor_iff abs_le_iff)
  have "\<lfloor>x\<rfloor> < M" if r: "round_half_even x = \<lfloor>x\<rfloor> + 1"
  proof (rule ccontr)
    assume "\<not> \<lfloor>x\<rfloor> < M"
    with f have "\<lfloor>x\<rfloor> = M" by simp
    then have "x = of_int \<lfloor>x\<rfloor>"
      using assms of_int_floor_le [of x] by (simp add: abs_le_iff)
    then have "round_half_even x = \<lfloor>x\<rfloor>"
      by (simp add: round_half_even_def Let_def)
    with r show False by simp
  qed
  with f show ?thesis
    using round_half_even_cases [of x] by auto
qed

subsection \<open>Rounding to \<open>p\<close> bits is nearest\<close>

lemma abs_diff_scale:
  "0 < (u::rat) \<Longrightarrow> \<bar>a - q / u\<bar> * u = \<bar>a * u - q\<bar>"
proof -
  assume u: "0 < u"
  have "(a - q / u) * u = a * u - q" using u by (simp add: field_simps)
  then show ?thesis using u by (metis abs_mult abs_of_pos)
qed

text \<open>The grid of \<open>round_prec p q\<close>: the multiples of
  \<open>u = 2^(\<lfloor>log2 |q|\<rfloor> + 1 - p)\<close>, of which it takes the one nearest \<open>q\<close>.\<close>

lemma round_prec_grid:
  assumes "q \<noteq> 0" and u_def: "u = power_int (2::rat) (flog2 \<bar>q\<bar> + 1 - int p)"
  shows "round_prec p q = of_int (round_half_even (q / u)) * u"
    and "power_int 2 (flog2 \<bar>q\<bar>) \<le> \<bar>q\<bar>" and "\<bar>q\<bar> < 2 ^ p * u"
    and "\<bar>round_prec p q - q\<bar> \<le> \<bar>of_int z * u - q\<bar>"
proof -
  show r: "round_prec p q = of_int (round_half_even (q / u)) * u"
    using assms by (simp add: round_prec_def u_def Let_def)
  have b: "power_int 2 (flog2 \<bar>q\<bar>) \<le> \<bar>q\<bar> \<and> \<bar>q\<bar> < power_int 2 (flog2 \<bar>q\<bar> + 1)"
    using assms(1) by (intro flog2_bounds) simp
  then show "power_int 2 (flog2 \<bar>q\<bar>) \<le> \<bar>q\<bar>" by simp
  have "power_int (2::rat) (flog2 \<bar>q\<bar> + 1) = 2 ^ p * u"
    by (simp add: u_def power_int_add power_int_diff)
  with b show "\<bar>q\<bar> < 2 ^ p * u" by simp
  have u: "0 < u" by (simp add: u_def)
  have "\<bar>of_int (round_half_even (q / u)) - q / u\<bar> * u \<le> \<bar>of_int z - q / u\<bar> * u"
    using u by (intro mult_right_mono round_half_even_nearest) simp
  then show "\<bar>round_prec p q - q\<bar> \<le> \<bar>of_int z * u - q\<bar>"
    using u unfolding r by (simp add: abs_diff_scale)
qed

text \<open>A representable value lies on a grid \<open>2^e0\<close> or below \<open>2^(e0 + p - 1)\<close>.\<close>

lemma is_float_grid_or_small:
  assumes "is_float p y"
  shows "(\<exists>z. y = of_int z * power_int 2 e0) \<or> \<bar>y\<bar> < power_int 2 (e0 + int p - 1)"
proof -
  obtain m e where y: "y = of_int m * power_int 2 e" and m: "\<bar>m\<bar> < 2 ^ p"
    using assms by (auto simp: is_float_def)
  show ?thesis
  proof (cases "e0 \<le> e")
    case True
    then have "power_int (2::rat) e = 2 ^ nat (e - e0) * power_int 2 e0"
      by (simp flip: power_int_add power_int_of_nat)
    then have "y = of_int (m * 2 ^ nat (e - e0)) * power_int 2 e0"
      by (simp add: y)
    then show ?thesis by blast
  next
    case False
    have "\<bar>m\<bar> + 1 \<le> 2 ^ p" using m by simp
    then have "(of_int \<bar>m\<bar> :: rat) < 2 ^ p"
      by (metis m of_int_less_iff of_int_numeral of_int_power)
    then have "\<bar>y\<bar> < 2 ^ p * power_int 2 e"
      by (simp add: y abs_mult)
    also have "\<dots> \<le> 2 ^ p * power_int 2 (e0 - 1)"
      using False by (intro mult_left_mono power_int_increasing) simp_all
    also have "\<dots> = power_int 2 (e0 + int p - 1)"
      by (simp add: power_int_add power_int_diff)
    finally show ?thesis by blast
  qed
qed

lemma round_prec_nearest:
  assumes "0 < p" and "is_float p y"
  shows "\<bar>round_prec p q - q\<bar> \<le> \<bar>y - q\<bar>"
proof (cases "q = 0")
  case True
  then show ?thesis by (simp add: round_prec_def)
next
  case False
  define k where "k = flog2 \<bar>q\<bar>"
  define u where "u = power_int (2::rat) (flog2 \<bar>q\<bar> + 1 - int p)"
  note g = round_prec_grid [OF False u_def, folded k_def]
  consider (grid) z where "y = of_int z * u" | (small) "\<bar>y\<bar> < power_int 2 k"
    using is_float_grid_or_small [OF assms(2), of "k + 1 - int p"] unfolding u_def k_def by auto
  then show ?thesis
  proof cases
    case grid
    then show ?thesis using g(4) [of z] by simp
  next
    case small
    define z :: int where "z = (if 0 < q then 2 ^ (p - 1) else - (2 ^ (p - 1)))"
    have "(2::rat) ^ (p - 1) * u = power_int 2 k"
      using assms(1) by (simp add: u_def k_def power_int_add power_int_diff flip: power_int_of_nat)
    then have "\<bar>of_int z * u - q\<bar> = \<bar>q\<bar> - power_int 2 k"
      using g(2) False by (auto simp: z_def)
    also have "\<dots> \<le> \<bar>y - q\<bar>"
      using small by linarith
    finally show ?thesis using g(4) [of z] by linarith
  qed
qed

lemma round_prec_is_float:
  assumes "0 < p"
  shows "is_float p (round_prec p q)"
proof (cases "q = 0")
  case True
  then show ?thesis by (auto simp: round_prec_def is_float_def intro!: exI [of _ 0])
next
  case False
  define u where "u = power_int (2::rat) (flog2 \<bar>q\<bar> + 1 - int p)"
  define m where "m = round_half_even (q / u)"
  note g = round_prec_grid [OF False u_def]
  have u: "0 < u" by (simp add: u_def)
  have "\<bar>q / u\<bar> = \<bar>q\<bar> / u" using u by simp
  also have "\<dots> < 2 ^ p" using g(3) u by (simp add: pos_divide_less_eq mult.commute)
  finally have "\<bar>q / u\<bar> \<le> of_int (2 ^ p)" by simp
  then have m: "\<bar>m\<bar> \<le> 2 ^ p"
    unfolding m_def by (rule round_half_even_abs_le)
  show ?thesis
  proof (cases "\<bar>m\<bar> < 2 ^ p")
    case True
    then show ?thesis
      using g(1) unfolding is_float_def m_def u_def by blast
  next
    case False
    define m' :: int where "m' = (if 0 \<le> m then 2 ^ (p - 1) else - (2 ^ (p - 1)))"
    have e: "(2::int) ^ p = 2 * 2 ^ (p - 1)"
      using assms by (simp flip: power_Suc)
    have "\<bar>m\<bar> = 2 ^ p" using m False by linarith
    then have "m = 2 * m'"
      unfolding m'_def e by (cases "0 \<le> m") simp_all
    moreover have "power_int (2::rat) (flog2 \<bar>q\<bar> + 1 - int p + 1) = 2 * u"
      unfolding u_def by (subst power_int_add) simp_all
    ultimately have "round_prec p q = of_int m' * power_int 2 (flog2 \<bar>q\<bar> + 1 - int p + 1)"
      using g(1) by (simp add: m_def)
    moreover have "\<bar>m'\<bar> < 2 ^ p"
      unfolding m'_def e by simp
    ultimately show ?thesis
      unfolding is_float_def by blast
  qed
qed

lemma round_prec_float_id:
  assumes "0 < p" and "is_float p y"
  shows "round_prec p y = y"
  using round_prec_nearest [OF assms, of y] by simp

lemma round_half_even_half:
  "\<bar>of_int (round_half_even x) - x\<bar> \<le> 1 / 2"
  using round_half_even_dist [of x] by linarith

lemma round_prec_rel_error:
  "\<bar>round_prec p q - q\<bar> \<le> \<bar>q\<bar> / 2 ^ p"
proof (cases "q = 0")
  case True
  then show ?thesis by (simp add: round_prec_def)
next
  case False
  define u where "u = power_int (2::rat) (flog2 \<bar>q\<bar> + 1 - int p)"
  note g = round_prec_grid [OF False u_def]
  have u: "0 < u" by (simp add: u_def)
  have "\<bar>round_prec p q - q\<bar> = \<bar>of_int (round_half_even (q / u)) - q / u\<bar> * u"
    using u by (simp add: g(1) abs_diff_scale)
  also have "\<dots> \<le> u / 2"
    using u round_half_even_half [of "q / u"] by (simp add: mult_right_mono [of _ "1/2", simplified])
  also have "u / 2 = power_int 2 (flog2 \<bar>q\<bar>) / 2 ^ p"
    by (simp add: u_def power_int_add power_int_diff)
  also have "\<dots> \<le> \<bar>q\<bar> / 2 ^ p"
    using g(2) by (simp add: divide_right_mono)
  finally show ?thesis .
qed

text \<open>Scaling by a power of two keeps a value representable.\<close>

lemma is_float_mult_pow2:
  "is_float p y \<Longrightarrow> is_float p (y * 2 ^ n)"
proof -
  assume "is_float p y"
  then obtain m e where "y = of_int m * power_int 2 e" "\<bar>m\<bar> < 2 ^ p"
    by (auto simp: is_float_def)
  moreover have "power_int (2::rat) e * 2 ^ n = power_int 2 (e + int n)"
    by (simp add: power_int_add)
  ultimately show ?thesis
    unfolding is_float_def by (metis mult.assoc)
qed

lemma is_float_dyadic:
  "0 < p \<Longrightarrow> \<bar>m\<bar> < 2 ^ p \<Longrightarrow> is_float p (of_int m * power_int 2 e)"
  unfolding is_float_def by blast

lemma is_float_one [simp]: "0 < p \<Longrightarrow> is_float p 1"
  unfolding is_float_def by (rule exI [of _ 1], rule exI [of _ 0]) simp

lemma c_trunc_bounds:
  "\<bar>of_int (c_trunc q) - q\<bar> < 1 \<and> \<bar>of_int (c_trunc q)\<bar> \<le> \<bar>q\<bar>"
  by (auto simp: c_trunc_def) linarith+

subsection \<open>Properties\<close>

text \<open>Rounding to \<open>p\<close> bits meets the contract of IEEE 754
  round-to-nearest: its result is representable with a \<open>p\<close>-bit significand,
  and no representable value is nearer to the exact value.\<close>

theorem round_prec_correct:
  assumes "0 < p" and "is_float p y"
  shows "is_float p (round_prec p q) \<and> \<bar>round_prec p q - q\<bar> \<le> \<bar>y - q\<bar>"
  using round_prec_is_float [OF assms(1)] round_prec_nearest [OF assms] by blast

text \<open>Rounding leaves a value unchanged exactly when it is
  representable: a \<open>float\<close> converted to \<open>float\<close> again is the same value, and
  nothing else is.\<close>

theorem round_prec_id_iff:
  assumes "0 < p"
  shows "round_prec p y = y \<longleftrightarrow> is_float p y"
  using round_prec_is_float [OF assms, of y] round_prec_float_id [OF assms, of y] by auto

text \<open>A conversion to \<open>float\<close> is off by at most \<open>2^-24\<close> of the
  value, one to \<open>double\<close> by at most \<open>2^-53\<close> of it.\<close>

theorem c_conversion_error:
  "\<bar>float_of q - q\<bar> \<le> \<bar>q\<bar> / 2 ^ 24 \<and> \<bar>double_of q - q\<bar> \<le> \<bar>q\<bar> / 2 ^ 53"
  unfolding float_of_def double_of_def using round_prec_rel_error by blast

subsection \<open>Witnesses\<close>

theorem round_prec_correct_witness:
  "0 < (24::nat) \<and> is_float 24 1 \<and>
   is_float 24 (round_prec 24 (1 / 20)) \<and> \<bar>round_prec 24 (1 / 20) - 1 / 20\<bar> \<le> \<bar>1 - 1 / 20\<bar>"
  using round_prec_correct [of 24 1 "1 / 20"] by simp

theorem round_prec_id_iff_witness:
  "0 < (24::nat) \<and> (round_prec 24 (3 / 2) = 3 / 2 \<longleftrightarrow> is_float 24 (3 / 2))"
  using round_prec_id_iff [of 24 "3 / 2"] by simp

end
