(* ===== verification/GTransform.thy ===== *)
theory GTransform
  imports GTypes C_Float
begin

text \<open>
  The transform type of \<^verbatim>\<open>src/src/gtypes.h\<close>, the constructor macros of
  \<^verbatim>\<open>src/src/gtransform.h\<close>, and the value-level parts of
  \<^verbatim>\<open>src/src/gtransform.c\<close>: \<open>gtransform_init_rotation\<close>, the classification
  predicates, and the arithmetic of the mutating functions on the values they
  read (\<open>gtransform_concat_val\<close> and its kin; the mutating functions with their
  pointer arguments are in \<open>GTransform_Ops\<close>).

  A \<open>const GTransform *\<close> argument that may be \<open>NULL\<close> is a
  \<open>GTransform option\<close>: \<open>None\<close> is \<open>NULL\<close>, \<open>Some t\<close> a pointer to \<open>t\<close>.
  \<open>memcmp\<close> over the packed struct compares the six raw coefficients, which
  is record equality.  The trigonometric tables of the Pebble SDK are an
  interface, \<open>trig_lookup\<close>, passed to the functions that use them.
\<close>

subsection \<open>Coefficients and the transform record\<close>

type_synonym GTransformNumber = Fixed_S32_16

record GTransform =
  gt_a :: GTransformNumber
  gt_b :: GTransformNumber
  gt_c :: GTransformNumber
  gt_d :: GTransformNumber
  gt_tx :: GTransformNumber
  gt_ty :: GTransformNumber

definition GTransformNumberZero :: GTransformNumber where
  "GTransformNumberZero = Fixed_S32_16_of_parts 0 0"

definition GTransformNumberOne :: GTransformNumber where
  "GTransformNumberOne = Fixed_S32_16_of_parts 1 0"

text \<open>\<open>(int32_t)((x)*(GTransformNumberOne.raw_value))\<close> for an \<open>int\<close> argument:
  the product is formed in 32-bit \<open>int\<close>.\<close>

definition GTransformNumberFromNumber :: "int \<Rightarrow> GTransformNumber" where
  "GTransformNumberFromNumber x = word_of_int (x * sint GTransformNumberOne)"

text \<open>The same macro for a \<open>float\<close> or a \<open>double\<close> argument \<open>x\<close>: the
  \<open>int32_t\<close> raw value is converted to the floating type, the product is
  rounded in that type, and the cast to \<open>int32_t\<close> truncates towards zero.\<close>

definition GTransformNumberFromFloat :: "rat \<Rightarrow> GTransformNumber" where
  "GTransformNumberFromFloat x =
     word_of_int (c_trunc (float_of (x * float_of (of_int (sint GTransformNumberOne)))))"

definition GTransformNumberFromDouble :: "rat \<Rightarrow> GTransformNumber" where
  "GTransformNumberFromDouble x =
     word_of_int (c_trunc (double_of (x * double_of (of_int (sint GTransformNumberOne)))))"

subsection \<open>Constructor macros\<close>

definition GTransform :: "GTransformNumber \<Rightarrow> GTransformNumber \<Rightarrow> GTransformNumber \<Rightarrow>
    GTransformNumber \<Rightarrow> GTransformNumber \<Rightarrow> GTransformNumber \<Rightarrow> GTransform" where
  "GTransform a b c d tx ty = \<lparr>gt_a = a, gt_b = b, gt_c = c, gt_d = d, gt_tx = tx, gt_ty = ty\<rparr>"

definition GTransformFromNumbers :: "int \<Rightarrow> int \<Rightarrow> int \<Rightarrow> int \<Rightarrow> int \<Rightarrow> int \<Rightarrow> GTransform" where
  "GTransformFromNumbers a b c d tx ty =
     GTransform (GTransformNumberFromNumber a) (GTransformNumberFromNumber b)
                (GTransformNumberFromNumber c) (GTransformNumberFromNumber d)
                (GTransformNumberFromNumber tx) (GTransformNumberFromNumber ty)"

definition GTransformIdentity :: GTransform where
  "GTransformIdentity =
     \<lparr>gt_a = GTransformNumberOne, gt_b = GTransformNumberZero, gt_c = GTransformNumberZero,
      gt_d = GTransformNumberOne, gt_tx = GTransformNumberZero, gt_ty = GTransformNumberZero\<rparr>"

definition GTransformScale :: "GTransformNumber \<Rightarrow> GTransformNumber \<Rightarrow> GTransform" where
  "GTransformScale sx sy =
     \<lparr>gt_a = sx, gt_b = GTransformNumberZero, gt_c = GTransformNumberZero,
      gt_d = sy, gt_tx = GTransformNumberZero, gt_ty = GTransformNumberZero\<rparr>"

definition GTransformScaleFromNumber :: "int \<Rightarrow> int \<Rightarrow> GTransform" where
  "GTransformScaleFromNumber sx sy =
     GTransformScale (GTransformNumberFromNumber sx) (GTransformNumberFromNumber sy)"

definition GTransformTranslation :: "GTransformNumber \<Rightarrow> GTransformNumber \<Rightarrow> GTransform" where
  "GTransformTranslation tx_v ty_v =
     \<lparr>gt_a = GTransformNumberOne, gt_b = GTransformNumberZero, gt_c = GTransformNumberZero,
      gt_d = GTransformNumberOne, gt_tx = tx_v, gt_ty = ty_v\<rparr>"

definition GTransformTranslationFromNumber :: "int \<Rightarrow> int \<Rightarrow> GTransform" where
  "GTransformTranslationFromNumber tx ty =
     GTransformTranslation (GTransformNumberFromNumber tx) (GTransformNumberFromNumber ty)"

subsection \<open>Rotation\<close>

text \<open>
  The Pebble SDK's \<open>int32_t cos_lookup(int32_t angle)\<close> and \<open>sin_lookup\<close>,
  scaled by \<open>TRIG_MAX_RATIO\<close> (\<open>0xffff\<close>); a full turn is \<open>TRIG_MAX_ANGLE\<close>
  (\<open>0x10000\<close>).
\<close>

record trig_lookup =
  cos_lookup :: "int32 \<Rightarrow> int32"
  sin_lookup :: "int32 \<Rightarrow> int32"

definition TRIG_MAX_RATIO :: int where
  "TRIG_MAX_RATIO = 0xffff"

definition TRIG_MAX_ANGLE :: int where
  "TRIG_MAX_ANGLE = 0x10000"

text \<open>
  \<open>(cosine * ((int64_t)GTransformNumberOne.raw_value)) / TRIG_MAX_RATIO\<close> is
  formed in \<open>int64_t\<close>, where a 32-bit value times \<open>2^16\<close> cannot overflow, so it
  is the integer product; \<open>/\<close> truncates (\<open>sdiv\<close>); the initialiser
  \<open>.raw_value = cosine_val\<close> narrows the 64-bit value to 32 bits.
\<close>

definition gtransform_init_rotation :: "trig_lookup \<Rightarrow> int32 \<Rightarrow> GTransform" where
  "gtransform_init_rotation trig angle =
     (if angle \<noteq> 0 then
        (let cosine = cos_lookup trig angle;
             sine = sin_lookup trig angle;
             cosine_val = (sint cosine * sint GTransformNumberOne) sdiv TRIG_MAX_RATIO;
             sine_val = (sint sine * sint GTransformNumberOne) sdiv TRIG_MAX_RATIO;
             a = word_of_int cosine_val;
             b = word_of_int (- sine_val);
             c = word_of_int sine_val;
             d = word_of_int cosine_val
         in GTransform a b c d GTransformNumberZero GTransformNumberZero)
      else GTransformIdentity)"

definition GTransformRotation :: "trig_lookup \<Rightarrow> int32 \<Rightarrow> GTransform" where
  "GTransformRotation trig angle = gtransform_init_rotation trig angle"

subsection \<open>Classification and equality\<close>

definition gtransform_is_identity :: "GTransform option \<Rightarrow> bool" where
  "gtransform_is_identity t =
     (case t of None \<Rightarrow> False | Some t \<Rightarrow> t = GTransformIdentity)"

definition gtransform_is_only_scale :: "GTransform option \<Rightarrow> bool" where
  "gtransform_is_only_scale t =
     (case t of None \<Rightarrow> False
      | Some t \<Rightarrow> sint (gt_b t) = sint GTransformNumberZero \<and> sint (gt_c t) = sint GTransformNumberZero \<and>
                 sint (gt_tx t) = sint GTransformNumberZero \<and> sint (gt_ty t) = sint GTransformNumberZero)"

definition gtransform_is_only_translation :: "GTransform option \<Rightarrow> bool" where
  "gtransform_is_only_translation t =
     (case t of None \<Rightarrow> False
      | Some t \<Rightarrow> sint (gt_a t) = sint GTransformNumberOne \<and> sint (gt_b t) = sint GTransformNumberZero \<and>
                 sint (gt_c t) = sint GTransformNumberZero \<and> sint (gt_d t) = sint GTransformNumberOne)"

definition gtransform_is_only_scale_or_translation :: "GTransform option \<Rightarrow> bool" where
  "gtransform_is_only_scale_or_translation t =
     (case t of None \<Rightarrow> False
      | Some t \<Rightarrow> sint (gt_b t) \<noteq> sint GTransformNumberZero \<or> sint (gt_c t) \<noteq> sint GTransformNumberZero)"

definition gtransform_is_equal :: "GTransform option \<Rightarrow> GTransform option \<Rightarrow> bool" where
  "gtransform_is_equal t1 t2 =
     (case (t1, t2) of (Some t1, Some t2) \<Rightarrow> t1 = t2 | _ \<Rightarrow> False)"

subsection \<open>The arithmetic of the mutating functions\<close>

text \<open>
  \<open>gtransform_concat\<close> forms the twelve products of \<open>t1\<close> and \<open>t2\<close> first and
  then the six sums, \<open>t_new = t1 * t2\<close> in the row-vector convention.
\<close>

definition gtransform_concat_val :: "GTransform \<Rightarrow> GTransform \<Rightarrow> GTransform" where
  "gtransform_concat_val t1 t2 =
     (let a_a = Fixed_S32_16_mul (gt_a t1) (gt_a t2);
          b_c = Fixed_S32_16_mul (gt_b t1) (gt_c t2);
          a_b = Fixed_S32_16_mul (gt_a t1) (gt_b t2);
          b_d = Fixed_S32_16_mul (gt_b t1) (gt_d t2);
          c_a = Fixed_S32_16_mul (gt_c t1) (gt_a t2);
          d_c = Fixed_S32_16_mul (gt_d t1) (gt_c t2);
          c_b = Fixed_S32_16_mul (gt_c t1) (gt_b t2);
          d_d = Fixed_S32_16_mul (gt_d t1) (gt_d t2);
          tx_a = Fixed_S32_16_mul (gt_tx t1) (gt_a t2);
          ty_c = Fixed_S32_16_mul (gt_ty t1) (gt_c t2);
          tx_b = Fixed_S32_16_mul (gt_tx t1) (gt_b t2);
          ty_d = Fixed_S32_16_mul (gt_ty t1) (gt_d t2)
      in \<lparr>gt_a = Fixed_S32_16_add a_a b_c, gt_b = Fixed_S32_16_add a_b b_d,
          gt_c = Fixed_S32_16_add c_a d_c, gt_d = Fixed_S32_16_add c_b d_d,
          gt_tx = Fixed_S32_16_add3 tx_a ty_c (gt_tx t2),
          gt_ty = Fixed_S32_16_add3 tx_b ty_d (gt_ty t2)\<rparr>)"

text \<open>\<open>gtransform_scale\<close>: the rows \<open>(a, b)\<close> and \<open>(c, d)\<close> scaled by \<open>sx\<close> and
  \<open>sy\<close>, the translation kept.\<close>

definition gtransform_scale_val :: "GTransform \<Rightarrow> GTransformNumber \<Rightarrow> GTransformNumber \<Rightarrow> GTransform" where
  "gtransform_scale_val t sx sy =
     t\<lparr>gt_a := Fixed_S32_16_mul sx (gt_a t), gt_b := Fixed_S32_16_mul sx (gt_b t),
       gt_c := Fixed_S32_16_mul sy (gt_c t), gt_d := Fixed_S32_16_mul sy (gt_d t)\<rparr>"

text \<open>\<open>gtransform_translate\<close>: the translation row moved by \<open>(tx, ty) * [a b; c d]\<close>.\<close>

definition gtransform_translate_val :: "GTransform \<Rightarrow> GTransformNumber \<Rightarrow> GTransformNumber \<Rightarrow> GTransform" where
  "gtransform_translate_val t tx ty =
     (let tx_a = Fixed_S32_16_mul tx (gt_a t);
          ty_c = Fixed_S32_16_mul ty (gt_c t);
          tx_b = Fixed_S32_16_mul tx (gt_b t);
          ty_d = Fixed_S32_16_mul ty (gt_d t)
      in t\<lparr>gt_tx := Fixed_S32_16_add3 tx_a ty_c (gt_tx t),
           gt_ty := Fixed_S32_16_add3 tx_b ty_d (gt_ty t)\<rparr>)"

subsection \<open>Raw values of the constants\<close>

lemma GTransformNumberZero_raw [fixed_simps]: "GTransformNumberZero = 0"
  by (simp add: GTransformNumberZero_def Fixed_S32_16_of_parts_def)

lemma GTransformNumberOne_raw [fixed_simps]: "GTransformNumberOne = 65536"
  by (simp add: GTransformNumberOne_def Fixed_S32_16_of_parts_def)

lemma GTransformNumberOne_eq [simp]: "GTransformNumberOne = FIXED_S32_16_ONE"
  by (simp add: fixed_simps)

text \<open>\<open>GTransformNumberFromNumber\<close> of an integer is exact while the integer
  fits the 16-bit integer part; beyond, the 32-bit product wraps, and
  \<open>32768\<close> becomes \<open>-32768\<close>.\<close>

lemma GTransformNumberFromNumber_exact:
  "- 32768 \<le> n \<Longrightarrow> n < 32768 \<Longrightarrow> sint (GTransformNumberFromNumber n) = n * 65536"
  by (simp add: GTransformNumberFromNumber_def FIXED_S32_16_ONE_raw sint_word_of_int32 del: of_int_mult)

lemma GTransformNumberFromNumber_wraps:
  "GTransformNumberFromNumber 32768 = GTransformNumberFromNumber (- 32768)"
  by (simp add: GTransformNumberFromNumber_def FIXED_S32_16_ONE_raw)

text \<open>For a \<open>float\<close> argument the product with \<open>65536\<close> is exact, so the
  macro truncates the exact product.\<close>

lemma GTransformNumberFromFloat_eq:
  assumes "is_float 24 x"
  shows "GTransformNumberFromFloat x = word_of_int (c_trunc (x * 65536))"
proof -
  have one: "float_of 65536 = 65536"
    using is_float_mult_pow2 [of 24 1 16] round_prec_float_id [of 24 "2 ^ 16"]
    by (simp add: float_of_def)
  have "float_of (x * 2 ^ 16) = x * 2 ^ 16"
    using round_prec_float_id [of 24 "x * 2 ^ 16"] is_float_mult_pow2 [OF assms, of 16]
    by (simp add: float_of_def)
  then show ?thesis
    by (simp add: GTransformNumberFromFloat_def FIXED_S32_16_ONE_raw one)
qed

text \<open>Claim C31.  \<open>GTransformNumberFromNumber\<close> of a \<open>float\<close> below \<open>32768\<close> in
  magnitude multiplies by \<open>65536\<close> without rounding and truncates the product
  towards zero: the coefficient is below the value by less than \<open>2^-16\<close> in
  magnitude, on the side of zero.\<close>

theorem GTransformNumberFromFloat_trunc:
  assumes "is_float 24 x" and "\<bar>x\<bar> < 32768"
  shows "sint (GTransformNumberFromFloat x) = c_trunc (x * 65536) \<and>
         \<bar>of_int (sint (GTransformNumberFromFloat x)) / 65536 - x\<bar> < 1 / 65536"
proof -
  note e = GTransformNumberFromFloat_eq [OF assms(1)]
  have t: "\<bar>of_int (c_trunc (x * 65536)) - x * 65536\<bar> < 1"
    "\<bar>of_int (c_trunc (x * 65536))\<bar> \<le> \<bar>x * 65536\<bar>"
    using c_trunc_bounds [of "x * 65536"] by simp_all
  have "\<bar>x * 65536\<bar> < 2147483648" using assms(2) by (simp add: abs_mult)
  with t(2) have "(of_int \<bar>c_trunc (x * 65536)\<bar> :: rat) < of_int 2147483648"
    by simp
  then have "\<bar>c_trunc (x * 65536)\<bar> < 2147483648"
    by (simp only: of_int_less_iff)
  then have s: "sint (GTransformNumberFromFloat x) = c_trunc (x * 65536)"
    unfolding e by (intro sint_word_of_int32) simp_all
  have eq: "of_int (c_trunc (x * 65536)) / 65536 - x = (of_int (c_trunc (x * 65536)) - x * 65536) / 65536"
    by (simp add: field_simps)
  have "\<bar>of_int (c_trunc (x * 65536)) / 65536 - x\<bar> = \<bar>of_int (c_trunc (x * 65536)) - x * 65536\<bar> / 65536"
    unfolding eq abs_divide by simp
  with t(1) s show ?thesis by simp
qed

text \<open>Claim C32.  A coefficient whose raw value fits in 24 bits survives a
  round trip through \<open>float\<close>: its value \<open>raw / 65536\<close> is a \<open>float\<close>, and
  \<open>GTransformNumberFromNumber\<close> of that \<open>float\<close> gives the coefficient back.\<close>

theorem GTransformNumberFromFloat_roundtrip:
  assumes "\<bar>sint n\<bar> < 2 ^ 24"
  shows "GTransformNumberFromFloat (of_int (sint n) / 65536) = n"
proof -
  have "is_float 24 (of_int (sint n) * power_int 2 (- 16))"
    using assms by (rule is_float_dyadic [rotated]) simp
  moreover have "of_int (sint n) * power_int (2::rat) (- 16) = of_int (sint n) / 65536"
    by (simp add: power_int_minus)
  ultimately have f: "is_float 24 (of_int (sint n) / 65536)"
    by (simp only:)
  have "c_trunc (of_int (sint n) / 65536 * 65536) = sint n"
    by (simp add: c_trunc_def del: of_int_sint)
  then show ?thesis
    by (simp add: GTransformNumberFromFloat_eq [OF f] word_of_int_sint_id del: of_int_sint)
qed

lemmas constructor_defs = GTransform_def GTransformIdentity_def GTransformScale_def
  GTransformTranslation_def GTransformNumberZero_raw

lemmas transform_op_defs = gtransform_concat_val_def gtransform_scale_val_def
  gtransform_translate_val_def Fixed_S32_16_add_word Fixed_S32_16_add3_word

subsection \<open>Rescaling the trigonometric values\<close>

lemma trig_rescale_bound:
  assumes "\<bar>v::int\<bar> \<le> 65535"
  shows "\<bar>(v * 65536) sdiv 65535\<bar> \<le> 65536 \<and> (v \<noteq> 0 \<longrightarrow> (v * 65536) sdiv 65535 \<noteq> 0)"
proof -
  have q: "\<bar>(v * 65536) sdiv 65535\<bar> = (\<bar>v\<bar> * 65536) div 65535"
  proof (cases v "0::int" rule: linorder_cases)
    case less
    then show ?thesis by (simp add: signed_divide_int_def abs_mult sgn_mult)
  next
    case equal
    then show ?thesis by simp
  next
    case greater
    then show ?thesis by (simp add: signed_divide_int_def abs_mult sgn_mult)
  qed
  have "(\<bar>v\<bar> * 65536) div 65535 \<le> (65535 * 65536) div 65535"
    using assms by (intro zdiv_mono1) simp_all
  moreover have "v \<noteq> 0 \<Longrightarrow> 1 \<le> (\<bar>v\<bar> * 65536) div 65535"
    by (simp add: pos_imp_zdiv_pos_iff)
  ultimately show ?thesis
    using q by auto
qed

lemma sint_word_of_rescale:
  "\<bar>x\<bar> \<le> 65536 \<Longrightarrow> sint (word_of_int x :: int32) = x"
  by (intro sint_word_of_int32) auto

lemma sint_uminus_word_of_rescale:
  "\<bar>x\<bar> \<le> 65536 \<Longrightarrow> sint (- (word_of_int x :: int32)) = - x"
  using sint_word_of_rescale[of "- x"] by simp

subsection \<open>The predicates on a non-NULL and on a NULL argument\<close>

lemma gtransform_predicates_Some:
  "gtransform_is_identity (Some t) \<longleftrightarrow> t = GTransformIdentity"
  "gtransform_is_only_scale (Some t) \<longleftrightarrow> gt_b t = 0 \<and> gt_c t = 0 \<and> gt_tx t = 0 \<and> gt_ty t = 0"
  "gtransform_is_only_translation (Some t) \<longleftrightarrow>
     gt_a t = 65536 \<and> gt_b t = 0 \<and> gt_c t = 0 \<and> gt_d t = 65536"
  "gtransform_is_only_scale_or_translation (Some t) \<longleftrightarrow> gt_b t \<noteq> 0 \<or> gt_c t \<noteq> 0"
  "gtransform_is_equal (Some t1) (Some t2) \<longleftrightarrow> t1 = t2"
  by (simp_all only: gtransform_is_identity_def gtransform_is_only_scale_def
      gtransform_is_only_translation_def gtransform_is_only_scale_or_translation_def
      gtransform_is_equal_def sint_eq_iff option.case prod.case)
    (simp_all add: fixed_simps)

lemma gtransform_predicates_None:
  "\<not> gtransform_is_identity None" "\<not> gtransform_is_only_scale None"
  "\<not> gtransform_is_only_translation None" "\<not> gtransform_is_only_scale_or_translation None"
  "\<not> gtransform_is_equal None t" "\<not> gtransform_is_equal t None"
  by (simp_all add: gtransform_is_identity_def gtransform_is_only_scale_def
      gtransform_is_only_translation_def gtransform_is_only_scale_or_translation_def
      gtransform_is_equal_def split: option.split)

lemmas predicate_simps = gtransform_predicates_Some gtransform_predicates_None

subsection \<open>Properties of the algebra\<close>

text \<open>Claim C2.  The identity transform is a two-sided unit of concatenation,
  exactly: multiplying a coefficient by \<open>GTransformNumberOne\<close> and adding zero
  lose no bit.\<close>

theorem gtransform_concat_identity:
  "gtransform_concat_val GTransformIdentity t = t \<and> gtransform_concat_val t GTransformIdentity = t"
  by (simp add: transform_op_defs constructor_defs)

text \<open>Claim C8.  \<open>gtransform_scale\<close> computes exactly the general concatenation
  \<open>Scale(sx, sy) * t\<close>: the specialised routine and the reference agree bit for bit.\<close>

theorem gtransform_scale_is_concat:
  "gtransform_scale_val t sx sy = gtransform_concat_val (GTransformScale sx sy) t"
  by (simp add: transform_op_defs constructor_defs)

text \<open>Claim C9.  \<open>gtransform_translate\<close> computes exactly the general concatenation
  \<open>Translation(tx, ty) * t\<close>.\<close>

theorem gtransform_translate_is_concat:
  "gtransform_translate_val t tx ty = gtransform_concat_val (GTransformTranslation tx ty) t"
  by (simp add: transform_op_defs constructor_defs)

text \<open>A rotation by angle 0 is the identity transform, bit for bit,
  whatever the trigonometric tables hold.\<close>

theorem gtransform_init_rotation_zero:
  "gtransform_init_rotation trig 0 = GTransformIdentity"
  by (simp add: gtransform_init_rotation_def)

subsection \<open>Properties of the classification\<close>

text \<open>The classification predicates recognise the matrices the
  constructor macros build: the identity is an identity, a scale matrix is only
  a scale, a translation matrix only a translation.\<close>

theorem gtransform_classify_constructors:
  "gtransform_is_identity (Some GTransformIdentity) \<and>
   gtransform_is_only_scale (Some (GTransformScale sx sy)) \<and>
   gtransform_is_only_translation (Some (GTransformTranslation tx ty)) \<and>
   gtransform_is_only_scale (Some GTransformIdentity) \<and>
   gtransform_is_only_translation (Some GTransformIdentity)"
  by (simp add: predicate_simps constructor_defs FIXED_S32_16_ONE_raw)

text \<open>Every classification predicate and the equality test return
  false for a \<open>NULL\<close> argument, without failing.\<close>

theorem gtransform_predicates_null:
  "\<not> gtransform_is_identity None \<and> \<not> gtransform_is_only_scale None \<and>
   \<not> gtransform_is_only_translation None \<and> \<not> gtransform_is_only_scale_or_translation None \<and>
   \<not> gtransform_is_equal None t \<and> \<not> gtransform_is_equal t None"
  by (simp add: predicate_simps)

text \<open>Claim C21.  \<open>gtransform_is_only_scale_or_translation\<close> holds exactly when
  the shear coefficients \<open>b\<close> or \<open>c\<close> are non-zero, so it is false on every
  scale matrix and every translation matrix: its result is the opposite of what
  its name and its documentation promise.\<close>

theorem gtransform_is_only_scale_or_translation_detects_shear:
  "(gtransform_is_only_scale_or_translation (Some t) \<longleftrightarrow> \<not> (gt_b t = 0 \<and> gt_c t = 0)) \<and>
   \<not> gtransform_is_only_scale_or_translation (Some (GTransformScale sx sy)) \<and>
   \<not> gtransform_is_only_scale_or_translation (Some (GTransformTranslation tx ty))"
  by (simp add: predicate_simps constructor_defs)

text \<open>A translation matrix that \<open>gtransform_scale\<close> has scaled by a
  factor other than one is no longer classified as only a translation.\<close>

theorem gtransform_scaled_translation_not_only_translation:
  assumes "sx \<noteq> GTransformNumberOne"
  shows "\<not> gtransform_is_only_translation
           (Some (gtransform_scale_val (GTransformTranslation tx ty) sx sy))"
  using assms
  by (simp add: predicate_simps constructor_defs transform_op_defs Fixed_S32_16_mul_word FIXED_S32_16_ONE_raw)

text \<open>A rotation by a non-zero angle whose sine entry is non-zero
  (and within \<open>\<plusminus>TRIG_MAX_RATIO\<close>) is not classified as only a scale.\<close>

theorem gtransform_rotation_not_only_scale:
  assumes "angle \<noteq> 0"
    and "\<bar>sint (sin_lookup trig angle)\<bar> \<le> TRIG_MAX_RATIO" and "sin_lookup trig angle \<noteq> 0"
  shows "\<not> gtransform_is_only_scale (Some (gtransform_init_rotation trig angle))"
proof -
  let ?s = "(sint (sin_lookup trig angle) * 65536) sdiv 65535"
  have "\<bar>?s\<bar> \<le> 65536" "?s \<noteq> 0"
    using trig_rescale_bound[of "sint (sin_lookup trig angle)"] assms(2,3)
    by (auto simp: TRIG_MAX_RATIO_def)
  then have "(word_of_int ?s :: int32) \<noteq> 0"
    using sint_word_of_rescale[of ?s] by auto
  then show ?thesis
    using assms(1)
    by (simp add: predicate_simps gtransform_init_rotation_def GTransform_def TRIG_MAX_RATIO_def
        fixed_simps Let_def)
qed

text \<open>\<open>gtransform_is_equal\<close> is exact: a transform equals itself,
  and a change of one unit in the raw value of a coefficient is detected.\<close>

theorem gtransform_is_equal_exact:
  "gtransform_is_equal (Some t) (Some t) \<and>
   \<not> gtransform_is_equal (Some t) (Some (t\<lparr>gt_a := gt_a t + 1\<rparr>)) \<and>
   \<not> gtransform_is_equal (Some t) (Some (t\<lparr>gt_ty := gt_ty t + 1\<rparr>))"
  by (cases t) (simp add: predicate_simps)

subsection \<open>Witnesses\<close>

theorem gtransform_scaled_translation_not_only_translation_witness:
  "(131072::int32) \<noteq> GTransformNumberOne \<and>
   \<not> gtransform_is_only_translation
       (Some (gtransform_scale_val (GTransformTranslation 0 0) 131072 131072))"
  using gtransform_scaled_translation_not_only_translation [of 131072 0 0 131072]
  by (simp add: fixed_simps)

theorem gtransform_rotation_not_only_scale_witness:
  "(16384::int32) \<noteq> 0 \<and>
   \<bar>sint (sin_lookup \<lparr>cos_lookup = \<lambda>_. 0, sin_lookup = \<lambda>_. 65535\<rparr> 16384)\<bar> \<le> TRIG_MAX_RATIO \<and>
   sin_lookup \<lparr>cos_lookup = \<lambda>_. 0, sin_lookup = \<lambda>_. 65535\<rparr> 16384 \<noteq> 0 \<and>
   \<not> gtransform_is_only_scale
       (Some (gtransform_init_rotation \<lparr>cos_lookup = \<lambda>_. 0, sin_lookup = \<lambda>_. 65535\<rparr> 16384))"
  using gtransform_rotation_not_only_scale
    [of 16384 "\<lparr>cos_lookup = \<lambda>_. 0, sin_lookup = \<lambda>_. 65535\<rparr>"]
  by (simp add: TRIG_MAX_RATIO_def)

theorem GTransformNumberFromFloat_trunc_witness:
  "is_float 24 (3 / 2) \<and> \<bar>3 / 2 :: rat\<bar> < 32768 \<and>
   sint (GTransformNumberFromFloat (3 / 2)) = c_trunc (3 / 2 * 65536) \<and>
   \<bar>of_int (sint (GTransformNumberFromFloat (3 / 2))) / 65536 - 3 / 2\<bar> < (1 / 65536 :: rat)"
proof -
  have f: "is_float 24 (3 / 2)"
    using is_float_dyadic [of 24 3 "-1"] by (simp add: power_int_minus)
  show ?thesis
    by (intro conjI f GTransformNumberFromFloat_trunc [OF f, THEN conjunct1]
        GTransformNumberFromFloat_trunc [OF f, THEN conjunct2]) simp_all
qed

theorem GTransformNumberFromFloat_roundtrip_witness:
  "\<bar>sint (98304 :: GTransformNumber)\<bar> < 2 ^ 24 \<and>
   GTransformNumberFromFloat (of_int (sint (98304 :: GTransformNumber)) / 65536) = 98304"
proof -
  have b: "\<bar>sint (98304 :: GTransformNumber)\<bar> < 2 ^ 24" by simp
  show ?thesis using b GTransformNumberFromFloat_roundtrip [OF b] by (rule conjI)
qed

end
