(* ===== verification/GTransform_Ops.thy ===== *)
theory GTransform_Ops
  imports GTransform
begin

text \<open>
  The mutating functions of \<^verbatim>\<open>src/src/gtransform.c\<close> with their pointer
  arguments.  Memory holding transforms is a store from addresses to
  transforms; a pointer argument is an address option (\<open>None\<close> is \<open>NULL\<close>), so
  that the output may alias an input.  Each assignment \<open>t_new->f = e\<close> of the
  C body is one store update, in the order of the source, and each read
  \<open>t->f\<close> reads the store as it is at that point: a definition that reads a
  field after it has been overwritten through an aliasing pointer computes what
  the C code would compute.  A local \<open>GTransform\<close> of a C function lives in a
  stack slot distinct from every argument, and the slot is released on return.
\<close>

type_synonym gptr = nat
type_synonym gstore = "gptr \<Rightarrow> GTransform"

subsection \<open>The mutating functions\<close>

definition gtransform_concat :: "gptr option \<Rightarrow> gptr option \<Rightarrow> gptr option \<Rightarrow> gstore \<Rightarrow> gstore" where
  "gtransform_concat t_new t1 t2 s =
     (case (t_new, t1, t2) of
        (Some n, Some p, Some q) \<Rightarrow>
          (let a_a = Fixed_S32_16_mul (gt_a (s p)) (gt_a (s q));
               b_c = Fixed_S32_16_mul (gt_b (s p)) (gt_c (s q));
               a_b = Fixed_S32_16_mul (gt_a (s p)) (gt_b (s q));
               b_d = Fixed_S32_16_mul (gt_b (s p)) (gt_d (s q));
               c_a = Fixed_S32_16_mul (gt_c (s p)) (gt_a (s q));
               d_c = Fixed_S32_16_mul (gt_d (s p)) (gt_c (s q));
               c_b = Fixed_S32_16_mul (gt_c (s p)) (gt_b (s q));
               d_d = Fixed_S32_16_mul (gt_d (s p)) (gt_d (s q));
               tx_a = Fixed_S32_16_mul (gt_tx (s p)) (gt_a (s q));
               ty_c = Fixed_S32_16_mul (gt_ty (s p)) (gt_c (s q));
               tx_b = Fixed_S32_16_mul (gt_tx (s p)) (gt_b (s q));
               ty_d = Fixed_S32_16_mul (gt_ty (s p)) (gt_d (s q));
               s1 = s(n := (s n)\<lparr>gt_a := Fixed_S32_16_add a_a b_c\<rparr>);
               s2 = s1(n := (s1 n)\<lparr>gt_b := Fixed_S32_16_add a_b b_d\<rparr>);
               s3 = s2(n := (s2 n)\<lparr>gt_c := Fixed_S32_16_add c_a d_c\<rparr>);
               s4 = s3(n := (s3 n)\<lparr>gt_d := Fixed_S32_16_add c_b d_d\<rparr>);
               s5 = s4(n := (s4 n)\<lparr>gt_tx := Fixed_S32_16_add3 tx_a ty_c (gt_tx (s4 q))\<rparr>)
           in s5(n := (s5 n)\<lparr>gt_ty := Fixed_S32_16_add3 tx_b ty_d (gt_ty (s5 q))\<rparr>))
      | _ \<Rightarrow> s)"

text \<open>\<open>if (t_new != t) memcpy(t_new, t, sizeof(GTransform))\<close>, then the four
  scaled coefficients, each read from \<open>t\<close> as the store is at that point.\<close>

definition gtransform_copy_if_distinct :: "gptr \<Rightarrow> gptr \<Rightarrow> gstore \<Rightarrow> gstore" where
  "gtransform_copy_if_distinct n p s = (if n \<noteq> p then s(n := s p) else s)"

definition gtransform_scale ::
    "gptr option \<Rightarrow> gptr option \<Rightarrow> GTransformNumber \<Rightarrow> GTransformNumber \<Rightarrow> gstore \<Rightarrow> gstore" where
  "gtransform_scale t_new t sx sy s =
     (case (t_new, t) of
        (Some n, Some p) \<Rightarrow>
          (let s0 = gtransform_copy_if_distinct n p s;
               s1 = s0(n := (s0 n)\<lparr>gt_a := Fixed_S32_16_mul sx (gt_a (s0 p))\<rparr>);
               s2 = s1(n := (s1 n)\<lparr>gt_b := Fixed_S32_16_mul sx (gt_b (s1 p))\<rparr>);
               s3 = s2(n := (s2 n)\<lparr>gt_c := Fixed_S32_16_mul sy (gt_c (s2 p))\<rparr>)
           in s3(n := (s3 n)\<lparr>gt_d := Fixed_S32_16_mul sy (gt_d (s3 p))\<rparr>))
      | _ \<Rightarrow> s)"

definition gtransform_translate ::
    "gptr option \<Rightarrow> gptr option \<Rightarrow> GTransformNumber \<Rightarrow> GTransformNumber \<Rightarrow> gstore \<Rightarrow> gstore" where
  "gtransform_translate t_new t tx ty s =
     (case (t_new, t) of
        (Some n, Some p) \<Rightarrow>
          (let s0 = gtransform_copy_if_distinct n p s;
               tx_a = Fixed_S32_16_mul tx (gt_a (s0 p));
               ty_c = Fixed_S32_16_mul ty (gt_c (s0 p));
               tx_b = Fixed_S32_16_mul tx (gt_b (s0 p));
               ty_d = Fixed_S32_16_mul ty (gt_d (s0 p));
               s1 = s0(n := (s0 n)\<lparr>gt_tx := Fixed_S32_16_add3 tx_a ty_c (gt_tx (s0 p))\<rparr>)
           in s1(n := (s1 n)\<lparr>gt_ty := Fixed_S32_16_add3 tx_b ty_d (gt_ty (s1 p))\<rparr>))
      | _ \<Rightarrow> s)"

text \<open>The macros \<open>gtransform_scale_number\<close> and \<open>gtransform_translate_number\<close>
  of \<^verbatim>\<open>src/src/gtransform.h\<close> convert native numbers with
  \<open>GTransformNumberFromNumber\<close>; they are modelled for integer arguments.\<close>

definition gtransform_scale_number :: "gptr option \<Rightarrow> gptr option \<Rightarrow> int \<Rightarrow> int \<Rightarrow> gstore \<Rightarrow> gstore" where
  "gtransform_scale_number t_new t sx sy s =
     gtransform_scale t_new t (GTransformNumberFromNumber sx) (GTransformNumberFromNumber sy) s"

definition gtransform_translate_number ::
    "gptr option \<Rightarrow> gptr option \<Rightarrow> int \<Rightarrow> int \<Rightarrow> gstore \<Rightarrow> gstore" where
  "gtransform_translate_number t_new t tx ty s =
     gtransform_translate t_new t (GTransformNumberFromNumber tx) (GTransformNumberFromNumber ty) s"

text \<open>\<open>gtransform_rotate\<close> builds the rotation in its local \<open>tR\<close> (stack slot
  \<open>Suc (max n p)\<close>, distinct from both arguments) and calls
  \<open>gtransform_concat(t_new, &tR, t)\<close>.\<close>

definition gtransform_rotate ::
    "trig_lookup \<Rightarrow> gptr option \<Rightarrow> gptr option \<Rightarrow> int32 \<Rightarrow> gstore \<Rightarrow> gstore" where
  "gtransform_rotate trig t_new t angle s =
     (case (t_new, t) of
        (Some n, Some p) \<Rightarrow>
          (let r = Suc (max n p);
               s' = gtransform_concat (Some n) (Some r) (Some p)
                      (s(r := gtransform_init_rotation trig angle))
           in s'(r := s r))
      | _ \<Rightarrow> s)"

text \<open>\<open>gtransform_invert\<close> is a stub: it copies \<open>t\<close> into \<open>t_new\<close> and reports
  failure.\<close>

definition gtransform_invert :: "gptr option \<Rightarrow> gptr option \<Rightarrow> gstore \<Rightarrow> bool \<times> gstore" where
  "gtransform_invert t_new t s =
     (case (t_new, t) of
        (Some n, Some p) \<Rightarrow> (False, s(n := s p))
      | _ \<Rightarrow> (False, s))"

subsection \<open>Aliasing safety\<close>

text \<open>Claim C1.  \<open>gtransform_concat(t_new, t1, t2)\<close> stores \<open>t1 * t2\<close>, computed
  from the values of \<open>t1\<close> and \<open>t2\<close> before the call, at \<open>t_new\<close> and changes
  nothing else, whether or not \<open>t_new\<close> is the same pointer as \<open>t1\<close> or
  \<open>t2\<close>: all products are formed before the first write.\<close>

theorem gtransform_concat_alias_safe:
  "gtransform_concat (Some n) (Some p) (Some q) s = s(n := gtransform_concat_val (s p) (s q))"
  by (rule ext) (simp add: gtransform_concat_def gtransform_concat_val_def Let_def)

text \<open>Claim C5.  \<open>gtransform_scale(t_new, t, sx, sy)\<close> stores \<open>Scale(sx, sy) * t\<close>
  at \<open>t_new\<close>, with the translation of \<open>t\<close> kept, and changes nothing else,
  also when \<open>t_new\<close> is \<open>t\<close>.\<close>

theorem gtransform_scale_alias_safe:
  "gtransform_scale (Some n) (Some p) sx sy s = s(n := gtransform_scale_val (s p) sx sy)"
  by (rule ext)
    (simp add: gtransform_scale_def gtransform_scale_val_def gtransform_copy_if_distinct_def Let_def)

text \<open>Claim C6.  \<open>gtransform_translate(t_new, t, tx, ty)\<close> stores
  \<open>Translation(tx, ty) * t\<close> at \<open>t_new\<close> and changes nothing else, also when
  \<open>t_new\<close> is \<open>t\<close>.\<close>

theorem gtransform_translate_alias_safe:
  "gtransform_translate (Some n) (Some p) tx ty s = s(n := gtransform_translate_val (s p) tx ty)"
  by (rule ext)
    (simp add: gtransform_translate_def gtransform_translate_val_def gtransform_copy_if_distinct_def
      Let_def)

text \<open>Claim C7.  \<open>gtransform_rotate(t_new, t, angle)\<close> stores
  \<open>Rotation(angle) * t\<close> at \<open>t_new\<close>; the local rotation matrix leaves no trace,
  and \<open>t_new\<close> may be \<open>t\<close>.\<close>

theorem gtransform_rotate_alias_safe:
  "gtransform_rotate trig (Some n) (Some p) angle s =
     s(n := gtransform_concat_val (gtransform_init_rotation trig angle) (s p))"
  by (rule ext)
    (simp add: gtransform_rotate_def gtransform_concat_def gtransform_concat_val_def Let_def)

text \<open>With integer arguments the \<open>_number\<close> macros scale and translate by the
  integers times \<open>2^16\<close>, wrapped to 32 bits, with the same aliasing safety.\<close>

lemma gtransform_scale_number_store:
  "gtransform_scale_number (Some n) (Some p) sx sy s =
     s(n := gtransform_scale_val (s p) (word_of_int (sx * 65536)) (word_of_int (sy * 65536)))"
  by (rule ext)
    (simp add: gtransform_scale_number_def gtransform_scale_def gtransform_scale_val_def
      gtransform_copy_if_distinct_def GTransformNumberFromNumber_def FIXED_S32_16_ONE_raw Let_def
      del: of_int_mult)

lemma gtransform_translate_number_store:
  "gtransform_translate_number (Some n) (Some p) tx ty s =
     s(n := gtransform_translate_val (s p) (word_of_int (tx * 65536)) (word_of_int (ty * 65536)))"
  by (rule ext)
    (simp add: gtransform_translate_number_def gtransform_translate_def gtransform_translate_val_def
      gtransform_copy_if_distinct_def GTransformNumberFromNumber_def FIXED_S32_16_ONE_raw Let_def
      del: of_int_mult)

subsection \<open>NULL arguments and the inversion stub\<close>

text \<open>Claim C20.  A mutating function given a \<open>NULL\<close> output or input pointer
  returns without writing anything.\<close>

theorem gtransform_mutators_null:
  "gtransform_concat None p q s = s \<and> gtransform_concat n None q s = s \<and>
   gtransform_concat n p None s = s \<and>
   gtransform_scale None p sx sy s = s \<and> gtransform_scale n None sx sy s = s \<and>
   gtransform_translate None p tx ty s = s \<and> gtransform_translate n None tx ty s = s \<and>
   gtransform_rotate trig None p angle s = s \<and> gtransform_rotate trig n None angle s = s \<and>
   gtransform_invert None p s = (False, s) \<and> gtransform_invert n None s = (False, s)"
  by (simp add: gtransform_concat_def gtransform_scale_def gtransform_translate_def
      gtransform_rotate_def gtransform_invert_def split: option.split)

text \<open>Claim C19.  \<open>gtransform_invert\<close> never reports success: on non-\<open>NULL\<close>
  arguments it copies \<open>t\<close> into \<open>t_new\<close>, changes nothing else and returns
  false; the documented inversion is not implemented, so even an invertible
  matrix such as \<open>Scale(2, 2)\<close> concatenated with the result is not the
  identity.\<close>

theorem gtransform_invert_stub:
  "gtransform_invert (Some n) (Some p) s = (False, s(n := s p)) \<and>
   gtransform_concat_val (GTransformScale 131072 131072)
     (snd (gtransform_invert (Some 0) (Some 1) (\<lambda>_. GTransformScale 131072 131072)) 0)
   \<noteq> GTransformIdentity"
  by (simp add: gtransform_invert_def gtransform_concat_val_def constructor_defs Fixed_S32_16_mul_word
      Fixed_S32_16_add_word Fixed_S32_16_add3_word FIXED_S32_16_ONE_raw)

end
