(* ===== verification/GTransform_Program.thy ===== *)
theory GTransform_Program
  imports GTransform_Ops
begin

text \<open>
  Sequences of calls to the mutating functions of \<^verbatim>\<open>src/src/gtransform.c\<close>,
  as a client such as the demo issues them: each call is a value of
  \<open>gtransform_call\<close> with its pointer arguments, \<open>gtransform_exec\<close> performs one
  call on the store (the result of \<open>gtransform_invert\<close> is discarded, as a C
  statement discards it), and \<open>gtransform_run\<close> performs a list of calls in
  order.  The contract of one call is \<open>gtransform_spec_exec\<close>: it either
  writes one value, computed from the store before the call, at its output
  address, or, when a pointer is \<open>NULL\<close>, changes nothing.  \<open>gtransform_reach\<close> is the
  reachability relation of the calls a client restricts itself to, with
  invariants proved by rule induction.
\<close>

datatype gtransform_call =
    Concat "gptr option" "gptr option" "gptr option"
  | Scale "gptr option" "gptr option" GTransformNumber GTransformNumber
  | Translate "gptr option" "gptr option" GTransformNumber GTransformNumber
  | Rotate "gptr option" "gptr option" int32
  | Invert "gptr option" "gptr option"

primrec gtransform_exec :: "trig_lookup \<Rightarrow> gtransform_call \<Rightarrow> gstore \<Rightarrow> gstore" where
  "gtransform_exec trig (Concat n p q) s = gtransform_concat n p q s"
| "gtransform_exec trig (Scale n p sx sy) s = gtransform_scale n p sx sy s"
| "gtransform_exec trig (Translate n p tx ty) s = gtransform_translate n p tx ty s"
| "gtransform_exec trig (Rotate n p angle) s = gtransform_rotate trig n p angle s"
| "gtransform_exec trig (Invert n p) s = snd (gtransform_invert n p s)"

definition gtransform_run :: "trig_lookup \<Rightarrow> gtransform_call list \<Rightarrow> gstore \<Rightarrow> gstore" where
  "gtransform_run trig calls s = fold (gtransform_exec trig) calls s"

subsection \<open>The contract of a call\<close>

text \<open>\<open>call_write trig c s\<close> is the address a call writes and the value it
  writes there, or \<open>None\<close> when a pointer argument is \<open>NULL\<close>.\<close>

fun call_write :: "trig_lookup \<Rightarrow> gtransform_call \<Rightarrow> gstore \<Rightarrow> (gptr \<times> GTransform) option" where
  "call_write trig (Concat (Some n) (Some p) (Some q)) s = Some (n, gtransform_concat_val (s p) (s q))"
| "call_write trig (Scale (Some n) (Some p) sx sy) s = Some (n, gtransform_scale_val (s p) sx sy)"
| "call_write trig (Translate (Some n) (Some p) tx ty) s = Some (n, gtransform_translate_val (s p) tx ty)"
| "call_write trig (Rotate (Some n) (Some p) angle) s =
     Some (n, gtransform_concat_val (gtransform_init_rotation trig angle) (s p))"
| "call_write trig (Invert (Some n) (Some p)) s = Some (n, s p)"
| "call_write trig _ s = None"

definition gtransform_spec_exec :: "trig_lookup \<Rightarrow> gtransform_call \<Rightarrow> gstore \<Rightarrow> gstore" where
  "gtransform_spec_exec trig c s = (case call_write trig c s of None \<Rightarrow> s | Some (n, v) \<Rightarrow> s(n := v))"

text \<open>The stores reachable from \<open>s0\<close> by calls that \<open>allowed\<close> admits.\<close>

inductive gtransform_reach ::
    "trig_lookup \<Rightarrow> (gtransform_call \<Rightarrow> bool) \<Rightarrow> gstore \<Rightarrow> gstore \<Rightarrow> bool"
  for trig allowed s0 where
  reach_init: "gtransform_reach trig allowed s0 s0"
| reach_call: "gtransform_reach trig allowed s0 s \<Longrightarrow> allowed c \<Longrightarrow>
    gtransform_reach trig allowed s0 (gtransform_exec trig c s)"

text \<open>The calls that keep a pure translation pure (no scaling, no rotation),
  and those that keep a pure scaling pure (no translation, no rotation).\<close>

primrec translation_call :: "gtransform_call \<Rightarrow> bool" where
  "translation_call (Concat n p q) = True"
| "translation_call (Scale n p sx sy) = False"
| "translation_call (Translate n p tx ty) = True"
| "translation_call (Rotate n p angle) = False"
| "translation_call (Invert n p) = True"

primrec scale_call :: "gtransform_call \<Rightarrow> bool" where
  "scale_call (Concat n p q) = True"
| "scale_call (Scale n p sx sy) = True"
| "scale_call (Translate n p tx ty) = False"
| "scale_call (Rotate n p angle) = False"
| "scale_call (Invert n p) = True"

subsection \<open>One call\<close>

lemma gtransform_exec_spec:
  "gtransform_exec trig c s = gtransform_spec_exec trig c s"
  by (cases c) (auto simp: fun_eq_iff gtransform_spec_exec_def gtransform_concat_def gtransform_concat_val_def
      gtransform_scale_def gtransform_scale_val_def gtransform_translate_def gtransform_translate_val_def
      gtransform_copy_if_distinct_def gtransform_rotate_def gtransform_invert_def Let_def split: option.split)

lemma gtransform_reach_run:
  "gtransform_reach trig allowed s0 s \<longleftrightarrow>
   (\<exists>calls. list_all allowed calls \<and> s = gtransform_run trig calls s0)"
proof
  assume "gtransform_reach trig allowed s0 s"
  then show "\<exists>calls. list_all allowed calls \<and> s = gtransform_run trig calls s0"
  proof (induction rule: gtransform_reach.induct)
    case reach_init
    show ?case by (rule exI [of _ "[]"]) (simp add: gtransform_run_def)
  next
    case (reach_call s c)
    then obtain calls where "list_all allowed calls" "s = gtransform_run trig calls s0" by blast
    with reach_call.hyps(2) show ?case
      by (intro exI [of _ "calls @ [c]"]) (simp add: gtransform_run_def)
  qed
next
  assume "\<exists>calls. list_all allowed calls \<and> s = gtransform_run trig calls s0"
  then obtain calls where "list_all allowed calls" "s = gtransform_run trig calls s0" by blast
  then show "gtransform_reach trig allowed s0 s"
  proof (induction calls arbitrary: s rule: rev_induct)
    case Nil
    then show ?case by (simp add: gtransform_run_def gtransform_reach.reach_init)
  next
    case (snoc c calls)
    then show ?case
      using gtransform_reach.reach_call [of trig allowed s0 "gtransform_run trig calls s0" c]
      by (simp add: gtransform_run_def)
  qed
qed

subsection \<open>Closure of the pure classes\<close>

lemma only_translation_concat_val:
  "gtransform_is_only_translation (Some t1) \<Longrightarrow> gtransform_is_only_translation (Some t2) \<Longrightarrow>
   gtransform_is_only_translation (Some (gtransform_concat_val t1 t2))"
  by (simp add: predicate_simps transform_op_defs Fixed_S32_16_mul_word)

lemma only_translation_translate_val:
  "gtransform_is_only_translation (Some t) \<Longrightarrow>
   gtransform_is_only_translation (Some (gtransform_translate_val t tx ty))"
  by (simp add: predicate_simps transform_op_defs Let_def)

lemma only_scale_concat_val:
  "gtransform_is_only_scale (Some t1) \<Longrightarrow> gtransform_is_only_scale (Some t2) \<Longrightarrow>
   gtransform_is_only_scale (Some (gtransform_concat_val t1 t2))"
  by (simp add: predicate_simps transform_op_defs Fixed_S32_16_mul_word)

lemma only_scale_scale_val:
  "gtransform_is_only_scale (Some t) \<Longrightarrow> gtransform_is_only_scale (Some (gtransform_scale_val t sx sy))"
  by (simp add: predicate_simps transform_op_defs Fixed_S32_16_mul_word)

text \<open>A call that a class admits keeps a store of transforms of that class.\<close>

lemma gtransform_exec_keeps_translation:
  assumes "\<forall>a. gtransform_is_only_translation (Some (s a))" and "translation_call c"
  shows "gtransform_is_only_translation (Some (gtransform_exec trig c s a))"
  using assms
  by (cases "(trig, c, s)" rule: call_write.cases)
    (auto simp: gtransform_exec_spec gtransform_spec_exec_def only_translation_concat_val
      only_translation_translate_val)

lemma gtransform_exec_keeps_scale:
  assumes "\<forall>a. gtransform_is_only_scale (Some (s a))" and "scale_call c"
  shows "gtransform_is_only_scale (Some (gtransform_exec trig c s a))"
  using assms
  by (cases "(trig, c, s)" rule: call_write.cases)
    (auto simp: gtransform_exec_spec gtransform_spec_exec_def only_scale_concat_val only_scale_scale_val)

subsection \<open>Sequences of calls\<close>

text \<open>Claim C14.  Starting from a store of pure translations, every store that
  concatenations, translations and inversions reach holds pure translations
  only, so \<open>gtransform_is_only_translation\<close> keeps every transform on the
  rendering fast path.\<close>

theorem gtransform_reach_only_translation:
  assumes "gtransform_reach trig translation_call s0 s"
    and "\<forall>a. gtransform_is_only_translation (Some (s0 a))"
  shows "gtransform_is_only_translation (Some (s a))"
  using assms
proof (induction arbitrary: a rule: gtransform_reach.induct)
  case reach_init
  then show ?case by blast
next
  case (reach_call s c)
  then show ?case by (blast intro: gtransform_exec_keeps_translation)
qed

text \<open>Claim C15.  Starting from a store of pure scalings, every store that
  concatenations, scalings and inversions reach holds pure scalings only.\<close>

theorem gtransform_reach_only_scale:
  assumes "gtransform_reach trig scale_call s0 s"
    and "\<forall>a. gtransform_is_only_scale (Some (s0 a))"
  shows "gtransform_is_only_scale (Some (s a))"
  using assms
proof (induction arbitrary: a rule: gtransform_reach.induct)
  case reach_init
  then show ?case by blast
next
  case (reach_call s c)
  then show ?case by (blast intro: gtransform_exec_keeps_scale)
qed

subsection \<open>Witnesses\<close>

theorem gtransform_reach_only_translation_witness:
  "gtransform_reach \<lparr>cos_lookup = \<lambda>_. 0, sin_lookup = \<lambda>_. 65535\<rparr> translation_call (\<lambda>_. GTransformIdentity)
     (gtransform_exec \<lparr>cos_lookup = \<lambda>_. 0, sin_lookup = \<lambda>_. 65535\<rparr> (Translate (Some 0) (Some 0) 655360 0)
       (\<lambda>_. GTransformIdentity)) \<and>
   (\<forall>a. gtransform_is_only_translation (Some ((\<lambda>_. GTransformIdentity) a))) \<and>
   gtransform_is_only_translation
     (Some (gtransform_exec \<lparr>cos_lookup = \<lambda>_. 0, sin_lookup = \<lambda>_. 65535\<rparr> (Translate (Some 0) (Some 0) 655360 0)
       (\<lambda>_. GTransformIdentity) 0))"
  using gtransform_reach_only_translation [of "\<lparr>cos_lookup = \<lambda>_. 0, sin_lookup = \<lambda>_. 65535\<rparr>"
      "\<lambda>_. GTransformIdentity"
      "gtransform_exec \<lparr>cos_lookup = \<lambda>_. 0, sin_lookup = \<lambda>_. 65535\<rparr> (Translate (Some 0) (Some 0) 655360 0)
         (\<lambda>_. GTransformIdentity)" 0]
    gtransform_reach.reach_call [OF gtransform_reach.reach_init, of translation_call
      "Translate (Some 0) (Some 0) 655360 0" "\<lparr>cos_lookup = \<lambda>_. 0, sin_lookup = \<lambda>_. 65535\<rparr>"
      "\<lambda>_. GTransformIdentity"]
  by (simp add: predicate_simps GTransformIdentity_def FIXED_S32_16_ONE_raw GTransformNumberZero_raw)

theorem gtransform_reach_only_scale_witness:
  "gtransform_reach \<lparr>cos_lookup = \<lambda>_. 0, sin_lookup = \<lambda>_. 65535\<rparr> scale_call (\<lambda>_. GTransformIdentity)
     (gtransform_exec \<lparr>cos_lookup = \<lambda>_. 0, sin_lookup = \<lambda>_. 65535\<rparr> (Scale (Some 0) (Some 0) 131072 98304)
       (\<lambda>_. GTransformIdentity)) \<and>
   (\<forall>a. gtransform_is_only_scale (Some ((\<lambda>_. GTransformIdentity) a))) \<and>
   gtransform_is_only_scale
     (Some (gtransform_exec \<lparr>cos_lookup = \<lambda>_. 0, sin_lookup = \<lambda>_. 65535\<rparr> (Scale (Some 0) (Some 0) 131072 98304)
       (\<lambda>_. GTransformIdentity) 0))"
  using gtransform_reach_only_scale [of "\<lparr>cos_lookup = \<lambda>_. 0, sin_lookup = \<lambda>_. 65535\<rparr>"
      "\<lambda>_. GTransformIdentity"
      "gtransform_exec \<lparr>cos_lookup = \<lambda>_. 0, sin_lookup = \<lambda>_. 65535\<rparr> (Scale (Some 0) (Some 0) 131072 98304)
         (\<lambda>_. GTransformIdentity)" 0]
    gtransform_reach.reach_call [OF gtransform_reach.reach_init, of scale_call
      "Scale (Some 0) (Some 0) 131072 98304" "\<lparr>cos_lookup = \<lambda>_. 0, sin_lookup = \<lambda>_. 65535\<rparr>"
      "\<lambda>_. GTransformIdentity"]
  by (simp add: predicate_simps GTransformIdentity_def GTransformNumberZero_raw)

end
