(* ===== verification/GTransform_Apply.thy ===== *)
theory GTransform_Apply
  imports GTransform
begin

text \<open>
  \<open>gpoint_transform\<close> and \<open>gvector_transform\<close> of \<^verbatim>\<open>src/src/gtransform.c\<close>:
  the integer point or vector is converted to precise coordinates, and unless
  the transform pointer is \<open>NULL\<close> each output coordinate is the three-term sum
  \<open>x * a + y * c + 1 * tx\<close> (and \<open>x * b + y * d + 1 * ty\<close>) of mixed-precision
  products.  Vectors receive the translation terms too, as the code does.
\<close>

definition gpoint_transform :: "GPoint \<Rightarrow> GTransform option \<Rightarrow> GPointPrecise" where
  "gpoint_transform point t =
     (let pointP = GPointPreciseFromGPoint point
      in case t of
           None \<Rightarrow> pointP
         | Some t \<Rightarrow>
             (let x_a = Fixed_S16_3_S32_16_mul (gpp_x pointP) (gt_a t);
                  y_c = Fixed_S16_3_S32_16_mul (gpp_y pointP) (gt_c t);
                  one_tx = Fixed_S16_3_S32_16_mul FIXED_S16_3_ONE (gt_tx t);
                  x_b = Fixed_S16_3_S32_16_mul (gpp_x pointP) (gt_b t);
                  y_d = Fixed_S16_3_S32_16_mul (gpp_y pointP) (gt_d t);
                  one_ty = Fixed_S16_3_S32_16_mul FIXED_S16_3_ONE (gt_ty t);
                  sum_x = Fixed_S16_3_add3 x_a y_c one_tx;
                  sum_y = Fixed_S16_3_add3 x_b y_d one_ty
              in GPointPrecise (sint sum_x) (sint sum_y)))"

definition gvector_transform :: "GVector \<Rightarrow> GTransform option \<Rightarrow> GVectorPrecise" where
  "gvector_transform vector t =
     (let vectorP = GVectorPreciseFromGVector vector
      in case t of
           None \<Rightarrow> vectorP
         | Some t \<Rightarrow>
             (let x_a = Fixed_S16_3_S32_16_mul (gvp_dx vectorP) (gt_a t);
                  y_c = Fixed_S16_3_S32_16_mul (gvp_dy vectorP) (gt_c t);
                  one_tx = Fixed_S16_3_S32_16_mul FIXED_S16_3_ONE (gt_tx t);
                  x_b = Fixed_S16_3_S32_16_mul (gvp_dx vectorP) (gt_b t);
                  y_d = Fixed_S16_3_S32_16_mul (gvp_dy vectorP) (gt_d t);
                  one_ty = Fixed_S16_3_S32_16_mul FIXED_S16_3_ONE (gt_ty t);
                  sum_x = Fixed_S16_3_add3 x_a y_c one_tx;
                  sum_y = Fixed_S16_3_add3 x_b y_d one_ty
              in GVectorPrecise (sint sum_x) (sint sum_y)))"

subsection \<open>Properties of the application\<close>

lemmas apply_defs = gpoint_transform_def gvector_transform_def GPointPrecise_def GVectorPrecise_def
  GPointPreciseFromGPoint_def GVectorPreciseFromGVector_def conversion_defs

text \<open>With a \<open>NULL\<close> transform, \<open>gpoint_transform\<close> and
  \<open>gvector_transform\<close> only convert their argument to precise coordinates.\<close>

theorem gtransform_apply_null:
  "gpoint_transform p None = GPointPreciseFromGPoint p \<and>
   gvector_transform v None = GVectorPreciseFromGVector v"
  by (simp add: gpoint_transform_def gvector_transform_def)

text \<open>Applying the identity transform to a point gives the precise
  conversion of the point exactly, and likewise for a vector.\<close>

theorem gtransform_apply_identity:
  "gpoint_transform p (Some GTransformIdentity) = GPointPreciseFromGPoint p \<and>
   gvector_transform v (Some GTransformIdentity) = GVectorPreciseFromGVector v"
  by (simp add: gpoint_transform_def gvector_transform_def GTransformIdentity_def GPointPrecise_def
      GVectorPrecise_def fixed_simps Let_def)

text \<open>Claim C16.  \<open>gvector_transform\<close> computes exactly what \<open>gpoint_transform\<close>
  computes for the point with the same coordinates: vectors are not
  translation-invariant, the translation terms are added to them as well.\<close>

theorem gvector_transform_as_point:
  "gvp_dx (gvector_transform v t) = gpp_x (gpoint_transform \<lparr>gp_x = gv_dx v, gp_y = gv_dy v\<rparr> t) \<and>
   gvp_dy (gvector_transform v t) = gpp_y (gpoint_transform \<lparr>gp_x = gv_dx v, gp_y = gv_dy v\<rparr> t)"
  by (cases t) (simp_all add: apply_defs Let_def)

end
