(* ===== verification/Affine_Spec.thy ===== *)
theory Affine_Spec
  imports Complex_Main GTransform_Apply
begin

text \<open>
  The mathematical contract of the library: an affine transform is six
  rational coefficients, concatenation is the exact product of the 3x3
  matrices in the row-vector convention, and application maps \<open>[x y 1]\<close> to
  \<open>[x y 1] * M\<close>.  \<open>affine_of\<close> reads a \<open>GTransform\<close> as the rationals its
  coefficients stand for, \<open>precise_point_of\<close> a precise point.  The refinement
  lemmas bound how far the fixed-point results of the C code lie from the
  exact ones: every product of the code rounds towards minus infinity, so a
  result lies below the exact value by less than one unit of the last place
  per product it sums, as long as no sum leaves its word.
\<close>

record affine =
  af_a :: rat
  af_b :: rat
  af_c :: rat
  af_d :: rat
  af_tx :: rat
  af_ty :: rat

definition aff_concat :: "affine \<Rightarrow> affine \<Rightarrow> affine" where
  "aff_concat m1 m2 =
     \<lparr>af_a = af_a m1 * af_a m2 + af_b m1 * af_c m2,
      af_b = af_a m1 * af_b m2 + af_b m1 * af_d m2,
      af_c = af_c m1 * af_a m2 + af_d m1 * af_c m2,
      af_d = af_c m1 * af_b m2 + af_d m1 * af_d m2,
      af_tx = af_tx m1 * af_a m2 + af_ty m1 * af_c m2 + af_tx m2,
      af_ty = af_tx m1 * af_b m2 + af_ty m1 * af_d m2 + af_ty m2\<rparr>"

definition aff_apply :: "affine \<Rightarrow> rat \<times> rat \<Rightarrow> rat \<times> rat" where
  "aff_apply m p =
     (fst p * af_a m + snd p * af_c m + af_tx m, fst p * af_b m + snd p * af_d m + af_ty m)"

definition fixed32_val :: "Fixed_S32_16 \<Rightarrow> rat" where
  "fixed32_val v = of_int (sint v) / 65536"

definition fixed16_val :: "Fixed_S16_3 \<Rightarrow> rat" where
  "fixed16_val v = of_int (sint v) / 8"

definition affine_of :: "GTransform \<Rightarrow> affine" where
  "affine_of t =
     \<lparr>af_a = fixed32_val (gt_a t), af_b = fixed32_val (gt_b t), af_c = fixed32_val (gt_c t),
      af_d = fixed32_val (gt_d t), af_tx = fixed32_val (gt_tx t), af_ty = fixed32_val (gt_ty t)\<rparr>"

definition precise_point_of :: "GPointPrecise \<Rightarrow> rat \<times> rat" where
  "precise_point_of p = (fixed16_val (gpp_x p), fixed16_val (gpp_y p))"

definition precise_vector_of :: "GVectorPrecise \<Rightarrow> rat \<times> rat" where
  "precise_vector_of v = (fixed16_val (gvp_dx v), fixed16_val (gvp_dy v))"

text \<open>\<open>below_within k u x e\<close>: the computed \<open>x\<close> lies at most \<open>e\<close> below the exact
  value \<open>e\<close>, by less than \<open>k\<close> units \<open>u\<close>.\<close>

definition below_within :: "int \<Rightarrow> rat \<Rightarrow> rat \<Rightarrow> rat \<Rightarrow> bool" where
  "below_within k u x e = (x \<le> e \<and> e < x + of_int k * u)"

definition aff_below_within :: "int \<Rightarrow> rat \<Rightarrow> affine \<Rightarrow> affine \<Rightarrow> bool" where
  "aff_below_within k u m e =
     (below_within k u (af_a m) (af_a e) \<and> below_within k u (af_b m) (af_b e) \<and>
      below_within k u (af_c m) (af_c e) \<and> below_within k u (af_d m) (af_d e) \<and>
      below_within k u (af_tx m) (af_tx e) \<and> below_within k u (af_ty m) (af_ty e))"

text \<open>The raw coefficients of a transform are bounded by \<open>lin\<close> in the linear
  part and by \<open>tr\<close> in the translation.\<close>

definition coeffs_within :: "int \<Rightarrow> int \<Rightarrow> GTransform \<Rightarrow> bool" where
  "coeffs_within lin tr t =
     (\<bar>sint (gt_a t)\<bar> \<le> lin \<and> \<bar>sint (gt_b t)\<bar> \<le> lin \<and> \<bar>sint (gt_c t)\<bar> \<le> lin \<and>
      \<bar>sint (gt_d t)\<bar> \<le> lin \<and> \<bar>sint (gt_tx t)\<bar> \<le> tr \<and> \<bar>sint (gt_ty t)\<bar> \<le> tr)"

definition pt_below_within :: "int \<Rightarrow> rat \<Rightarrow> rat \<times> rat \<Rightarrow> rat \<times> rat \<Rightarrow> bool" where
  "pt_below_within k u q e = (below_within k u (fst q) (fst e) \<and> below_within k u (snd q) (snd e))"

text \<open>\<open>trunc_within u x e\<close>: \<open>x\<close> is \<open>e\<close> rounded towards zero, by less than \<open>u\<close>.\<close>

definition trunc_within :: "rat \<Rightarrow> rat \<Rightarrow> rat \<Rightarrow> bool" where
  "trunc_within u x e = (\<bar>x\<bar> \<le> \<bar>e\<bar> \<and> \<bar>e - x\<bar> < u)"

definition aff_trunc_within :: "rat \<Rightarrow> affine \<Rightarrow> affine \<Rightarrow> bool" where
  "aff_trunc_within u m e =
     (trunc_within u (af_a m) (af_a e) \<and> trunc_within u (af_b m) (af_b e) \<and>
      trunc_within u (af_c m) (af_c e) \<and> trunc_within u (af_d m) (af_d e) \<and>
      trunc_within u (af_tx m) (af_tx e) \<and> trunc_within u (af_ty m) (af_ty e))"

text \<open>The rotation by the angle whose cosine and sine are \<open>c\<close> and \<open>s\<close>.\<close>

definition aff_rotation :: "rat \<Rightarrow> rat \<Rightarrow> affine" where
  "aff_rotation c s = \<lparr>af_a = c, af_b = - s, af_c = s, af_d = c, af_tx = 0, af_ty = 0\<rparr>"

subsection \<open>Floors and the rationals\<close>

lemma floor_sum_below_within:
  assumes "d * f \<le> e" "e < d * f + k * d" "0 < d" "0 < s"
  shows "below_within k (1 / of_int s) (of_int f / of_int s) (of_int e / (of_int s * of_int d))"
proof -
  have "of_int (d * f) \<le> (of_int e :: rat)" "(of_int e :: rat) < of_int (d * f + k * d)"
    using assms(1,2) by linarith+
  then show ?thesis
    using assms(3,4) by (simp add: below_within_def field_simps)
qed

lemma div_65536_abs_le:
  "\<bar>x::int\<bar> \<le> 65536 * b \<Longrightarrow> \<bar>x div 65536\<bar> \<le> b"
  by (simp add: abs_le_iff) linarith

subsection \<open>Products and sums of coefficients\<close>

text \<open>A 32-bit product whose exact value is at most \<open>2^45\<close> in magnitude is the
  floor of the scaled product.\<close>

lemma mul_floor_in_range:
  assumes "\<bar>sint a * sint b\<bar> \<le> 2 ^ 45"
  shows "sint (Fixed_S32_16_mul a b) = sint a * sint b div 65536"
    and "\<bar>sint a * sint b div 65536\<bar> \<le> 2 ^ 29"
proof -
  show b: "\<bar>sint a * sint b div 65536\<bar> \<le> 2 ^ 29"
    using assms by (intro div_65536_abs_le) simp
  then show "sint (Fixed_S32_16_mul a b) = sint a * sint b div 65536"
    by (simp add: Fixed_S32_16_mul_word sint_word_of_int32 abs_le_iff)
qed

lemma floor_pair_bounds:
  fixes x y :: int
  shows "65536 * (x div 65536 + y div 65536) \<le> x + y \<and>
   x + y < 65536 * (x div 65536 + y div 65536) + 2 * 65536"
  using floor_div_bounds[of 65536 x] floor_div_bounds[of 65536 y] by simp

lemma coeff_product_val:
  "fixed32_val p * fixed32_val q + fixed32_val r * fixed32_val s =
   of_int (sint p * sint q + sint r * sint s) / (of_int 65536 * of_int 65536)"
  by (simp add: fixed32_val_def field_simps)

text \<open>A linear coefficient of a concatenation, \<open>p q + r s\<close>.\<close>

lemma concat_coeff_refines:
  assumes "\<bar>sint p * sint q\<bar> \<le> 2 ^ 40" and "\<bar>sint r * sint s\<bar> \<le> 2 ^ 40"
  shows "below_within 2 (1 / 65536)
           (fixed32_val (Fixed_S32_16_add (Fixed_S32_16_mul p q) (Fixed_S32_16_mul r s)))
           (fixed32_val p * fixed32_val q + fixed32_val r * fixed32_val s)"
proof -
  let ?f = "sint p * sint q div 65536 + sint r * sint s div 65536"
  have m: "\<bar>sint p * sint q div 65536\<bar> \<le> 2 ^ 24" "\<bar>sint r * sint s div 65536\<bar> \<le> 2 ^ 24"
    using assms by (intro div_65536_abs_le; simp)+
  have pq: "\<bar>sint p * sint q\<bar> \<le> 2 ^ 45" and rs: "\<bar>sint r * sint s\<bar> \<le> 2 ^ 45"
    using assms by simp_all
  have "sint (Fixed_S32_16_add (Fixed_S32_16_mul p q) (Fixed_S32_16_mul r s)) = ?f"
    unfolding Fixed_S32_16_add_def Fixed_S32_16_def mul_floor_in_range(1)[OF pq] mul_floor_in_range(1)[OF rs]
    by (rule sint_word_of_int32) (use m in \<open>simp_all add: abs_le_iff\<close>)
  then show ?thesis
    using floor_sum_below_within[of 65536 ?f "sint p * sint q + sint r * sint s" 2 65536]
      floor_pair_bounds[of "sint p * sint q" "sint r * sint s"]
    by (simp add: fixed32_val_def coeff_product_val add_divide_distrib)
qed

text \<open>A translation coefficient of a concatenation, \<open>p q + r s + u\<close>.\<close>

lemma concat_trans_refines:
  assumes "\<bar>sint p * sint q\<bar> \<le> 2 ^ 45" and "\<bar>sint r * sint s\<bar> \<le> 2 ^ 45"
    and "\<bar>sint u\<bar> \<le> 2 ^ 25"
  shows "below_within 2 (1 / 65536)
           (fixed32_val (Fixed_S32_16_add3 (Fixed_S32_16_mul p q) (Fixed_S32_16_mul r s) u))
           (fixed32_val p * fixed32_val q + fixed32_val r * fixed32_val s + fixed32_val u)"
proof -
  let ?f = "sint p * sint q div 65536 + sint r * sint s div 65536 + sint u"
  let ?e = "sint p * sint q + sint r * sint s + 65536 * sint u"
  have m: "\<bar>sint p * sint q div 65536\<bar> \<le> 2 ^ 29" "\<bar>sint r * sint s div 65536\<bar> \<le> 2 ^ 29"
    using assms by (simp_all add: mul_floor_in_range(2))
  have "sint (Fixed_S32_16_add3 (Fixed_S32_16_mul p q) (Fixed_S32_16_mul r s) u) = ?f"
    unfolding Fixed_S32_16_add3_def Fixed_S32_16_def mul_floor_in_range(1)[OF assms(1)] mul_floor_in_range(1)[OF assms(2)]
    by (rule sint_word_of_int32) (use m assms(3) in \<open>simp_all add: abs_le_iff\<close>)
  moreover have "fixed32_val p * fixed32_val q + fixed32_val r * fixed32_val s + fixed32_val u =
                 of_int ?e / (of_int 65536 * of_int 65536)"
    by (simp add: fixed32_val_def field_simps)
  ultimately show ?thesis
    using floor_sum_below_within[of 65536 ?f ?e 2 65536]
      floor_pair_bounds[of "sint p * sint q" "sint r * sint s"]
    by (simp add: fixed32_val_def add_divide_distrib)
qed

lemma lin_prod_bound:
  "\<bar>x\<bar> \<le> 2 ^ 20 \<Longrightarrow> \<bar>y\<bar> \<le> 2 ^ 20 \<Longrightarrow> \<bar>x * y\<bar> \<le> (2::int) ^ 40"
  using abs_prod_le[of x "2 ^ 20" y "2 ^ 20"] by simp

lemma trans_prod_bound:
  "\<bar>x\<bar> \<le> 2 ^ 25 \<Longrightarrow> \<bar>y\<bar> \<le> 2 ^ 20 \<Longrightarrow> \<bar>x * y\<bar> \<le> (2::int) ^ 45"
  using abs_prod_le[of x "2 ^ 25" y "2 ^ 20"] by simp

subsection \<open>Refinement of concatenation\<close>

text \<open>Claim C10.  For transforms whose linear coefficients are at most 16 and
  whose translations are at most 512 in magnitude, \<open>gtransform_concat\<close>
  computes the exact matrix product up to rounding: every coefficient of the
  result lies below the exact one by less than two units of \<open>2^-16\<close>, the two
  products it sums each rounding down.\<close>

theorem gtransform_concat_refines:
  assumes "coeffs_within (2 ^ 20) (2 ^ 25) t1" and "coeffs_within (2 ^ 20) (2 ^ 25) t2"
  shows "aff_below_within 2 (1 / 65536) (affine_of (gtransform_concat_val t1 t2))
           (aff_concat (affine_of t1) (affine_of t2))"
  using assms
  unfolding aff_below_within_def affine_of_def aff_concat_def gtransform_concat_val_def Let_def
    affine.select_convs GTransform.GTransform.select_convs coeffs_within_def
  by (intro conjI concat_coeff_refines concat_trans_refines lin_prod_bound trans_prod_bound; simp)

subsection \<open>Refinement of the application to a point\<close>

lemma floor_triple_bounds:
  fixes x y z :: int
  shows "65536 * (x div 65536 + y div 65536 + z div 65536) \<le> x + y + z \<and>
         x + y + z < 65536 * (x div 65536 + y div 65536 + z div 65536) + 3 * 65536"
  using floor_div_bounds[of 65536 x] floor_div_bounds[of 65536 y] floor_div_bounds[of 65536 z]
  by simp

lemma sum_of_mixed_products:
  "Fixed_S16_3_add3 (Fixed_S16_3_S32_16_mul px a) (Fixed_S16_3_S32_16_mul py c)
     (Fixed_S16_3_S32_16_mul FIXED_S16_3_ONE tx) =
   word_of_int (sint px * sint a div 65536 + sint py * sint c div 65536 + 8 * sint tx div 65536)"
  by (simp add: Fixed_S16_3_add3_word Fixed_S16_3_S32_16_mul_word FIXED_S16_3_ONE_raw)

text \<open>One coordinate of \<open>gpoint_transform\<close>, \<open>px a + py c + 1 tx\<close>: three
  products, each rounded down to a unit of \<open>1/8\<close>.\<close>

lemma apply_coord_refines:
  assumes "- 4095 \<le> fixed16_val px * fixed32_val a + fixed16_val py * fixed32_val c + fixed32_val tx"
    and "fixed16_val px * fixed32_val a + fixed16_val py * fixed32_val c + fixed32_val tx < 4096"
  shows "below_within 3 (1 / 8)
           (fixed16_val (Fixed_S16_3_add3 (Fixed_S16_3_S32_16_mul px a) (Fixed_S16_3_S32_16_mul py c)
              (Fixed_S16_3_S32_16_mul FIXED_S16_3_ONE tx)))
           (fixed16_val px * fixed32_val a + fixed16_val py * fixed32_val c + fixed32_val tx)"
proof -
  let ?f = "sint px * sint a div 65536 + sint py * sint c div 65536 + 8 * sint tx div 65536"
  let ?e = "sint px * sint a + sint py * sint c + 8 * sint tx"
  have x: "fixed16_val px * fixed32_val a + fixed16_val py * fixed32_val c + fixed32_val tx =
           of_int ?e / (of_int 8 * of_int 65536)"
    by (simp add: fixed16_val_def fixed32_val_def field_simps)
  have fe: "65536 * ?f \<le> ?e \<and> ?e < 65536 * ?f + 3 * 65536"
    using floor_triple_bounds[of "sint px * sint a" "sint py * sint c" "8 * sint tx"] .
  have "rat_of_int (- 4095 * 524288) \<le> of_int ?e" "rat_of_int ?e < of_int (4096 * 524288)"
    using assms unfolding x by (simp_all add: field_simps)
  then have "- 4095 * 524288 \<le> ?e" "?e < 4096 * 524288"
    by (simp_all only: of_int_le_iff of_int_less_iff)
  then have r: "sint (word_of_int ?f :: int16) = ?f"
    using fe by (intro sint_word_of_int16) linarith+
  show ?thesis
    unfolding sum_of_mixed_products fixed16_val_def[of "word_of_int _"] r x
    using floor_sum_below_within[of 65536 ?f ?e 3 8] fe
    by simp
qed

text \<open>Claim C11.  \<open>gpoint_transform\<close> refines the exact affine map: applied to
  the precise form of an integer point, the precise result lies below the exact
  image \<open>[x y 1] * M\<close> by less than three units of \<open>1/8\<close> in each coordinate,
  as long as the exact image lies in the window \<open>[-4095, 4096)\<close> that a
  \<open>Fixed_S16_3\<close> can hold.\<close>

theorem gpoint_transform_refines:
  assumes "- 4095 \<le> fst (aff_apply (affine_of t) (precise_point_of (GPointPreciseFromGPoint p)))"
    and "fst (aff_apply (affine_of t) (precise_point_of (GPointPreciseFromGPoint p))) < 4096"
    and "- 4095 \<le> snd (aff_apply (affine_of t) (precise_point_of (GPointPreciseFromGPoint p)))"
    and "snd (aff_apply (affine_of t) (precise_point_of (GPointPreciseFromGPoint p))) < 4096"
  shows "pt_below_within 3 (1 / 8) (precise_point_of (gpoint_transform p (Some t)))
           (aff_apply (affine_of t) (precise_point_of (GPointPreciseFromGPoint p)))"
  using assms
  unfolding pt_below_within_def gpoint_transform_def Let_def option.case GPointPrecise_def
    precise_point_of_def aff_apply_def affine_of_def affine.select_convs GPointPrecise.select_convs
    fst_conv snd_conv word_of_int_sint_id
  by (intro conjI apply_coord_refines)

subsection \<open>Refinement of the rotation matrix\<close>

lemma abs_sdiv_65535:
  fixes x :: int
  shows "\<bar>x sdiv 65535\<bar> = \<bar>x\<bar> div 65535"
proof (cases x "0::int" rule: linorder_cases)
  case less
  then show ?thesis by (simp add: signed_divide_int_def)
next
  case equal
  then show ?thesis by simp
next
  case greater
  then show ?thesis by (simp add: signed_divide_int_def)
qed

lemma trig_rescale_trunc:
  fixes v :: int
  shows "trunc_within (1 / 65536) (of_int ((v * 65536) sdiv 65535) / 65536) (of_int v / 65535)"
proof -
  let ?x = "v * 65536" and ?q = "(v * 65536) sdiv 65535"
  have m: "\<bar>?x - 65535 * ?q\<bar> < 65535"
    using smod_int_range[of 65535 ?x] unfolding minus_mult_sdiv_eq_smod by auto
  have a: "65535 * \<bar>?q\<bar> \<le> \<bar>?x\<bar>"
    using floor_div_bounds[of 65535 "\<bar>?x\<bar>"] by (simp add: abs_sdiv_65535)
  have "rat_of_int \<bar>?x - 65535 * ?q\<bar> < 65535" "rat_of_int (65535 * \<bar>?q\<bar>) \<le> of_int \<bar>?x\<bar>"
    using m a by linarith+
  then show ?thesis
    by (simp add: trunc_within_def abs_mult field_simps)
qed

lemma trunc_within_uminus:
  "trunc_within u x e \<Longrightarrow> trunc_within u (- x) (- e)"
  by (simp add: trunc_within_def abs_minus_commute)

lemma trunc_within_refl:
  "0 < u \<Longrightarrow> trunc_within u x x"
  by (simp add: trunc_within_def)

text \<open>Claim C12.  \<open>gtransform_init_rotation\<close> refines the exact rotation: at a
  non-zero angle where the tables stay within \<open>\<plusminus>TRIG_MAX_RATIO\<close>, each
  coefficient is the exact ratio \<open>cos / TRIG_MAX_RATIO\<close> or
  \<open>\<plusminus>sin / TRIG_MAX_RATIO\<close> truncated towards zero by less than one unit of
  \<open>2^-16\<close>, and the translation is zero.\<close>

theorem gtransform_init_rotation_refines:
  assumes "angle \<noteq> 0"
    and "\<bar>sint (cos_lookup trig angle)\<bar> \<le> TRIG_MAX_RATIO"
    and "\<bar>sint (sin_lookup trig angle)\<bar> \<le> TRIG_MAX_RATIO"
  shows "aff_trunc_within (1 / 65536) (affine_of (gtransform_init_rotation trig angle))
           (aff_rotation (of_int (sint (cos_lookup trig angle)) / of_int TRIG_MAX_RATIO)
                         (of_int (sint (sin_lookup trig angle)) / of_int TRIG_MAX_RATIO))"
proof -
  let ?cv = "(sint (cos_lookup trig angle) * 65536) sdiv 65535"
  let ?sv = "(sint (sin_lookup trig angle) * 65536) sdiv 65535"
  have c: "\<bar>?cv\<bar> \<le> 65536" and s: "\<bar>?sv\<bar> \<le> 65536"
    using trig_rescale_bound assms(2,3) by (auto simp: TRIG_MAX_RATIO_def)
  have r: "affine_of (gtransform_init_rotation trig angle) =
           aff_rotation (of_int ?cv / 65536) (of_int ?sv / 65536)"
    using assms(1) c s
    by (simp add: gtransform_init_rotation_def affine_of_def aff_rotation_def fixed32_val_def
        GTransform_def TRIG_MAX_RATIO_def FIXED_S32_16_ONE_raw GTransformNumberZero_raw Let_def
        sint_word_of_rescale sint_uminus_word_of_rescale del: of_int_sint)
  show ?thesis
    unfolding r aff_trunc_within_def aff_rotation_def affine.select_convs TRIG_MAX_RATIO_def
    by (simp add: trig_rescale_trunc trunc_within_uminus trunc_within_refl del: of_int_sint)
qed

text \<open>The same holds of \<open>gvector_transform\<close>, which adds the translation to a
  vector as to a point.\<close>

lemma gvector_transform_refines:
  assumes "- 4095 \<le> fst (aff_apply (affine_of t) (precise_vector_of (GVectorPreciseFromGVector v)))"
    and "fst (aff_apply (affine_of t) (precise_vector_of (GVectorPreciseFromGVector v))) < 4096"
    and "- 4095 \<le> snd (aff_apply (affine_of t) (precise_vector_of (GVectorPreciseFromGVector v)))"
    and "snd (aff_apply (affine_of t) (precise_vector_of (GVectorPreciseFromGVector v))) < 4096"
  shows "pt_below_within 3 (1 / 8) (precise_vector_of (gvector_transform v (Some t)))
           (aff_apply (affine_of t) (precise_vector_of (GVectorPreciseFromGVector v)))"
  using assms
  unfolding pt_below_within_def gvector_transform_def Let_def option.case GVectorPrecise_def
    precise_vector_of_def aff_apply_def affine_of_def affine.select_convs GVectorPrecise.select_convs
    fst_conv snd_conv word_of_int_sint_id
  by (intro conjI apply_coord_refines)

subsection \<open>End to end: concatenate, then apply\<close>

lemma aff_apply_concat:
  "aff_apply (aff_concat m1 m2) q = aff_apply m2 (aff_apply m1 q)"
  by (simp add: aff_apply_def aff_concat_def algebra_simps)

lemma below_within_abs:
  "below_within k u x e \<Longrightarrow> \<bar>x - e\<bar> < of_int k * u"
  by (simp add: below_within_def)

lemma fixed16_val_abs_le:
  "\<bar>fixed16_val v\<bar> \<le> 4096"
proof -
  have "rat_of_int \<bar>sint v\<bar> \<le> 32768"
    using sint_range16[of v] by (simp only: of_int_le_iff)
  then show ?thesis
    by (simp add: fixed16_val_def del: of_int_sint)
qed

text \<open>Moving the coefficients of one coordinate by less than \<open>2^-15\<close> each moves
  the image of a precise point by less than \<open>1/4 + 2^-15\<close>.\<close>

lemma coord_perturb:
  fixes x y a a' c c' t t' :: rat
  assumes "\<bar>x\<bar> \<le> 4096" "\<bar>y\<bar> \<le> 4096"
    and "\<bar>a' - a\<bar> < 2 / 65536" "\<bar>c' - c\<bar> < 2 / 65536" "\<bar>t' - t\<bar> < 2 / 65536"
  shows "\<bar>(x * a' + y * c' + t') - (x * a + y * c + t)\<bar> < 1 / 4 + 2 / 65536"
proof -
  have "\<bar>x * (a' - a)\<bar> \<le> 4096 * (2 / 65536)"
    unfolding abs_mult using assms(1,3) by (intro mult_mono) simp_all
  moreover have "\<bar>y * (c' - c)\<bar> \<le> 4096 * (2 / 65536)"
    unfolding abs_mult using assms(2,4) by (intro mult_mono) simp_all
  moreover have e: "(x * a' + y * c' + t') - (x * a + y * c + t) = x * (a' - a) + y * (c' - c) + (t' - t)"
    by (simp add: algebra_simps)
  ultimately show ?thesis
    unfolding e
    using assms(5) abs_triangle_ineq[of "x * (a' - a) + y * (c' - c)" "t' - t"]
      abs_triangle_ineq[of "x * (a' - a)" "y * (c' - c)"]
    by linarith
qed

lemma apply_error_compose:
  fixes r v w :: rat
  assumes "below_within 3 (1 / 8) r v" and "\<bar>v - w\<bar> < 1 / 4 + 2 / 65536"
  shows "\<bar>r - w\<bar> < 3 / 8 + (1 / 4 + 2 / 65536)"
  using below_within_abs[OF assms(1)] assms(2) abs_triangle_ineq[of "r - v" "v - w"] by simp

text \<open>Claim C13.  The library's control flow is exact up to a bounded error:
  for transforms within the bounds of \<open>gtransform_concat_refines\<close>, applying
  their concatenation computed by \<open>gtransform_concat\<close> to an integer point with
  \<open>gpoint_transform\<close> lands, in each coordinate, within \<open>3/8 + 1/4 + 2^-15\<close> of
  applying the first and then the second exact transform to its precise form,
  as long as the image fits a \<open>Fixed_S16_3\<close>: \<open>3/8\<close> from the application, the
  rest from the rounded coefficients of the concatenation.\<close>

theorem gpoint_transform_concat_refines:
  assumes "coeffs_within (2 ^ 20) (2 ^ 25) t1" and "coeffs_within (2 ^ 20) (2 ^ 25) t2"
    and "- 4095 \<le> fst (aff_apply (affine_of (gtransform_concat_val t1 t2)) (precise_point_of (GPointPreciseFromGPoint p)))"
    and "fst (aff_apply (affine_of (gtransform_concat_val t1 t2)) (precise_point_of (GPointPreciseFromGPoint p))) < 4096"
    and "- 4095 \<le> snd (aff_apply (affine_of (gtransform_concat_val t1 t2)) (precise_point_of (GPointPreciseFromGPoint p)))"
    and "snd (aff_apply (affine_of (gtransform_concat_val t1 t2)) (precise_point_of (GPointPreciseFromGPoint p))) < 4096"
  shows "\<bar>fst (precise_point_of (gpoint_transform p (Some (gtransform_concat_val t1 t2)))) -
           fst (aff_apply (affine_of t2) (aff_apply (affine_of t1) (precise_point_of (GPointPreciseFromGPoint p))))\<bar>
         < 3 / 8 + (1 / 4 + 2 / 65536) \<and>
         \<bar>snd (precise_point_of (gpoint_transform p (Some (gtransform_concat_val t1 t2)))) -
           snd (aff_apply (affine_of t2) (aff_apply (affine_of t1) (precise_point_of (GPointPreciseFromGPoint p))))\<bar>
         < 3 / 8 + (1 / 4 + 2 / 65536)"
proof -
  let ?t = "gtransform_concat_val t1 t2" and ?P = "precise_point_of (GPointPreciseFromGPoint p)"
  let ?M = "aff_concat (affine_of t1) (affine_of t2)"
  have c: "below_within 2 (1 / 65536) (af_a (affine_of ?t)) (af_a ?M) \<and>
           below_within 2 (1 / 65536) (af_b (affine_of ?t)) (af_b ?M) \<and>
           below_within 2 (1 / 65536) (af_c (affine_of ?t)) (af_c ?M) \<and>
           below_within 2 (1 / 65536) (af_d (affine_of ?t)) (af_d ?M) \<and>
           below_within 2 (1 / 65536) (af_tx (affine_of ?t)) (af_tx ?M) \<and>
           below_within 2 (1 / 65536) (af_ty (affine_of ?t)) (af_ty ?M)"
    using assms(1,2)
    unfolding affine_of_def aff_concat_def gtransform_concat_val_def Let_def
      affine.select_convs GTransform.GTransform.select_convs coeffs_within_def
    by (intro conjI concat_coeff_refines concat_trans_refines lin_prod_bound trans_prod_bound; simp)
  have r: "pt_below_within 3 (1 / 8) (precise_point_of (gpoint_transform p (Some ?t))) (aff_apply (affine_of ?t) ?P)"
    using assms(3-6)
    unfolding pt_below_within_def gpoint_transform_def Let_def option.case GPointPrecise_def
      precise_point_of_def aff_apply_def affine_of_def affine.select_convs GPointPrecise.select_convs
      fst_conv snd_conv word_of_int_sint_id
    by (intro conjI apply_coord_refines)
  have x: "\<bar>fst (aff_apply (affine_of ?t) ?P) - fst (aff_apply ?M ?P)\<bar> < 1 / 4 + 2 / 65536"
    unfolding aff_apply_def fst_conv
    using c fixed16_val_abs_le
    by (intro coord_perturb) (auto simp: affine_of_def precise_point_of_def dest!: below_within_abs)
  have y: "\<bar>snd (aff_apply (affine_of ?t) ?P) - snd (aff_apply ?M ?P)\<bar> < 1 / 4 + 2 / 65536"
    unfolding aff_apply_def snd_conv
    using c fixed16_val_abs_le
    by (intro coord_perturb) (auto simp: affine_of_def precise_point_of_def dest!: below_within_abs)
  then show ?thesis
    using r x unfolding pt_below_within_def aff_apply_concat
    by (blast intro: apply_error_compose)
qed

subsection \<open>Witnesses\<close>

theorem gtransform_concat_refines_witness:
  "coeffs_within (2 ^ 20) (2 ^ 25) (GTransformScale 98304 98304) \<and>
   coeffs_within (2 ^ 20) (2 ^ 25) (GTransformTranslationFromNumber 100 100) \<and>
   aff_below_within 2 (1 / 65536)
     (affine_of (gtransform_concat_val (GTransformScale 98304 98304) (GTransformTranslationFromNumber 100 100)))
     (aff_concat (affine_of (GTransformScale 98304 98304)) (affine_of (GTransformTranslationFromNumber 100 100)))"
  using gtransform_concat_refines [of "GTransformScale 98304 98304" "GTransformTranslationFromNumber 100 100"]
  by (simp add: coeffs_within_def GTransformScale_def GTransformTranslationFromNumber_def
      GTransformTranslation_def GTransformIdentity_def GTransform_def
      GTransformNumberFromNumber_def fixed_simps)

theorem gpoint_transform_refines_witness:
  "- 4095 \<le> fst (aff_apply (affine_of (GTransformScale 98304 98304)) (precise_point_of (GPointPreciseFromGPoint (GPoint 3 5)))) \<and>
   fst (aff_apply (affine_of (GTransformScale 98304 98304)) (precise_point_of (GPointPreciseFromGPoint (GPoint 3 5)))) < 4096 \<and>
   - 4095 \<le> snd (aff_apply (affine_of (GTransformScale 98304 98304)) (precise_point_of (GPointPreciseFromGPoint (GPoint 3 5)))) \<and>
   snd (aff_apply (affine_of (GTransformScale 98304 98304)) (precise_point_of (GPointPreciseFromGPoint (GPoint 3 5)))) < 4096 \<and>
   pt_below_within 3 (1 / 8) (precise_point_of (gpoint_transform (GPoint 3 5) (Some (GTransformScale 98304 98304))))
     (aff_apply (affine_of (GTransformScale 98304 98304)) (precise_point_of (GPointPreciseFromGPoint (GPoint 3 5))))"
  using gpoint_transform_refines [of "GTransformScale 98304 98304" "GPoint 3 5"]
  by (simp add: aff_apply_def affine_of_def precise_point_of_def fixed32_val_def fixed16_val_def
      GTransformScale_def GTransform_def GTransformNumberZero_raw GPointPreciseFromGPoint_def GPointPrecise_def
      GPoint_def conversion_defs)

theorem gtransform_init_rotation_refines_witness:
  "(8192::int32) \<noteq> 0 \<and>
   \<bar>sint (cos_lookup \<lparr>cos_lookup = \<lambda>_. 46340, sin_lookup = \<lambda>_. 46340\<rparr> 8192)\<bar> \<le> TRIG_MAX_RATIO \<and>
   \<bar>sint (sin_lookup \<lparr>cos_lookup = \<lambda>_. 46340, sin_lookup = \<lambda>_. 46340\<rparr> 8192)\<bar> \<le> TRIG_MAX_RATIO \<and>
   aff_trunc_within (1 / 65536)
     (affine_of (gtransform_init_rotation \<lparr>cos_lookup = \<lambda>_. 46340, sin_lookup = \<lambda>_. 46340\<rparr> 8192))
     (aff_rotation (46340 / 65535) (46340 / 65535))"
  using gtransform_init_rotation_refines [of 8192 "\<lparr>cos_lookup = \<lambda>_. 46340, sin_lookup = \<lambda>_. 46340\<rparr>"]
  by (simp add: TRIG_MAX_RATIO_def)

theorem gpoint_transform_concat_refines_witness:
  "coeffs_within (2 ^ 20) (2 ^ 25) (GTransformScale 98304 98304) \<and>
   coeffs_within (2 ^ 20) (2 ^ 25) (GTransformTranslationFromNumber 100 100) \<and>
   - 4095 \<le> fst (aff_apply (affine_of (gtransform_concat_val (GTransformScale 98304 98304)
                 (GTransformTranslationFromNumber 100 100))) (precise_point_of (GPointPreciseFromGPoint (GPoint 3 5)))) \<and>
   fst (aff_apply (affine_of (gtransform_concat_val (GTransformScale 98304 98304)
                 (GTransformTranslationFromNumber 100 100))) (precise_point_of (GPointPreciseFromGPoint (GPoint 3 5)))) < 4096 \<and>
   - 4095 \<le> snd (aff_apply (affine_of (gtransform_concat_val (GTransformScale 98304 98304)
                 (GTransformTranslationFromNumber 100 100))) (precise_point_of (GPointPreciseFromGPoint (GPoint 3 5)))) \<and>
   snd (aff_apply (affine_of (gtransform_concat_val (GTransformScale 98304 98304)
                 (GTransformTranslationFromNumber 100 100))) (precise_point_of (GPointPreciseFromGPoint (GPoint 3 5)))) < 4096 \<and>
   \<bar>fst (precise_point_of (gpoint_transform (GPoint 3 5) (Some (gtransform_concat_val (GTransformScale 98304 98304)
        (GTransformTranslationFromNumber 100 100))))) -
     fst (aff_apply (affine_of (GTransformTranslationFromNumber 100 100))
       (aff_apply (affine_of (GTransformScale 98304 98304)) (precise_point_of (GPointPreciseFromGPoint (GPoint 3 5)))))\<bar>
   < 3 / 8 + (1 / 4 + 2 / 65536) \<and>
   \<bar>snd (precise_point_of (gpoint_transform (GPoint 3 5) (Some (gtransform_concat_val (GTransformScale 98304 98304)
        (GTransformTranslationFromNumber 100 100))))) -
     snd (aff_apply (affine_of (GTransformTranslationFromNumber 100 100))
       (aff_apply (affine_of (GTransformScale 98304 98304)) (precise_point_of (GPointPreciseFromGPoint (GPoint 3 5)))))\<bar>
   < 3 / 8 + (1 / 4 + 2 / 65536)"
  using gpoint_transform_concat_refines [of "GTransformScale 98304 98304" "GTransformTranslationFromNumber 100 100"
      "GPoint 3 5"]
  by (simp add: coeffs_within_def aff_apply_def affine_of_def precise_point_of_def fixed32_val_def fixed16_val_def
      gtransform_concat_val_def GTransformScale_def GTransformTranslationFromNumber_def GTransformTranslation_def
      GTransformNumberFromNumber_def GPointPreciseFromGPoint_def GPointPrecise_def GPoint_def conversion_defs
      fixed_simps Let_def)

end
