(* ===== verification/Demo.thy ===== *)
theory Demo
  imports "HOL-Library.While_Combinator" GTransform_Apply
begin

text \<open>
  The demo watch app \<^verbatim>\<open>src/src/test_gtransform.c\<close>: a sun, an earth and a
  moon drawn over a star background, the bodies scaled up and down and the
  earth and moon orbiting.  Its global variables are a record
  \<open>demo_state\<close>; its two handlers are \<open>time_handler\<close> (once a second) and
  \<open>frame_handler\<close> (every \<open>1000 / FRAME_RATE\<close> ms, through the layer's update
  procedure).  A handler is a function of the state; the drawing calls of the
  Pebble SDK it makes are returned, in order, as a list of \<open>draw_cmd\<close>.

  The scale factor is a C \<open>float\<close>: the state is generic in the type \<open>'f\<close>
  of the scale factor, and the six float computations of the code are an
  interface \<open>float_ops\<close> that the handlers receive, as the trigonometric
  tables are; \<open>Demo_Float\<close> instantiates it with the rounding of C.  Window, layer and timer handles of
  the SDK are not part of the state; the layer bounds and the centre of the
  window, which the SDK computes, are parameters.
\<close>

subsection \<open>SDK types used by the demo\<close>

record GSize =
  gs_w :: int16
  gs_h :: int16

record GRect =
  gr_origin :: GPoint
  gr_size :: GSize

datatype GColor = GColorBlack | GColorWhite

text \<open>The graphics calls of the demo, with their arguments after the C
  conversions to the SDK's parameter types (\<open>uint16_t\<close> radii);
  \<open>FillRect r\<close> is \<open>graphics_fill_rect(ctx, r, 0, GCornerNone)\<close>.\<close>

datatype draw_cmd =
    SetFillColor GColor
  | SetStrokeColor GColor
  | FillRect GRect
  | DrawPixel GPoint
  | FillCircle GPoint uint16
  | DrawCircle GPoint uint16
  | DrawLine GPoint GPoint

subsection \<open>Constants\<close>

definition DEG_TO_TRIG_ANGLE :: "int \<Rightarrow> int" where
  "DEG_TO_TRIG_ANGLE angle = ((angle smod 360) * TRIG_MAX_ANGLE) sdiv 360"

definition FRAME_RATE :: int where
  "FRAME_RATE = 20"

definition SUN_DIST_OFFSET :: int where
  "SUN_DIST_OFFSET = 0"

definition SUN_RADIUS :: int where
  "SUN_RADIUS = 30"

definition EARTH_ANGLE_OFFSET :: int where
  "EARTH_ANGLE_OFFSET = - DEG_TO_TRIG_ANGLE (90 sdiv FRAME_RATE)"

definition EARTH_RADIUS :: int where
  "EARTH_RADIUS = 10"

definition EARTH_DIST_OFFSET :: int where
  "EARTH_DIST_OFFSET = SUN_RADIUS + EARTH_RADIUS + 30"

definition MOON_ANGLE_OFFSET :: int where
  "MOON_ANGLE_OFFSET = - DEG_TO_TRIG_ANGLE (180 sdiv FRAME_RATE)"

definition MOON_RADIUS :: int where
  "MOON_RADIUS = 4"

definition MOON_DIST_OFFSET :: int where
  "MOON_DIST_OFFSET = EARTH_RADIUS + MOON_RADIUS + 10"

definition NUM_STARS :: nat where
  "NUM_STARS = 60"

definition stars :: "GPoint list" where
  "stars =
    [
     GPoint 2 2, GPoint 30 10, GPoint 60 6, GPoint 90 12, GPoint 120 8,
     GPoint 17 17, GPoint 45 25, GPoint 76 21, GPoint 105 27, GPoint 135 23,
     GPoint 2 32, GPoint 30 40, GPoint 60 36, GPoint 90 42, GPoint 120 38,
     GPoint 17 47, GPoint 45 55, GPoint 76 51, GPoint 105 57, GPoint 135 53,
     GPoint 2 62, GPoint 30 70, GPoint 60 66, GPoint 90 72, GPoint 120 68,
     GPoint 17 77, GPoint 45 85, GPoint 76 81, GPoint 105 87, GPoint 135 83,
     GPoint 2 92, GPoint 30 100, GPoint 60 96, GPoint 90 102, GPoint 120 98,
     GPoint 17 107, GPoint 45 115, GPoint 76 111, GPoint 105 117, GPoint 135 113,
     GPoint 2 122, GPoint 30 130, GPoint 60 126, GPoint 90 132, GPoint 120 128,
     GPoint 17 137, GPoint 45 145, GPoint 76 141, GPoint 105 147, GPoint 135 143,
     GPoint 2 152, GPoint 30 160, GPoint 60 156, GPoint 90 162, GPoint 120 158,
     GPoint 17 167, GPoint 45 165, GPoint 76 161, GPoint 105 167, GPoint 135 163]"

subsection \<open>State and the float interface\<close>

text \<open>The globals of the demo that hold values (the handles are omitted).\<close>

record 'f demo_state =
  scale_factor :: 'f
  scale_up :: bool
  scale_pause_count :: uint8
  seconds_index :: uint8
  seconds_count :: uint8
  center :: GPoint
  sun_distance :: int16
  sun_radius :: int16
  earth_angle :: int32
  earth_radius :: int32
  earth_distance :: int16
  moon_angle :: int32
  moon_radius :: int32
  moon_distance :: int16

text \<open>
  The float computations of the demo: the literal \<open>1\<close> of \<open>init\<close>,
  \<open>s_scale_factor += s_scale_up ? 0.05 : -0.05\<close>, the comparisons with
  \<open>MAX_SCALE\<close> (1.5) and \<open>MIN_SCALE\<close> (0.5), and the raw coefficient
  \<open>(int32_t)(x * 65536)\<close> that \<open>GTransformNumberFromNumber\<close> makes of
  \<open>s_scale_factor\<close> and of \<open>s_scale_factor + MIN_SCALE\<close>.
\<close>

record 'f float_ops =
  fl_one :: 'f
  fl_step :: "bool \<Rightarrow> 'f \<Rightarrow> 'f"
  fl_ge_max :: "'f \<Rightarrow> bool"
  fl_le_min :: "'f \<Rightarrow> bool"
  fl_number :: "'f \<Rightarrow> GTransformNumber"
  fl_star_number :: "'f \<Rightarrow> GTransformNumber"

subsection \<open>Handlers\<close>

text \<open>\<open>init\<close>: the values it gives the globals; \<open>s_center\<close> is the centre of the
  window's frame, computed by the SDK.\<close>

definition demo_init :: "'f float_ops \<Rightarrow> GPoint \<Rightarrow> 'f demo_state" where
  "demo_init F c =
     \<lparr>scale_factor = fl_one F, scale_up = True, scale_pause_count = 0,
      seconds_index = 0, seconds_count = 0, center = c,
      sun_distance = word_of_int SUN_DIST_OFFSET, sun_radius = word_of_int SUN_RADIUS,
      earth_angle = 0, earth_radius = word_of_int EARTH_RADIUS,
      earth_distance = word_of_int EARTH_DIST_OFFSET,
      moon_angle = 0, moon_radius = word_of_int MOON_RADIUS,
      moon_distance = word_of_int MOON_DIST_OFFSET\<rparr>"

text \<open>\<open>time_handler\<close>: \<open>if (++s_seconds_count > 6)\<close> moves the hidden third of
  the stars on every seventh second.\<close>

definition time_handler :: "'f demo_state \<Rightarrow> 'f demo_state" where
  "time_handler s =
     (let count = seconds_count s + 1
      in if 6 < uint count
         then s\<lparr>seconds_index := word_of_int ((uint (seconds_index s) + 1) smod 3), seconds_count := 0\<rparr>
         else s\<lparr>seconds_count := count\<rparr>)"

text \<open>The scaling state of \<open>frame_handler\<close>: the pause counter counts up to
  \<open>FRAME_RATE * 2\<close>, then every frame steps the scale factor, and reaching
  \<open>MAX_SCALE\<close> or \<open>MIN_SCALE\<close> turns the direction and restarts the pause.\<close>

definition frame_scale_update :: "'f float_ops \<Rightarrow> 'f demo_state \<Rightarrow> 'f demo_state" where
  "frame_scale_update F s =
     (if uint (scale_pause_count s) < FRAME_RATE * 2
      then s\<lparr>scale_pause_count := scale_pause_count s + 1\<rparr>
      else
        (let s1 = s\<lparr>scale_pause_count := word_of_int (FRAME_RATE * 2),
                    scale_factor := fl_step F (scale_up s) (scale_factor s)\<rparr>
         in if fl_ge_max F (scale_factor s1) then s1\<lparr>scale_up := False, scale_pause_count := 0\<rparr>
            else if fl_le_min F (scale_factor s1) then s1\<lparr>scale_up := True, scale_pause_count := 0\<rparr>
            else s1))"

text \<open>\<open>draw_star_background\<close>: the \<open>for\<close> loop over the stars as a
  \<open>while_option\<close> over the index and the commands drawn so far.\<close>

definition star_step :: "GTransform \<Rightarrow> uint8 \<Rightarrow> nat \<times> draw_cmd list \<Rightarrow> nat \<times> draw_cmd list" where
  "star_step ts sec st =
     (let (index, cmds) = st
      in (Suc index,
          if int index smod 3 \<noteq> uint sec smod 3
          then cmds @ [DrawPixel (GPointFromGPointPrecise (gpoint_transform (stars ! index) (Some ts)))]
          else cmds))"

definition star_loop :: "GTransform \<Rightarrow> uint8 \<Rightarrow> (nat \<times> draw_cmd list) option" where
  "star_loop ts sec = while_option (\<lambda>(index, cmds). index < NUM_STARS) (star_step ts sec) (0, [])"

definition draw_star_background :: "'f float_ops \<Rightarrow> 'f demo_state \<Rightarrow> draw_cmd list option" where
  "draw_star_background F s =
     (let ts = GTransformScale (fl_star_number F (scale_factor s)) (fl_star_number F (scale_factor s))
      in map_option (\<lambda>(index, cmds). SetStrokeColor GColorWhite # cmds) (star_loop ts (seconds_index s)))"

text \<open>The sun, earth and moon of \<open>frame_handler\<close>: the new globals, and the
  three points the handler draws.  \<open>gtransform_concat\<close> on the locals
  \<open>t_concat\<close>, \<open>tr\<close>, \<open>tt\<close>, which do not alias, is its value
  \<open>gtransform_concat_val\<close>.\<close>

definition frame_bodies ::
    "'f float_ops \<Rightarrow> trig_lookup \<Rightarrow> 'f demo_state \<Rightarrow> 'f demo_state \<times> GPoint \<times> GPoint \<times> GPoint" where
  "frame_bodies F trig s =
     (let ts = GTransformScale (fl_number F (scale_factor s)) (fl_number F (scale_factor s));
          tt = GTransformTranslationFromNumber (sint (gp_x (center s))) (sint (gp_y (center s)));
          sun_vector = GVectorFromGVectorPrecise (gvector_transform (GVector 0 SUN_RADIUS) (Some ts));
          s1 = s\<lparr>sun_radius := gv_dy sun_vector\<rparr>;
          sun_point = GPointFromGPointPrecise (gpoint_transform (GPoint 0 (sint (sun_distance s1))) (Some tt));
          earth_vector = GVectorFromGVectorPrecise (gvector_transform (GVector 0 EARTH_RADIUS) (Some ts));
          s2 = s1\<lparr>earth_radius := scast (gv_dy earth_vector)\<rparr>;
          earth_vector = GVectorFromGVectorPrecise (gvector_transform (GVector 0 EARTH_DIST_OFFSET) (Some ts));
          s3 = s2\<lparr>earth_distance := gv_dy earth_vector\<rparr>;
          earth_point = GPoint 0 (- sint (earth_distance s3));
          s4 = s3\<lparr>earth_angle := word_of_int ((sint (earth_angle s3) + EARTH_ANGLE_OFFSET) smod TRIG_MAX_ANGLE)\<rparr>;
          tr = GTransformRotation trig (earth_angle s4);
          t_concat = gtransform_concat_val tr tt;
          earth_point = GPointFromGPointPrecise (gpoint_transform earth_point (Some t_concat));
          moon_vector = GVectorFromGVectorPrecise (gvector_transform (GVector 0 MOON_RADIUS) (Some ts));
          s5 = s4\<lparr>moon_radius := scast (gv_dy moon_vector)\<rparr>;
          moon_vector = GVectorFromGVectorPrecise (gvector_transform (GVector 0 MOON_DIST_OFFSET) (Some ts));
          s6 = s5\<lparr>moon_distance := gv_dy moon_vector\<rparr>;
          moon_point = GPoint 0 (- sint (moon_distance s6));
          s7 = s6\<lparr>moon_angle := word_of_int ((sint (moon_angle s6) + MOON_ANGLE_OFFSET) smod TRIG_MAX_ANGLE)\<rparr>;
          tr = GTransformRotation trig (moon_angle s7);
          tt = GTransformTranslationFromNumber (sint (gp_x earth_point)) (sint (gp_y earth_point));
          t_concat = gtransform_concat_val tr tt;
          moon_point = GPointFromGPointPrecise (gpoint_transform moon_point (Some t_concat))
      in (s7, sun_point, earth_point, moon_point))"

text \<open>The state after a frame: the drawing calls do not touch the globals.\<close>

definition frame_state :: "'f float_ops \<Rightarrow> trig_lookup \<Rightarrow> 'f demo_state \<Rightarrow> 'f demo_state" where
  "frame_state F trig s = fst (frame_bodies F trig (frame_scale_update F s))"

text \<open>\<open>frame_handler\<close> with its drawing calls in order; \<open>None\<close> if the star
  loop did not stop.  A \<open>uint16_t\<close> radius parameter receives the low 16 bits
  of the \<open>int16_t\<close> or \<open>int32_t\<close> global.\<close>

definition frame_handler ::
    "'f float_ops \<Rightarrow> trig_lookup \<Rightarrow> GRect \<Rightarrow> 'f demo_state \<Rightarrow> ('f demo_state \<times> draw_cmd list) option" where
  "frame_handler F trig bounds s =
     (let s0 = frame_scale_update F s
      in case draw_star_background F s0 of
           None \<Rightarrow> None
         | Some star_cmds \<Rightarrow>
             (let (s', sun_point, earth_point, moon_point) = frame_bodies F trig s0
              in Some (s',
                   [SetFillColor GColorBlack, FillRect bounds] @ star_cmds @
                   [SetFillColor GColorWhite, FillCircle sun_point (scast (sun_radius s')),
                    FillCircle earth_point (ucast (earth_radius s')),
                    FillCircle moon_point (ucast (moon_radius s')),
                    DrawCircle earth_point (scast (moon_distance s')),
                    DrawCircle sun_point (scast (earth_distance s')),
                    SetStrokeColor GColorWhite, DrawLine sun_point earth_point,
                    DrawLine earth_point moon_point])))"

subsection \<open>Events\<close>

text \<open>The two events that drive the app: the second tick and the frame timer.\<close>

datatype demo_event = Tick | Frame

primrec demo_step :: "'f float_ops \<Rightarrow> trig_lookup \<Rightarrow> demo_event \<Rightarrow> 'f demo_state \<Rightarrow> 'f demo_state" where
  "demo_step F trig Tick s = time_handler s"
| "demo_step F trig Frame s = frame_state F trig s"

definition demo_run :: "'f float_ops \<Rightarrow> trig_lookup \<Rightarrow> demo_event list \<Rightarrow> 'f demo_state \<Rightarrow> 'f demo_state" where
  "demo_run F trig evs s = fold (demo_step F trig) evs s"

text \<open>The states the app reaches from \<open>init\<close> by any sequence of events.\<close>

inductive demo_reach :: "'f float_ops \<Rightarrow> trig_lookup \<Rightarrow> GPoint \<Rightarrow> 'f demo_state \<Rightarrow> bool"
  for F trig c where
  reach_start: "demo_reach F trig c (demo_init F c)"
| reach_event: "demo_reach F trig c s \<Longrightarrow> demo_reach F trig c (demo_step F trig e s)"

text \<open>What stays true of the counters and angles: no \<open>uint8_t\<close> counter wraps,
  the star group index is one of three, and both angles stay in
  \<open>(-TRIG_MAX_ANGLE, 0]\<close>.\<close>

definition demo_inv :: "'f demo_state \<Rightarrow> bool" where
  "demo_inv s =
     (uint (seconds_count s) \<le> 6 \<and> uint (seconds_index s) < 3 \<and> uint (scale_pause_count s) \<le> 40 \<and>
      - 65536 < sint (earth_angle s) \<and> sint (earth_angle s) \<le> 0 \<and>
      - 65536 < sint (moon_angle s) \<and> sint (moon_angle s) \<le> 0)"

text \<open>An instance of the float interface for the witnesses: scale factors held
  exactly in hundredths, so that \<open>1\<close>, \<open>0.05\<close>, \<open>MAX_SCALE\<close> and
  \<open>MIN_SCALE\<close> are \<open>100\<close>, \<open>5\<close>, \<open>150\<close> and \<open>50\<close>, and the conversion
  to a \<open>GTransformNumber\<close> truncates \<open>x * 65536 / 100\<close> as the C cast does
  for these non-negative values.\<close>

definition centi_float :: "int float_ops" where
  "centi_float =
     \<lparr>fl_one = 100, fl_step = (\<lambda>up x. if up then x + 5 else x - 5),
      fl_ge_max = (\<lambda>x. 150 \<le> x), fl_le_min = (\<lambda>x. x \<le> 50),
      fl_number = (\<lambda>x. word_of_int (x * 65536 div 100)),
      fl_star_number = (\<lambda>x. word_of_int ((x + 50) * 65536 div 100))\<rparr>"

subsection \<open>What a frame changes\<close>

lemma frame_scale_update_keeps:
  "seconds_index (frame_scale_update F s) = seconds_index s"
  "seconds_count (frame_scale_update F s) = seconds_count s"
  "center (frame_scale_update F s) = center s"
  "sun_distance (frame_scale_update F s) = sun_distance s"
  "earth_angle (frame_scale_update F s) = earth_angle s"
  "moon_angle (frame_scale_update F s) = moon_angle s"
  by (simp_all add: frame_scale_update_def Let_def)

lemma frame_bodies_fields:
  "seconds_index (fst (frame_bodies F trig s)) = seconds_index s"
  "seconds_count (fst (frame_bodies F trig s)) = seconds_count s"
  "scale_pause_count (fst (frame_bodies F trig s)) = scale_pause_count s"
  "center (fst (frame_bodies F trig s)) = center s"
  "sun_distance (fst (frame_bodies F trig s)) = sun_distance s"
  "earth_angle (fst (frame_bodies F trig s)) =
     word_of_int ((sint (earth_angle s) + EARTH_ANGLE_OFFSET) smod TRIG_MAX_ANGLE)"
  "moon_angle (fst (frame_bodies F trig s)) =
     word_of_int ((sint (moon_angle s) + MOON_ANGLE_OFFSET) smod TRIG_MAX_ANGLE)"
  by (simp_all add: frame_bodies_def Let_def)

lemma frame_state_fields:
  "seconds_index (frame_state F trig s) = seconds_index s"
  "seconds_count (frame_state F trig s) = seconds_count s"
  "scale_pause_count (frame_state F trig s) = scale_pause_count (frame_scale_update F s)"
  "center (frame_state F trig s) = center s"
  "sun_distance (frame_state F trig s) = sun_distance s"
  "earth_angle (frame_state F trig s) =
     word_of_int ((sint (earth_angle s) + EARTH_ANGLE_OFFSET) smod TRIG_MAX_ANGLE)"
  "moon_angle (frame_state F trig s) =
     word_of_int ((sint (moon_angle s) + MOON_ANGLE_OFFSET) smod TRIG_MAX_ANGLE)"
  by (simp_all add: frame_state_def frame_bodies_fields frame_scale_update_keeps)

lemma time_handler_fields:
  "scale_pause_count (time_handler s) = scale_pause_count s"
  "scale_factor (time_handler s) = scale_factor s"
  "scale_up (time_handler s) = scale_up s"
  "earth_angle (time_handler s) = earth_angle s"
  "moon_angle (time_handler s) = moon_angle s"
  by (simp_all add: time_handler_def Let_def)

lemma demo_offsets:
  "EARTH_ANGLE_OFFSET = - 728" "MOON_ANGLE_OFFSET = - 1638" "TRIG_MAX_ANGLE = 65536"
  by (simp_all add: EARTH_ANGLE_OFFSET_def MOON_ANGLE_OFFSET_def DEG_TO_TRIG_ANGLE_def FRAME_RATE_def
      TRIG_MAX_ANGLE_def)

subsection \<open>The orbits\<close>

text \<open>An angle that starts at 0 and moves by \<open>-d\<close> each frame, reduced with C's
  \<open>%\<close>, is \<open>-(d n mod 2^16)\<close> after \<open>n\<close> frames: it stays in \<open>(-2^16, 0]\<close>,
  so the addition never overflows.\<close>

lemma angle_step_closed:
  assumes a: "sint a = - ((d * int n) mod 65536)" and d: "0 < d" "d < 65536"
  shows "sint (word_of_int ((sint a + - d) smod 65536) :: int32) = - ((d * int (Suc n)) mod 65536)"
proof -
  let ?m = "(d * int n) mod 65536"
  have m: "0 \<le> ?m" "?m < 65536" by simp_all
  have "(sint a + - d) smod 65536 = - ((?m + d) mod 65536)"
    using a m d by (simp add: smod_int_alt_def sgn_if abs_if add.commute)
  also have "(?m + d) mod 65536 = (d * int n + d) mod 65536"
    by (rule mod_add_left_eq)
  also have "d * int n + d = d * int (Suc n)"
    by (simp add: algebra_simps)
  finally have e: "(sint a + - d) smod 65536 = - ((d * int (Suc n)) mod 65536)" .
  have "0 \<le> (d * int (Suc n)) mod 65536" "(d * int (Suc n)) mod 65536 < 65536" by simp_all
  then show ?thesis
    unfolding e by (intro sint_word_of_int32) simp_all
qed

lemma demo_run_angles:
  assumes "sint (earth_angle s) = - ((728 * int n) mod 65536)"
    and "sint (moon_angle s) = - ((1638 * int m) mod 65536)"
  shows "sint (earth_angle (demo_run F trig evs s)) = - ((728 * int (n + count_list evs Frame)) mod 65536) \<and>
         sint (moon_angle (demo_run F trig evs s)) = - ((1638 * int (m + count_list evs Frame)) mod 65536)"
  using assms unfolding demo_run_def
proof (induction evs arbitrary: s n m)
  case Nil
  then show ?case by simp
next
  case (Cons e evs)
  show ?case
  proof (cases e)
    case Tick
    with Cons show ?thesis by (simp add: time_handler_fields)
  next
    case Frame
    have "sint (earth_angle (frame_state F trig s)) = - ((728 * int (Suc n)) mod 65536)"
      "sint (moon_angle (frame_state F trig s)) = - ((1638 * int (Suc m)) mod 65536)"
      using angle_step_closed [of "earth_angle s" 728 n] angle_step_closed [of "moon_angle s" 1638 m]
        Cons.prems
      by (simp_all add: frame_state_fields demo_offsets)
    with Cons.IH[of "frame_state F trig s" "Suc n" "Suc m"] Frame show ?thesis by simp
  qed
qed

subsection \<open>The star loop\<close>

lemma star_loop_from:
  assumes "k \<le> NUM_STARS"
  shows "while_option (\<lambda>(index, cmds). index < NUM_STARS) (star_step ts sec)
           (k, map (\<lambda>i. DrawPixel (GPointFromGPointPrecise (gpoint_transform (stars ! i) (Some ts))))
                 (filter (\<lambda>i. int i smod 3 \<noteq> uint sec smod 3) [0..<k])) =
         Some (NUM_STARS, map (\<lambda>i. DrawPixel (GPointFromGPointPrecise (gpoint_transform (stars ! i) (Some ts))))
                 (filter (\<lambda>i. int i smod 3 \<noteq> uint sec smod 3) [0..<NUM_STARS]))"
  using assms
proof (induction "NUM_STARS - k" arbitrary: k)
  case 0
  then have "k = NUM_STARS" by simp
  then show ?case by (subst while_option_unfold) simp
next
  case (Suc n)
  then have "k < NUM_STARS" "n = NUM_STARS - Suc k" "Suc k \<le> NUM_STARS" by simp_all
  with Suc.hyps(1) [of "Suc k"] show ?case
    by (subst while_option_unfold) (simp add: star_step_def split: if_split_asm)
qed

subsection \<open>The seconds counter\<close>

lemma time_handler_seconds:
  "time_handler s = s\<lparr>seconds_index := seconds_index (time_handler s),
                      seconds_count := seconds_count (time_handler s)\<rparr>"
  by (simp add: time_handler_def Let_def)

lemma frame_state_seconds:
  "frame_state F trig (s\<lparr>seconds_index := i, seconds_count := n\<rparr>) =
   (frame_state F trig s)\<lparr>seconds_index := i, seconds_count := n\<rparr>"
  by (simp add: frame_state_def frame_bodies_def frame_scale_update_def Let_def)

lemma time_handler_frame_state:
  "time_handler (frame_state F trig s) = frame_state F trig (time_handler s)"
  by (subst (2) time_handler_seconds, subst frame_state_seconds)
    (simp add: time_handler_def frame_state_fields Let_def)

subsection \<open>Invariant of the counters and angles\<close>

lemma angle_step_range:
  assumes "- 65536 < sint a" "sint a \<le> 0" "0 < d" "d < 65536"
  shows "- 65536 < sint (word_of_int ((sint a + - d) smod 65536) :: int32) \<and>
         sint (word_of_int ((sint a + - d) smod 65536) :: int32) \<le> 0"
proof -
  have e: "(sint a + - d) smod 65536 = - ((d - sint a) mod 65536)"
    using assms by (simp add: smod_int_alt_def sgn_if abs_if)
  have "0 \<le> (d - sint a) mod 65536" "(d - sint a) mod 65536 < 65536" by simp_all
  then have "sint (word_of_int (- ((d - sint a) mod 65536)) :: int32) = - ((d - sint a) mod 65536)"
    by (intro sint_word_of_int32) simp_all
  with \<open>(d - sint a) mod 65536 < 65536\<close> show ?thesis
    unfolding e by simp
qed

lemma time_handler_inv:
  assumes "demo_inv s"
  shows "demo_inv (time_handler s)"
proof -
  have c: "uint (seconds_count s + 1) = uint (seconds_count s) + 1"
    using assms by (simp add: demo_inv_def uint_word_ariths)
  have "uint (word_of_int ((uint (seconds_index s) + 1) smod 3) :: uint8) < 3"
    by (simp add: smod_mod_positive uint_word_of_int_eq take_bit_eq_mod)
  with assms c show ?thesis
    by (auto simp: demo_inv_def time_handler_def Let_def)
qed

lemma frame_scale_update_pause:
  "uint (scale_pause_count s) \<le> 40 \<Longrightarrow> uint (scale_pause_count (frame_scale_update F s)) \<le> 40"
  by (simp add: frame_scale_update_def FRAME_RATE_def Let_def uint_word_ariths)

lemma frame_state_inv:
  assumes "demo_inv s"
  shows "demo_inv (frame_state F trig s)"
  using assms frame_scale_update_pause [of s F]
    angle_step_range [of "earth_angle s" 728] angle_step_range [of "moon_angle s" 1638]
  by (simp add: demo_inv_def frame_state_fields demo_offsets)

lemma unat_uint8_succ:
  "unat (c::uint8) < 255 \<Longrightarrow> unat (c + 1) = Suc (unat c)"
  by (simp add: unat_word_ariths)

lemma time_handler_count:
  assumes "unat (seconds_count s) < 6"
  shows "time_handler s = s\<lparr>seconds_count := seconds_count s + 1\<rparr>"
proof -
  have "uint (seconds_count s + 1) = int (Suc (unat (seconds_count s)))"
    using assms by (simp only: uint_nat unat_uint8_succ)
  with assms have "\<not> 6 < uint (seconds_count s + 1)" by linarith
  then show ?thesis by (simp add: time_handler_def Let_def)
qed

lemma time_handler_wrap:
  assumes "unat (seconds_count s) = 6"
  shows "time_handler s =
           s\<lparr>seconds_index := word_of_int ((uint (seconds_index s) + 1) smod 3), seconds_count := 0\<rparr>"
proof -
  have "uint (seconds_count s + 1) = int (Suc (unat (seconds_count s)))"
    using assms by (simp only: uint_nat unat_uint8_succ)
  with assms show ?thesis by (simp add: time_handler_def Let_def)
qed

lemma frame_state_scale:
  "scale_factor (frame_state F trig s) = scale_factor (frame_scale_update F s)"
  "scale_up (frame_state F trig s) = scale_up (frame_scale_update F s)"
  by (simp_all add: frame_state_def frame_bodies_def Let_def)

lemma frame_scale_update_count:
  assumes "unat (scale_pause_count s) < 40"
  shows "frame_scale_update F s = s\<lparr>scale_pause_count := scale_pause_count s + 1\<rparr>"
proof -
  have "uint (scale_pause_count s) < 40"
    using assms by (simp only: uint_nat)
  then show ?thesis by (simp add: frame_scale_update_def FRAME_RATE_def)
qed

lemma frame_scale_update_step:
  assumes "unat (scale_pause_count s) = 40"
  shows "scale_factor (frame_scale_update F s) = fl_step F (scale_up s) (scale_factor s)"
proof -
  have "uint (scale_pause_count s) = 40"
    using assms by (simp only: uint_nat)
  then show ?thesis by (simp add: frame_scale_update_def FRAME_RATE_def Let_def)
qed

subsection \<open>Properties of the demo\<close>

text \<open>Claim C24.  The \<open>for\<close> loop of \<open>draw_star_background\<close> terminates after
  \<open>NUM_STARS\<close> iterations and draws, in index order, exactly the stars whose
  index is not in the hidden third \<open>s_seconds_index % 3\<close>, each at its scaled
  position.\<close>

theorem star_loop_result:
  "star_loop ts sec =
     Some (NUM_STARS, map (\<lambda>i. DrawPixel (GPointFromGPointPrecise (gpoint_transform (stars ! i) (Some ts))))
                        (filter (\<lambda>i. int i smod 3 \<noteq> uint sec smod 3) [0..<NUM_STARS]))"
  using star_loop_from [of 0 ts sec] by (simp add: star_loop_def)

text \<open>Claim C25.  Whatever the events, the app's counters never wrap and its
  angles stay in \<open>(-TRIG_MAX_ANGLE, 0]\<close>: in every state reachable from
  \<open>init\<close>, \<open>s_seconds_count \<le> 6\<close>, \<open>s_seconds_index < 3\<close>,
  \<open>s_scale_pause_count \<le> 40\<close>, and both angles lie in that window, so the
  additions to them never overflow.\<close>

theorem demo_reach_inv:
  assumes "demo_reach F trig c s"
  shows "demo_inv s"
  using assms
proof (induction rule: demo_reach.induct)
  case reach_start
  show ?case by (simp add: demo_inv_def demo_init_def)
next
  case (reach_event s e)
  then show ?case by (cases e) (simp_all add: time_handler_inv frame_state_inv)
qed

text \<open>Claim C26.  The hidden third of the stars keeps moving: from a state whose
  seconds counter is at most 6, after \<open>7 - s_seconds_count\<close> ticks the index
  has advanced by one modulo 3, the counter is back at 0, and nothing else has
  changed.\<close>

theorem time_handler_rotates_stars:
  assumes "unat (seconds_count s) \<le> 6"
  shows "(time_handler ^^ (7 - unat (seconds_count s))) s =
           s\<lparr>seconds_index := word_of_int ((uint (seconds_index s) + 1) smod 3), seconds_count := 0\<rparr>"
  using assms
proof (induction "6 - unat (seconds_count s)" arbitrary: s)
  case 0
  then have "unat (seconds_count s) = 6" by simp
  then show ?case
    by (simp add: time_handler_wrap numeral_eq_Suc)
next
  case (Suc n)
  let ?s' = "s\<lparr>seconds_count := seconds_count s + 1\<rparr>"
  have lt: "unat (seconds_count s) < 6" using Suc.hyps(2) by simp
  then have u: "unat (seconds_count ?s') = Suc (unat (seconds_count s))"
    by (simp add: unat_uint8_succ)
  have "(time_handler ^^ (7 - unat (seconds_count ?s'))) ?s' =
          ?s'\<lparr>seconds_index := word_of_int ((uint (seconds_index ?s') + 1) smod 3), seconds_count := 0\<rparr>"
    using Suc.hyps(2) Suc.prems u by (intro Suc.hyps(1)) simp_all
  moreover have "7 - unat (seconds_count s) = Suc (7 - unat (seconds_count ?s'))"
    using lt u by simp
  ultimately show ?case
    by (simp only: funpow_Suc_right comp_apply time_handler_count [OF lt]) simp
qed

text \<open>Claim C28.  The earth returns to its starting angle exactly every 8192
  frames and the moon exactly every 32768 frames, whatever ticks come in
  between: \<open>-DEG_TO_TRIG_ANGLE(4) = -728\<close> and \<open>-DEG_TO_TRIG_ANGLE(9) = -1638\<close>
  reduced modulo \<open>TRIG_MAX_ANGLE\<close> have these orders.\<close>

theorem demo_orbit_period:
  "(earth_angle (demo_run F trig evs (demo_init F c)) = 0 \<longleftrightarrow> 8192 dvd count_list evs Frame) \<and>
   (moon_angle (demo_run F trig evs (demo_init F c)) = 0 \<longleftrightarrow> 32768 dvd count_list evs Frame)"
proof -
  let ?k = "count_list evs Frame"
  have a: "sint (earth_angle (demo_run F trig evs (demo_init F c))) = - ((728 * int ?k) mod 65536)"
    "sint (moon_angle (demo_run F trig evs (demo_init F c))) = - ((1638 * int ?k) mod 65536)"
    using demo_run_angles [of "demo_init F c" 0 0 F trig evs] by (simp_all add: demo_init_def)
  have "(8 * 91 * int ?k) mod (8 * int 8192) = 0 \<longleftrightarrow> 8192 dvd ?k"
    by (rule mult_mod_eq_0_iff_dvd [where u = 4051 and v = "-45"]) simp_all
  moreover have "(2 * 819 * int ?k) mod (2 * int 32768) = 0 \<longleftrightarrow> 32768 dvd ?k"
    by (rule mult_mod_eq_0_iff_dvd [where u = 12283 and v = "-307"]) simp_all
  ultimately show ?thesis
    using a by (simp flip: sint_eq_0_iff)
qed

text \<open>Claim C29.  Ticks and frames commute on the state: the state after any
  interleaving of events is the state after all its ticks followed by all its
  frames.\<close>

theorem demo_run_interleaving:
  "demo_run F trig evs s =
     (frame_state F trig ^^ count_list evs Frame) ((time_handler ^^ count_list evs Tick) s)"
proof -
  have comm: "(time_handler ^^ n) (frame_state F trig s) = frame_state F trig ((time_handler ^^ n) s)" for n s
    by (induction n) (simp_all add: time_handler_frame_state)
  show ?thesis
    unfolding demo_run_def
  proof (induction evs arbitrary: s)
    case Nil
    then show ?case by simp
  next
    case (Cons e evs)
    then show ?case
      by (cases e) (simp_all add: comm funpow_Suc_right del: funpow.simps)
  qed
qed

text \<open>Claim C27.  The planets keep breathing: from a state whose pause counter is
  at most \<open>FRAME_RATE * 2 = 40\<close>, after \<open>41 - s_scale_pause_count\<close> frames
  the scale factor has taken one step of \<open>\<plusminus>0.05\<close> in the current
  direction, whatever the trigonometric tables and the float arithmetic.\<close>

theorem frame_scale_steps:
  assumes "unat (scale_pause_count s) \<le> 40"
  shows "scale_factor ((frame_state F trig ^^ (41 - unat (scale_pause_count s))) s) =
           fl_step F (scale_up s) (scale_factor s)"
  using assms
proof (induction "40 - unat (scale_pause_count s)" arbitrary: s)
  case 0
  then have "unat (scale_pause_count s) = 40" by simp
  then show ?case
    by (simp add: frame_state_scale frame_scale_update_step numeral_eq_Suc)
next
  case (Suc n)
  let ?s' = "frame_state F trig s"
  have lt: "unat (scale_pause_count s) < 40" using Suc.hyps(2) by simp
  have f: "frame_scale_update F s = s\<lparr>scale_pause_count := scale_pause_count s + 1\<rparr>"
    using lt by (rule frame_scale_update_count)
  have u: "unat (scale_pause_count ?s') = Suc (unat (scale_pause_count s))"
    using lt by (simp add: frame_state_fields f unat_uint8_succ)
  have k: "scale_factor ?s' = scale_factor s" "scale_up ?s' = scale_up s"
    by (simp_all add: frame_state_scale f)
  have "scale_factor ((frame_state F trig ^^ (41 - unat (scale_pause_count ?s'))) ?s') =
          fl_step F (scale_up ?s') (scale_factor ?s')"
    using Suc.hyps(2) u by (intro Suc.hyps(1)) simp_all
  moreover have "41 - unat (scale_pause_count s) = Suc (41 - unat (scale_pause_count ?s'))"
    using lt u by simp
  ultimately show ?case
    by (simp only: funpow_Suc_right comp_apply k)
qed

subsection \<open>Witnesses\<close>

theorem demo_reach_inv_witness:
  "demo_reach centi_float \<lparr>cos_lookup = \<lambda>_. 0, sin_lookup = \<lambda>_. 65535\<rparr> (GPoint 72 84)
     (demo_step centi_float \<lparr>cos_lookup = \<lambda>_. 0, sin_lookup = \<lambda>_. 65535\<rparr> Frame
        (demo_init centi_float (GPoint 72 84))) \<and>
   demo_inv (demo_step centi_float \<lparr>cos_lookup = \<lambda>_. 0, sin_lookup = \<lambda>_. 65535\<rparr> Frame
        (demo_init centi_float (GPoint 72 84)))"
proof -
  have r: "demo_reach centi_float \<lparr>cos_lookup = \<lambda>_. 0, sin_lookup = \<lambda>_. 65535\<rparr> (GPoint 72 84)
     (demo_step centi_float \<lparr>cos_lookup = \<lambda>_. 0, sin_lookup = \<lambda>_. 65535\<rparr> Frame
        (demo_init centi_float (GPoint 72 84)))"
    by (rule demo_reach.reach_event [OF demo_reach.reach_start])
  show ?thesis
    using r demo_reach_inv [OF r] by (rule conjI)
qed

theorem time_handler_rotates_stars_witness:
  "unat (seconds_count (demo_init centi_float (GPoint 72 84))) \<le> 6 \<and>
   (time_handler ^^ 7) (demo_init centi_float (GPoint 72 84)) =
     (demo_init centi_float (GPoint 72 84))\<lparr>seconds_index := 1, seconds_count := 0\<rparr>"
  using time_handler_rotates_stars [of "demo_init centi_float (GPoint 72 84)"]
  by (simp add: demo_init_def smod_int_alt_def)

theorem frame_scale_steps_witness:
  "unat (scale_pause_count (demo_init centi_float (GPoint 72 84))) \<le> 40 \<and>
   scale_factor ((frame_state centi_float \<lparr>cos_lookup = \<lambda>_. 0, sin_lookup = \<lambda>_. 65535\<rparr> ^^ 41)
     (demo_init centi_float (GPoint 72 84))) = 105"
  using frame_scale_steps [of "demo_init centi_float (GPoint 72 84)" centi_float
      "\<lparr>cos_lookup = \<lambda>_. 0, sin_lookup = \<lambda>_. 65535\<rparr>"]
  by (simp add: demo_init_def centi_float_def)

end
