(* ===== verification/Demo_Float.thy ===== *)
theory Demo_Float
  imports Demo
begin

text \<open>
  The demo's scale factor with the arithmetic of C.  \<open>s_scale_factor\<close> is a
  \<open>float\<close>; \<open>MAX_SCALE\<close>, \<open>MIN_SCALE\<close> and the literals \<open>0.05\<close> are
  \<open>double\<close> constants.  \<open>s_scale_factor += s_scale_up ? 0.05 : -0.05\<close>
  converts the factor to \<open>double\<close>, adds in \<open>double\<close> and rounds the sum back
  to \<open>float\<close>; the comparisons are made in \<open>double\<close>, exactly;
  \<open>GTransformScaleFromNumber\<close> of the factor multiplies in \<open>float\<close>, of
  \<open>s_scale_factor + MIN_SCALE\<close> in \<open>double\<close>.  \<open>c_float_ops\<close> is this
  instance of the interface \<open>float_ops\<close> of \<open>Demo\<close>, with a \<open>float\<close> value
  held as the rational it denotes.
\<close>

definition MAX_SCALE :: rat where
  "MAX_SCALE = double_of (3 / 2)"

definition MIN_SCALE :: rat where
  "MIN_SCALE = double_of (1 / 2)"

definition scale_step :: "bool \<Rightarrow> rat \<Rightarrow> rat" where
  "scale_step up x =
     float_of (double_of (x + (if up then double_of (5 / 100) else - double_of (5 / 100))))"

definition c_float_ops :: "rat float_ops" where
  "c_float_ops =
     \<lparr>fl_one = float_of 1, fl_step = scale_step,
      fl_ge_max = (\<lambda>x. MAX_SCALE \<le> x), fl_le_min = (\<lambda>x. x \<le> MIN_SCALE),
      fl_number = GTransformNumberFromFloat,
      fl_star_number = (\<lambda>x. GTransformNumberFromDouble (double_of (x + MIN_SCALE)))\<rparr>"

text \<open>The invariant of the scaling state: growing from at least \<open>2/5\<close> to below
  \<open>MAX_SCALE\<close>, or shrinking from at most \<open>8/5\<close> to above \<open>MIN_SCALE\<close>,
  with a \<open>float\<close> value.\<close>

definition scale_inv :: "rat demo_state \<Rightarrow> bool" where
  "scale_inv s =
     (is_float 24 (scale_factor s) \<and>
      (if scale_up s then 2 / 5 \<le> scale_factor s \<and> scale_factor s < MAX_SCALE
       else MIN_SCALE < scale_factor s \<and> scale_factor s \<le> 8 / 5))"

text \<open>The part of the state the scaling reads and writes.\<close>

definition scale_part :: "'f demo_state \<Rightarrow> 'f \<times> bool \<times> uint8" where
  "scale_part s = (scale_factor s, scale_up s, scale_pause_count s)"

subsection \<open>The constants\<close>

lemma scale_constants:
  "MAX_SCALE = 3 / 2" "MIN_SCALE = 1 / 2" "float_of 1 = 1"
proof -
  have "is_float 53 (of_int 3 * power_int 2 (-1))" "is_float 53 (of_int 1 * power_int 2 (-1))"
    by (rule is_float_dyadic; simp)+
  then show "MAX_SCALE = 3 / 2" "MIN_SCALE = 1 / 2"
    using round_prec_float_id [of 53 "3 / 2"] round_prec_float_id [of 53 "1 / 2"]
    by (simp_all add: MAX_SCALE_def MIN_SCALE_def double_of_def power_int_minus)
  show "float_of 1 = 1"
    using round_prec_float_id [of 24 1] by (simp add: float_of_def)
qed

subsection \<open>One step of the scale factor\<close>

text \<open>A step moves a factor of magnitude at most \<open>2\<close> by \<open>\<plusminus>1/20\<close> up to an
  error below \<open>1/100\<close>: three roundings, each relative error at most
  \<open>2^-24\<close>.\<close>

lemma abs_le_small:
  "\<bar>y\<bar> \<le> c \<Longrightarrow> c \<le> (1 / 1000000 :: rat) \<Longrightarrow> y \<le> 1 / 1000000 \<and> - y \<le> 1 / 1000000"
  by linarith

lemma scale_step_error:
  assumes "\<bar>x\<bar> \<le> 2"
  shows "\<bar>scale_step up x - (x + (if up then 1 / 20 else - (1 / 20)))\<bar> \<le> 1 / 100"
proof -
  define e :: rat where "e = (if up then 1 / 20 else - (1 / 20))"
  define d where "d = double_of (5 / 100)"
  define a where "a = x + (if up then d else - d)"
  define b where "b = double_of a"
  have "\<bar>d - 1 / 20\<bar> \<le> (1 / 20) / 2 ^ 53"
    using round_prec_rel_error [of 53 "5 / 100"] by (simp add: d_def double_of_def)
  then have "\<bar>a - (x + e)\<bar> \<le> (1 / 20) / 2 ^ 53"
    by (cases up) (simp_all add: a_def e_def abs_minus_commute)
  then have a1: "a - (x + e) \<le> 1 / 1000000 \<and> - (a - (x + e)) \<le> 1 / 1000000"
    by (rule abs_le_small) simp
  have e1: "e \<le> 1 / 20" "- e \<le> 1 / 20" by (simp_all add: e_def)
  have x1: "x \<le> 2" "- x \<le> 2" using assms by simp_all
  have "\<bar>b - a\<bar> \<le> \<bar>a\<bar> / 2 ^ 53"
    using round_prec_rel_error [of 53 a] by (simp add: b_def double_of_def)
  moreover have "\<bar>a\<bar> \<le> 3" using a1 e1 x1 by linarith
  ultimately have "\<bar>b - a\<bar> \<le> 3 / 2 ^ 53"
    by (meson divide_right_mono order_trans zero_le_numeral zero_le_power)
  then have b1: "b - a \<le> 1 / 1000000 \<and> - (b - a) \<le> 1 / 1000000"
    by (rule abs_le_small) simp
  have "\<bar>float_of b - b\<bar> \<le> \<bar>b\<bar> / 2 ^ 24"
    using round_prec_rel_error [of 24 b] by (simp add: float_of_def)
  moreover have "\<bar>b\<bar> \<le> 4" using a1 b1 e1 x1 by linarith
  ultimately have "\<bar>float_of b - b\<bar> \<le> 4 / 2 ^ 24"
    by (meson divide_right_mono order_trans zero_le_numeral zero_le_power)
  then have c1: "float_of b - b \<le> 1 / 1000000 \<and> - (float_of b - b) \<le> 1 / 1000000"
    by (rule abs_le_small) simp
  have "scale_step up x = float_of b"
    by (simp add: scale_step_def b_def a_def d_def)
  then show ?thesis
    unfolding e_def [symmetric] using a1 b1 c1 by (simp only: abs_le_iff) linarith
qed

subsection \<open>The scale factor stays between 2/5 and 8/5\<close>

lemma scale_step_float: "is_float 24 (scale_step up x)"
  unfolding scale_step_def float_of_def by (rule round_prec_is_float) simp

lemma scale_inv_cong:
  "scale_factor t = scale_factor s \<Longrightarrow> scale_up t = scale_up s \<Longrightarrow> scale_inv t = scale_inv s"
  by (simp add: scale_inv_def)

lemma scale_inv_init: "scale_inv (demo_init c_float_ops c)"
  by (simp add: scale_inv_def demo_init_def c_float_ops_def scale_constants)

lemma scale_inv_step:
  assumes "scale_inv s"
  shows "scale_inv (frame_scale_update c_float_ops s)"
proof (cases "uint (scale_pause_count s) < FRAME_RATE * 2")
  case True
  then have "frame_scale_update c_float_ops s = s\<lparr>scale_pause_count := scale_pause_count s + 1\<rparr>"
    by (simp add: frame_scale_update_def)
  then show ?thesis using assms scale_inv_cong [of "frame_scale_update c_float_ops s" s] by simp
next
  case False
  define f' where "f' = scale_step (scale_up s) (scale_factor s)"
  have "\<bar>scale_factor s\<bar> \<le> 2"
    using assms by (auto simp: scale_inv_def scale_constants split: if_splits)
  then have err: "\<bar>f' - (scale_factor s + (if scale_up s then 1 / 20 else - (1 / 20)))\<bar> \<le> 1 / 100"
    unfolding f'_def by (rule scale_step_error)
  note err1 = abs_le_D1 [OF err] and err2 = abs_le_D2 [OF err]
  have fl: "is_float 24 f'" unfolding f'_def by (rule scale_step_float)
  have "scale_inv (if 3 / 2 \<le> f' then s\<lparr>scale_factor := f', scale_up := False, scale_pause_count := 0\<rparr>
                   else if f' \<le> 1 / 2 then s\<lparr>scale_factor := f', scale_up := True, scale_pause_count := 0\<rparr>
                   else s\<lparr>scale_pause_count := word_of_int (FRAME_RATE * 2), scale_factor := f'\<rparr>)"
    using assms err1 err2 fl by (auto simp: scale_inv_def scale_constants split: if_splits; linarith)
  moreover have "frame_scale_update c_float_ops s =
      (if 3 / 2 \<le> f' then s\<lparr>scale_factor := f', scale_up := False, scale_pause_count := 0\<rparr>
       else if f' \<le> 1 / 2 then s\<lparr>scale_factor := f', scale_up := True, scale_pause_count := 0\<rparr>
       else s\<lparr>scale_pause_count := word_of_int (FRAME_RATE * 2), scale_factor := f'\<rparr>)"
    using False unfolding f'_def
    by (simp add: frame_scale_update_def c_float_ops_def scale_constants Let_def FRAME_RATE_def)
  ultimately show ?thesis by (simp only:)
qed

lemma scale_inv_demo_step:
  "scale_inv s \<Longrightarrow> scale_inv (demo_step c_float_ops trig e s)"
  using scale_inv_cong [of "time_handler s" s] scale_inv_step [of s]
    scale_inv_cong [of "frame_state c_float_ops trig s" "frame_scale_update c_float_ops s"]
  by (cases e) (simp_all add: time_handler_fields frame_state_scale)

subsection \<open>Frames act on the scaling state alone\<close>

lemma scale_part_frame_state:
  "scale_part (frame_state F trig s) = scale_part (frame_scale_update F s)"
  by (simp add: scale_part_def frame_state_scale frame_state_fields)

lemma scale_part_update_cong:
  "scale_part s = scale_part t \<Longrightarrow> scale_part (frame_scale_update F s) = scale_part (frame_scale_update F t)"
  by (simp add: scale_part_def frame_scale_update_def Let_def)

lemma scale_part_frame_state_pow:
  "scale_part ((frame_state F trig ^^ n) s) = scale_part (iterate n (frame_scale_update F) s)"
proof (induction n)
  case 0
  then show ?case by simp
next
  case (Suc n)
  have "scale_part ((frame_state F trig ^^ Suc n) s) =
      scale_part (frame_scale_update F ((frame_state F trig ^^ n) s))"
    by (simp add: scale_part_frame_state)
  also have "\<dots> = scale_part (frame_scale_update F (iterate n (frame_scale_update F) s))"
    using Suc.IH by (rule scale_part_update_cong)
  also have "\<dots> = scale_part (iterate (Suc n) (frame_scale_update F) s)"
    by (simp only: iterate_Suc_last)
  finally show ?case .
qed

lemma scale_part_50:
  "scale_part (iterate 50 (frame_scale_update c_float_ops) (demo_init c_float_ops c)) =
     (3145727 / 2097152, True, 40)"
  by code_simp

lemma scale_part_51:
  "scale_part (frame_scale_update c_float_ops
      (demo_init c_float_ops c\<lparr>scale_factor := 3145727 / 2097152, scale_pause_count := 40\<rparr>)) =
     (6501169 / 4194304, False, 0)"
  by code_simp

subsection \<open>Properties\<close>

text \<open>Claim C30.  With the arithmetic of C, in every state the app reaches the
  scale factor is a \<open>float\<close> value between \<open>2/5\<close> and \<open>8/5\<close>: the bounce
  between \<open>MIN_SCALE\<close> and \<open>MAX_SCALE\<close> overshoots each by less than one
  step of \<open>0.05\<close>, whatever the rounding.\<close>

theorem scale_factor_bounds:
  assumes "demo_reach c_float_ops trig c s"
  shows "is_float 24 (scale_factor s) \<and> 2 / 5 \<le> scale_factor s \<and> scale_factor s \<le> 8 / 5"
proof -
  from assms have "scale_inv s"
    by (induction rule: demo_reach.induct) (simp_all add: scale_inv_init scale_inv_demo_step)
  then show ?thesis
    by (auto simp: scale_inv_def scale_constants split: if_splits)
qed

text \<open>The demo's scaling overshoots \<open>MAX_SCALE\<close>: ten steps of \<open>+0.05\<close> from
  \<open>1\<close> in \<open>float\<close> give \<open>1.4999995\<close>, below \<open>MAX_SCALE\<close>, so the 50th frame does
  not turn the scaling round; the 51st takes an eleventh step to \<open>1.5499995\<close>,
  beyond \<open>MAX_SCALE\<close>, and turns it round there.\<close>

lemma scale_overshoot:
  "scale_factor ((frame_state c_float_ops trig ^^ 50) (demo_init c_float_ops c)) = 3145727 / 2097152 \<and>
   3145727 / 2097152 < MAX_SCALE \<and>
   scale_factor ((frame_state c_float_ops trig ^^ 51) (demo_init c_float_ops c)) = 6501169 / 4194304 \<and>
   MAX_SCALE < 6501169 / 4194304 \<and>
   \<not> scale_up ((frame_state c_float_ops trig ^^ 51) (demo_init c_float_ops c))"
proof -
  let ?s50 = "iterate 50 (frame_scale_update c_float_ops) (demo_init c_float_ops c)"
  have p50: "scale_part ((frame_state c_float_ops trig ^^ 50) (demo_init c_float_ops c)) =
      (3145727 / 2097152, True, 40)"
    by (simp only: scale_part_frame_state_pow scale_part_50)
  have "scale_part ?s50 =
      scale_part (demo_init c_float_ops c\<lparr>scale_factor := 3145727 / 2097152, scale_pause_count := 40\<rparr>)"
    unfolding scale_part_50 by (simp add: scale_part_def demo_init_def)
  then have "scale_part (frame_scale_update c_float_ops ?s50) =
      scale_part (frame_scale_update c_float_ops
        (demo_init c_float_ops c\<lparr>scale_factor := 3145727 / 2097152, scale_pause_count := 40\<rparr>))"
    by (rule scale_part_update_cong)
  also have "\<dots> = (6501169 / 4194304, False, 0)"
    by (rule scale_part_51)
  finally have "scale_part (frame_scale_update c_float_ops ?s50) = (6501169 / 4194304, False, 0)" .
  moreover have "iterate 51 (frame_scale_update c_float_ops) (demo_init c_float_ops c) =
      frame_scale_update c_float_ops ?s50"
    using iterate_Suc_last [of 50 "frame_scale_update c_float_ops" "demo_init c_float_ops c"] by simp
  ultimately have p51: "scale_part ((frame_state c_float_ops trig ^^ 51) (demo_init c_float_ops c)) =
      (6501169 / 4194304, False, 0)"
    by (simp only: scale_part_frame_state_pow)
  show ?thesis
    using p50 p51 by (simp add: scale_part_def scale_constants)
qed

subsection \<open>Witnesses\<close>

theorem scale_factor_bounds_witness:
  "demo_reach c_float_ops \<lparr>cos_lookup = \<lambda>_. 0, sin_lookup = \<lambda>_. 65535\<rparr> (GPoint 72 84)
     (demo_step c_float_ops \<lparr>cos_lookup = \<lambda>_. 0, sin_lookup = \<lambda>_. 65535\<rparr> Frame
        (demo_init c_float_ops (GPoint 72 84))) \<and>
   is_float 24 (scale_factor (demo_step c_float_ops \<lparr>cos_lookup = \<lambda>_. 0, sin_lookup = \<lambda>_. 65535\<rparr> Frame
        (demo_init c_float_ops (GPoint 72 84))))"
proof -
  have r: "demo_reach c_float_ops \<lparr>cos_lookup = \<lambda>_. 0, sin_lookup = \<lambda>_. 65535\<rparr> (GPoint 72 84)
     (demo_step c_float_ops \<lparr>cos_lookup = \<lambda>_. 0, sin_lookup = \<lambda>_. 65535\<rparr> Frame
        (demo_init c_float_ops (GPoint 72 84)))"
    by (rule demo_reach.reach_event [OF demo_reach.reach_start])
  show ?thesis
    using r scale_factor_bounds [OF r] by simp
qed

end
