(* ===== verification/Spec2Isabelle.thy ===== *)
theory Spec2Isabelle
  imports GTransform_Program Affine_Spec Demo_Float
begin

text \<open>
  \<^bold>\<open>A verification development of gtransform.\<close>  The repository is a
  fixed-point 2D affine-transformation library for Pebble watches, written in
  C under \<^verbatim>\<open>src/src/\<close>.  Its parts, leaf first:

  \<^item> \<^verbatim>\<open>math_fixed.h\<close>: the scalars \<open>Fixed_S16_3\<close> (16-bit, 3 fraction bits)
    and \<open>Fixed_S32_16\<close> (32-bit, 16 fraction bits) as unions of a raw value and
    an integer/fraction bit-field view, and the macros that add, subtract,
    compare and multiply them, including the mixed product
    \<open>Fixed_S16_3_S32_16_mul\<close>.  Theory \<open>Math_Fixed\<close>.
  \<^item> \<^verbatim>\<open>gtypes.h\<close>, \<^verbatim>\<open>gtypes.c\<close>: precise points and vectors (pairs of
    \<open>Fixed_S16_3\<close>), the conversions from and to integer points and vectors,
    and the equality functions.  Theory \<open>GTypes\<close>.
  \<^item> \<^verbatim>\<open>gtypes.h\<close>, \<^verbatim>\<open>gtransform.h\<close>: the transform \<open>GTransform\<close>
    (six \<open>Fixed_S32_16\<close> coefficients, row-vector convention) and its
    constructor macros.  \<^verbatim>\<open>gtransform.c\<close>: the rotation initialiser, the
    classification predicates, and the arithmetic of concatenation, scaling and
    translation on the values read.  Theory \<open>GTransform\<close>.
  \<^item> \<^verbatim>\<open>gtransform.c\<close>: the mutating functions \<open>gtransform_concat\<close>,
    \<open>gtransform_scale\<close>, \<open>gtransform_translate\<close>, \<open>gtransform_rotate\<close> and
    \<open>gtransform_invert\<close> with their pointer arguments, and the macros
    \<open>gtransform_scale_number\<close> and \<open>gtransform_translate_number\<close> of
    \<^verbatim>\<open>gtransform.h\<close> that call them.  Theory
    \<open>GTransform_Ops\<close>: memory is a store \<open>gptr \<Rightarrow> GTransform\<close>, a pointer an
    address option (\<open>None\<close> is \<open>NULL\<close>), each C assignment one store update in
    source order, so that the output may alias an input exactly as in C.
  \<^item> \<^verbatim>\<open>gtransform.c\<close>: \<open>gpoint_transform\<close> and \<open>gvector_transform\<close>, which
    apply a transform to an integer point or vector.  Theory \<open>GTransform_Apply\<close>.
  \<^item> C floating-point arithmetic, which the demo uses on its scale factor and
    passes to \<open>GTransformNumberFromNumber\<close>.  Theory \<open>C_Float\<close>: a
    \<open>float\<close> or \<open>double\<close> value is the rational it denotes, an operation
    rounds the exact result to a 24- or 53-bit significand (\<open>round_prec\<close>,
    \<open>float_of\<close>, \<open>double_of\<close>), a conversion to an integer truncates
    (\<open>c_trunc\<close>).  The macro on floating arguments is
    \<open>GTransformNumberFromFloat\<close> and \<open>GTransformNumberFromDouble\<close> in
    \<open>GTransform\<close>.
  \<^item> \<^verbatim>\<open>test_gtransform.c\<close>: the demo watch app, a sun, earth and moon
    turning over a field of stars.  Theory \<open>Demo\<close>: its static globals are the
    record \<open>demo_state\<close>, \<open>init\<close> is \<open>demo_init\<close>, the tick handler
    \<open>time_handler\<close>, and \<open>frame_handler\<close> is \<open>frame_handler\<close>, composed as in
    the C of the scale update \<open>frame_scale_update\<close>, the star loop
    \<open>draw_star_background\<close> (\<open>star_loop\<close>, a \<open>while_option\<close> over
    \<open>star_step\<close>) and the transforms of the three bodies \<open>frame_bodies\<close>,
    which call \<open>gvector_transform\<close>, \<open>gpoint_transform\<close>,
    \<open>GTransformRotation\<close> and \<open>gtransform_concat_val\<close>.  The SDK drawing
    calls are the list of \<open>draw_cmd\<close> values the handler emits, in order;
    \<open>frame_state\<close> is the handler's effect on the globals.  The event loop of
    \<open>main\<close> is a list of \<open>demo_event\<close>s (second ticks and frame timers) folded
    by \<open>demo_run\<close>, and its reachable states the inductive \<open>demo_reach\<close>.

  Two theories stand above the code.  \<open>Affine_Spec\<close> is the mathematical
  contract: transforms as six rationals (\<open>affine\<close>), concatenation as the exact
  matrix product (\<open>aff_concat\<close>), application as \<open>[x y 1] * M\<close>
  (\<open>aff_apply\<close>), rotation by exact cosine and sine (\<open>aff_rotation\<close>), and the
  abstraction \<open>affine_of\<close> of a \<open>GTransform\<close>.  \<open>GTransform_Program\<close> is a
  client: a datatype \<open>gtransform_call\<close> of the calls to the mutating functions
  with their pointer arguments, \<open>gtransform_exec\<close> performing one on the store,
  \<open>gtransform_run\<close> a list of them in order, and the contract
  \<open>gtransform_spec_exec\<close> (write one value, computed from the store before the
  call, at the output, or nothing on \<open>NULL\<close>).

  \<open>Prelude\<close> holds the C integer model shared by all: \<open>int16_t\<close>, \<open>int32_t\<close> and
  \<open>int64_t\<close> are \<open>16 word\<close>, \<open>32 word\<close>, \<open>64 word\<close>; \<open>sint\<close> reads a value, a
  narrowing conversion is \<open>word_of_int\<close> (two's complement wrap, as the ARM
  compilers of the target do), a widening one \<open>scast\<close>, \<open>>>\<close> on a signed value
  is \<open>signed_drop_bit\<close> (arithmetic shift), \<open>/\<close> is \<open>sdiv\<close>.  \<open>int\<close> is 32 bits.
  Arithmetic overflow is not an error in this code (it wraps, by design), so
  the operations return values and not an error sum; \<open>NULL\<close> arguments are the
  only error path, and each is a branch of an option case.

  \<^bold>\<open>What the lemmas show.\<close>
  \<^item> Scalars (\<open>Math_Fixed\<close>): the 32-bit product is the floor of the exact
    scaled product; the mixed product, formed in 32-bit \<open>int\<close> where it
    may wrap, equals the 64-bit reference after narrowing; the bit-field
    view of a raw value and the packing of integer and fraction parts are
    inverse; 16-bit addition and subtraction are exact in range and
    inverse.
  \<^item> Conversions (\<open>GTypes\<close>): integer-to-precise conversion wraps coordinates
    into \<open>[-4096, 4096)\<close>, converting back takes the integer bit field, the
    floor of the coordinate (\<open>GPointFromGPointPrecise_floor\<close>), and so inverts
    the first conversion in that window.
  \<^item> Algebra (\<open>GTransform\<close>): identity is a unit of concatenation, the
    specialised scale and translate compute the general concatenation bit for
    bit, rotation by 0 is the identity and bounded otherwise, the predicates
    classify the constructors and detect shear.
  \<^item> Aliasing (\<open>GTransform_Ops\<close>): every mutating function stores its value
    result at the output and changes nothing else, whether or not the output
    aliases an input; \<open>NULL\<close> arguments make them no-ops;
    \<open>gtransform_invert\<close> is a stub that never succeeds.
  \<^item> Application (\<open>GTransform_Apply\<close>): \<open>NULL\<close> and the identity leave the
    converted point; vectors are translated like points.
  \<^item> Refinement (\<open>Affine_Spec\<close>): for transforms with linear coefficients
    up to 16 and translations up to 512 in magnitude, each coefficient of
    \<open>gtransform_concat\<close> lies below the exact product by less than two units of
    \<open>2^-16\<close> (\<open>gtransform_concat_refines\<close>); \<open>gpoint_transform\<close> lies below the
    exact image by less than \<open>3/8\<close> when that image fits a \<open>Fixed_S16_3\<close>
    (\<open>gpoint_transform_refines\<close>); the rotation matrix is the exact ratio
    truncated towards zero (\<open>gtransform_init_rotation_refines\<close>); and the
    library's control flow, concatenating two transforms and applying the
    result, lands within \<open>3/8 + 1/4 + 2^-15\<close> of applying the two exact
    transforms in turn (\<open>gpoint_transform_concat_refines\<close>).  The bounds
    are those under which no 32-bit sum of the code wraps: products of linear
    coefficients stay below \<open>2^24\<close> and translation terms below \<open>2^30\<close>.
  \<^item> Call sequences (\<open>GTransform_Program\<close>): each call, with any aliasing,
    computes what its contract prescribes (\<open>gtransform_exec_spec\<close>).  The stores
    reachable by a class of calls (the inductive \<open>gtransform_reach\<close>) keep the
    pure translations and the pure scalings that the classification predicates
    recognise, an invariant shown by rule induction
    (\<open>gtransform_reach_only_translation\<close>, \<open>gtransform_reach_only_scale\<close>).
  \<^item> Demo (\<open>Demo\<close>): the star loop terminates with exactly the visible
    stars drawn (\<open>star_loop_result\<close>), so \<open>frame_handler\<close> always
    returns; every reachable state keeps the counters and
    the angles in range, an invariant by rule induction (\<open>demo_reach_inv\<close>);
    the hidden stars move on every seventh tick and the scale factor steps
    after the two-second pause (\<open>time_handler_rotates_stars\<close>,
    \<open>frame_scale_steps\<close>); the earth and moon return to their start
    exactly every 8192 and 32768 frames (\<open>demo_orbit_period\<close>); and ticks
    and frames commute (\<open>demo_run_interleaving\<close>).
  \<^item> Floating point (\<open>C_Float\<close>, \<open>Demo_Float\<close>): the executable rounding
    meets the round-to-nearest contract of IEEE 754
    (\<open>round_prec_correct\<close>), fixes exactly the representable values
    (\<open>round_prec_id_iff\<close>), and errs by at most \<open>2^-24\<close> (\<open>float\<close>) or
    \<open>2^-53\<close> (\<open>double\<close>) of the value (\<open>c_conversion_error\<close>);
    \<open>GTransformNumberFromNumber\<close> of a \<open>float\<close> truncates the exact product
    (\<open>GTransformNumberFromFloat_trunc\<close>) and gives back every coefficient
    whose raw value fits 24 bits (\<open>GTransformNumberFromFloat_roundtrip\<close>).
    With this arithmetic the demo's
    scale factor stays between \<open>2/5\<close> and \<open>8/5\<close> in every reachable state
    (\<open>scale_factor_bounds\<close>, by rule induction over an invariant that pairs
    the factor with its direction).  The lemma \<open>scale_overshoot\<close> evaluates
    the first swing: the factor goes past \<open>MAX_SCALE\<close> to \<open>1.5499995\<close>
    before it turns round.
  \<^item> This theory: end-to-end scenarios of the specification and the
    demo's compositions, and the rounding that makes concatenation
    non-associative (\<open>concat_not_associative\<close>).

  \<^bold>\<open>Interfaces and fixtures.\<close>  The trigonometric tables
  (\<open>cos_lookup\<close>, \<open>sin_lookup\<close>) and \<open>TRIG_MAX_RATIO = 0xffff\<close>,
  \<open>TRIG_MAX_ANGLE = 0x10000\<close> belong to the Pebble SDK, not to the repository:
  they are a record \<open>trig_lookup\<close> passed to the rotation functions, and
  theorems about rotations assume of the tables only what they use (the value
  at the angle at hand, or that it lies within \<open>\<plusminus>TRIG_MAX_RATIO\<close>).  The
  witnesses instantiate the tables by a table exact at the quarter turn
  (\<open>cos = 0\<close>, \<open>sin = TRIG_MAX_RATIO\<close>) and by one holding the rounded values
  at an eighth of a turn (\<open>46340\<close>).  The library has no loops; the
  demo's one loop, over the 60 stars, is a \<open>while_option\<close>, whose result is
  \<open>None\<close> if it does not stop, and \<open>star_loop_result\<close> proves it stops
  with \<open>Some\<close>, by induction on \<open>NUM_STARS - index\<close>; no fuel is used.  The
  demo's \<open>float\<close> scale factor is an interface record \<open>float_ops\<close> of the
  operations the code performs on it (the literal 1, the step of
  \<open>\<plusminus>0.05\<close>, the comparisons with \<open>MAX_SCALE\<close> and \<open>MIN_SCALE\<close>, the
  conversion to a \<open>GTransformNumber\<close>); the theorems of \<open>Demo\<close> hold for
  every instance, and its witnesses use \<open>centi_float\<close>, exact in
  hundredths.  \<open>Demo_Float\<close> instantiates it with the arithmetic of C,
  \<open>c_float_ops\<close>, built on \<open>C_Float\<close>.  Its computation of the first 51
  frames of scaling (\<open>scale_overshoot\<close>) evaluates eleven float steps by
  \<open>code_simp\<close>, through the argument-first iteration \<open>iterate\<close> of
  \<open>Prelude\<close>.  The other
  unbounded iterations, a client's sequence of calls and the demo's
  sequence of events, are lists.

  \<^bold>\<open>Not modelled.\<close>  In the demo, the window, layer and timer handles and
  the functions that only create, register and destroy them
  (\<open>window_load\<close>, \<open>window_unload\<close>, \<open>deinit\<close>, the window part of
  \<open>init\<close>).  In the floating-point model, the exponent range of IEEE 754
  (overflow to infinity, subnormal values) and NaN, which no value of the
  demo comes near; the composed \<open>*FromNumber\<close> macros are definitions for
  integer arguments, and for a floating argument are
  \<open>GTransformNumberFromFloat\<close> or \<open>GTransformNumberFromDouble\<close> applied to
  each coefficient.  The contents of the
  SDK's trigonometric tables; the drawing routines of the SDK that consume the
  commands.
\<close>

lemmas scenario_defs = apply_defs GPoint_def GVector_def GVectorFromGVectorPrecise_def
  GTransformScaleFromNumber_def GTransformTranslationFromNumber_def GTransformNumberFromNumber_def
  GTransformScale_def GTransformTranslation_def GTransform_def GTransformRotation_def
  gtransform_concat_val_def fixed_simps Let_def

subsection \<open>Scenarios across the components\<close>

text \<open>\<open>Scale(2, 2)\<close> built from integers maps the point \<open>(3, 4)\<close> to the
  precise point \<open>(6, 8)\<close>, and \<open>Scale(0.5, 0.5)\<close> maps the vector \<open>(0, 30)\<close> to a
  precise vector that converts back to \<open>(0, 15)\<close>.\<close>

theorem scale_scenario:
  "gpoint_transform (GPoint 3 4) (Some (GTransformScaleFromNumber 2 2)) = GPointPrecise 48 64 \<and>
   GVectorFromGVectorPrecise (gvector_transform (GVector 0 30) (Some (GTransformScale 32768 32768)))
     = GVector 0 15"
  by (simp add: scenario_defs)

text \<open>Concatenation rounds every product down, so the grouping of a chain of
  concatenations matters: with \<open>Scale(3 * 2^-16)\<close>, \<open>Scale(0.5)\<close> and
  \<open>Scale(2)\<close>, grouping the first two gives \<open>a = 2 * 2^-16\<close> and grouping the
  last two \<open>a = 3 * 2^-16\<close>.\<close>

lemma concat_not_associative:
  "gtransform_concat_val (gtransform_concat_val (GTransformScale 3 3) (GTransformScale 32768 32768))
     (GTransformScale 131072 131072) =
   GTransformScale 2 2 \<and>
   gtransform_concat_val (GTransformScale 3 3)
     (gtransform_concat_val (GTransformScale 32768 32768) (GTransformScale 131072 131072)) =
   GTransformScale 3 3"
  by (simp add: gtransform_concat_val_def GTransformScale_def fixed_simps Let_def)

end
